theory Spec2Isabelle
  imports Main "HOL-Library.AList" "HOL-Library.List_Lexorder" "HOL-Library.Char_ord"
begin

chapter \<open>The AZSL symbol-resolution engine (src/extension.js)\<close>

text \<open>
  The extension analyses shader text with line-oriented regular expressions. The model keeps
  that shape: JavaScript strings are \<^typ>\<open>string\<close> (a character of the model is a code
  unit below 256, so the text is taken to hold no code unit above \<open>U+00FF\<close>, and \<open>length\<close> is
  the JavaScript \<open>.length\<close>), a \<open>Map\<close> is an association list in insertion order, a
  \<open>Set\<close> of names is a HOL set, \<open>indexOf\<close> returning \<open>-1\<close> is \<open>None\<close>, and each regular
  expression of the source is a value of the datatype \<open>rx\<close>, run by a backtracking matcher
  that produces the matches in the priority order of the JavaScript engine.
\<close>

section \<open>JavaScript string primitives\<close>

text \<open>
  What \<open>\s\<close> matches and \<open>trim()\<close> removes, among the code units below 256: the six ASCII
  blanks and the no-break space \<open>U+00A0\<close>.
\<close>

definition isSpace :: "char \<Rightarrow> bool" where
  "isSpace c = (c \<in> set [CHR '' '', CHR 0x09, CHR 0x0A, CHR 0x0B, CHR 0x0C, CHR 0x0D, CHR 0xA0])"

definition isDigit :: "char \<Rightarrow> bool" where
  "isDigit c = (c \<in> set ''0123456789'')"

definition isUpper :: "char \<Rightarrow> bool" where
  "isUpper c = (c \<in> set ''ABCDEFGHIJKLMNOPQRSTUVWXYZ'')"

definition isLower :: "char \<Rightarrow> bool" where
  "isLower c = (c \<in> set ''abcdefghijklmnopqrstuvwxyz'')"

definition isIdentStart :: "char \<Rightarrow> bool" where
  "isIdentStart c = (isUpper c \<or> isLower c \<or> c = CHR ''_'')"

definition isWordChar :: "char \<Rightarrow> bool" where
  "isWordChar c = (isUpper c \<or> isLower c \<or> isDigit c \<or> c = CHR ''_'')"

definition oneOf :: "string \<Rightarrow> char \<Rightarrow> bool" where
  "oneOf cs c = (c \<in> set cs)"

definition noneOf :: "string \<Rightarrow> char \<Rightarrow> bool" where
  "noneOf cs c = (c \<notin> set cs)"

text \<open>\<open>s.indexOf(sub)\<close>, counting from \<open>n\<close>: the first position where \<open>sub\<close> starts.\<close>

fun indexOfAux :: "string \<Rightarrow> string \<Rightarrow> nat \<Rightarrow> nat option" where
  "indexOfAux sub [] n = (if sub = [] then Some n else None)"
| "indexOfAux sub (c # cs) n =
     (if take (length sub) (c # cs) = sub then Some n else indexOfAux sub cs (Suc n))"

definition js_indexOf :: "string \<Rightarrow> string \<Rightarrow> nat option" where
  "js_indexOf s sub = indexOfAux sub s 0"

definition js_indexOfFrom :: "string \<Rightarrow> string \<Rightarrow> nat \<Rightarrow> nat option" where
  "js_indexOfFrom s sub k = indexOfAux sub (drop k s) k"

definition js_includes :: "string \<Rightarrow> string \<Rightarrow> bool" where
  "js_includes s sub = (js_indexOf s sub \<noteq> None)"

text \<open>\<open>s.lastIndexOf(sub)\<close>: the last position where \<open>sub\<close> starts.\<close>

fun lastIndexOfAux :: "string \<Rightarrow> string \<Rightarrow> nat \<Rightarrow> nat option \<Rightarrow> nat option" where
  "lastIndexOfAux sub [] n best = (if sub = [] then Some n else best)"
| "lastIndexOfAux sub (c # cs) n best =
     lastIndexOfAux sub cs (Suc n) (if take (length sub) (c # cs) = sub then Some n else best)"

definition js_lastIndexOf :: "string \<Rightarrow> string \<Rightarrow> nat option" where
  "js_lastIndexOf s sub = lastIndexOfAux sub s 0 None"

definition js_trim :: "string \<Rightarrow> string" where
  "js_trim s = rev (dropWhile isSpace (rev (dropWhile isSpace s)))"

definition js_startsWith :: "string \<Rightarrow> string \<Rightarrow> bool" where
  "js_startsWith s p = (take (length p) s = p)"

definition js_endsWith :: "string \<Rightarrow> string \<Rightarrow> bool" where
  "js_endsWith s p = (length p \<le> length s \<and> drop (length s - length p) s = p)"

text \<open>
  \<open>text.split(/\r?\n/)\<close>: the separator is a line feed together with a carriage return
  directly before it. The result always has at least one element.
\<close>

fun splitLinesAux :: "string \<Rightarrow> string \<Rightarrow> string list" where
  "splitLinesAux cur [] = [rev cur]"
| "splitLinesAux cur (c # cs) =
     (if c = CHR 0x0A
      then rev (case cur of [] \<Rightarrow> [] | d # ds \<Rightarrow> if d = CHR 0x0D then ds else d # ds)
             # splitLinesAux [] cs
      else splitLinesAux (c # cur) cs)"

definition splitLines :: "string \<Rightarrow> string list" where
  "splitLines text = splitLinesAux [] text"

section \<open>Regular expressions\<close>

text \<open>
  The constructs the source patterns use: a character class, a literal, sequence,
  alternation, the greedy \<open>?\<close> and \<open>*\<close>, the lazy \<open>*?\<close>, a capture group, \<open>^\<close>, \<open>$\<close>
  (no \<open>m\<close> flag is used), \<open>\b\<close> and the negative lookahead \<open>(?!...)\<close>.
  A matcher state is the text consumed so far (reversed), the text still ahead and the
  captures. \<open>rxm r s\<close> lists every way \<open>r\<close> can match at \<open>s\<close>, most preferred first, which
  is the order in which a backtracking engine tries them; an iteration of a star that
  consumes nothing is dropped, as ECMAScript prescribes. No source pattern has a capture
  group under a star.
\<close>

datatype rx =
    Chr "char \<Rightarrow> bool"
  | Lit string
  | Cat rx rx
  | Alt rx rx
  | Opt rx
  | Star rx
  | Lazy rx
  | Grp nat rx
  | Bol
  | Eol
  | Wordb
  | NotAhead rx

type_synonym mstate = "string \<times> string \<times> (nat \<times> string) list"

definition atWordBoundary :: "string \<Rightarrow> string \<Rightarrow> bool" where
  "atWordBoundary b a =
     ((case b of [] \<Rightarrow> False | c # _ \<Rightarrow> isWordChar c) \<noteq>
      (case a of [] \<Rightarrow> False | c # _ \<Rightarrow> isWordChar c))"

definition remaining :: "mstate \<Rightarrow> nat" where
  "remaining s = length (fst (snd s))"

function rxm :: "rx \<Rightarrow> mstate \<Rightarrow> mstate list" where
  "rxm (Chr p) (b, a, cs) =
     (case a of [] \<Rightarrow> [] | c # a' \<Rightarrow> if p c then [(c # b, a', cs)] else [])"
| "rxm (Lit l) (b, a, cs) =
     (if take (length l) a = l then [(rev l @ b, drop (length l) a, cs)] else [])"
| "rxm (Cat r1 r2) s = concat (map (rxm r2) (rxm r1 s))"
| "rxm (Alt r1 r2) s = rxm r1 s @ rxm r2 s"
| "rxm (Opt r) s = rxm r s @ [s]"
| "rxm (Star r) s =
     concat (map (\<lambda>s'. if remaining s' < remaining s then rxm (Star r) s' else []) (rxm r s)) @ [s]"
| "rxm (Lazy r) s =
     s # concat (map (\<lambda>s'. if remaining s' < remaining s then rxm (Lazy r) s' else []) (rxm r s))"
| "rxm (Grp n r) (b, a, cs) =
     map (\<lambda>(b', a', cs'). (b', a', (n, take (length a - length a') a) # cs')) (rxm r (b, a, cs))"
| "rxm Bol (b, a, cs) = (if b = [] then [(b, a, cs)] else [])"
| "rxm Eol (b, a, cs) = (if a = [] then [(b, a, cs)] else [])"
| "rxm Wordb (b, a, cs) = (if atWordBoundary b a then [(b, a, cs)] else [])"
| "rxm (NotAhead r) s = (if rxm r s = [] then [s] else [])"
  by pat_completeness auto
termination
  by (relation "inv_image (less_than <*lex*> less_than) (\<lambda>(r, s). (size r, remaining s))") auto

text \<open>
  A match object: \<open>m.index\<close>, \<open>m[0]\<close> and the groups. \<open>rx_search r b a\<close> is \<open>exec\<close> with
  \<open>lastIndex = length b\<close> on the text \<open>rev b @ a\<close>: the leftmost start that matches, and
  there the most preferred match. It also returns what is left after the match.
\<close>

datatype rmatch =
  RMatch (m_index: nat) (m_text: string) (m_groups: "(nat \<times> string) list") (m_rest: string)

fun rx_search :: "rx \<Rightarrow> string \<Rightarrow> string \<Rightarrow> rmatch option" where
  "rx_search r b a =
     (case rxm r (b, a, []) of
        (b', a', cs) # _ \<Rightarrow> Some (RMatch (length b) (take (length a - length a') a) cs a')
      | [] \<Rightarrow> (case a of [] \<Rightarrow> None | c # a' \<Rightarrow> rx_search r (c # b) a'))"

definition rx_match :: "rx \<Rightarrow> string \<Rightarrow> rmatch option" where
  "rx_match r s = rx_search r [] s"

definition rx_test :: "rx \<Rightarrow> string \<Rightarrow> bool" where
  "rx_test r s = (rx_match r s \<noteq> None)"

definition grp :: "rmatch \<Rightarrow> nat \<Rightarrow> string option" where
  "grp m n = map_of (m_groups m) n"

fun seq :: "rx list \<Rightarrow> rx" where
  "seq [] = Lit []"
| "seq [r] = r"
| "seq (r # rs) = Cat r (seq rs)"

fun alts :: "rx list \<Rightarrow> rx" where
  "alts [] = NotAhead (Lit [])"
| "alts [r] = r"
| "alts (r # rs) = Alt r (alts rs)"

abbreviation Plus :: "rx \<Rightarrow> rx" where
  "Plus r \<equiv> Cat r (Star r)"

abbreviation sp :: rx where
  "sp \<equiv> Chr isSpace"

abbreviation ident :: rx where
  "ident \<equiv> Cat (Chr isIdentStart) (Star (Chr isWordChar))"

section \<open>The option scanner\<close>

text \<open>
  Comment stripping of one line, as written twice in the source (in
  \<open>extractOptionDeclarations\<close> and in the option/SRG loop of \<open>validateDocument\<close>): the
  multi-line comment flag is carried from line to line; the result is the new flag and
  the trimmed line, or \<open>None\<close> where the source says \<open>continue\<close>.
\<close>

definition stripComments :: "bool \<Rightarrow> string \<Rightarrow> bool \<times> string option" where
  "stripComments inMultiLineComment line0 =
     (case (if inMultiLineComment
            then (case js_indexOf line0 ''*/'' of
                    Some commentEnd \<Rightarrow> Some (drop (commentEnd + 2) line0)
                  | None \<Rightarrow> None)
            else Some line0) of
        None \<Rightarrow> (True, None)
      | Some line1 \<Rightarrow>
          (let (ml, line2) =
                 (case js_indexOf line1 ''/*'' of
                    None \<Rightarrow> (False, line1)
                  | Some multiLineStart \<Rightarrow>
                      (case js_indexOfFrom line1 ''*/'' (multiLineStart + 2) of
                         Some commentEnd \<Rightarrow>
                           (False, take multiLineStart line1 @ drop (commentEnd + 2) line1)
                       | None \<Rightarrow> (True, take multiLineStart line1)));
               line3 = (case js_indexOf line2 ''//'' of
                          None \<Rightarrow> line2
                        | Some singleLineComment \<Rightarrow> take singleLineComment line2);
               processedLine = js_trim line3
           in if processedLine = [] then (ml, None) else (ml, Some processedLine)))"

text \<open>\<open>/^\s*option\s+(?:static\s+)?(bool|int|uint)\s+([A-Za-z_][A-Za-z0-9_]*)\s*[=;]/\<close>\<close>

definition rx_optionDecl :: rx where
  "rx_optionDecl = seq [Bol, Star sp, Lit ''option'', Plus sp,
      Opt (Cat (Lit ''static'') (Plus sp)),
      Grp 1 (alts [Lit ''bool'', Lit ''int'', Lit ''uint'']), Plus sp,
      Grp 2 ident, Star sp, Chr (oneOf ''=;'')]"

record option_decl =
  od_name :: string
  od_isStatic :: bool
  od_uri :: string
  od_line :: nat

text \<open>
  The loop of \<open>extractOptionDeclarations\<close> over the lines; the result \<open>Map\<close> is the list
  of its entries in insertion order, the first declaration of a name winning.
\<close>

fun optionLoop :: "string \<Rightarrow> bool \<Rightarrow> nat \<Rightarrow> string list \<Rightarrow> option_decl list \<Rightarrow> option_decl list" where
  "optionLoop filePath inMl i [] results = results"
| "optionLoop filePath inMl i (line # rest) results =
     (case stripComments inMl line of
        (inMl', None) \<Rightarrow> optionLoop filePath inMl' (Suc i) rest results
      | (inMl', Some processedLine) \<Rightarrow>
          (case rx_match rx_optionDecl processedLine of
             None \<Rightarrow> optionLoop filePath inMl' (Suc i) rest results
           | Some optionMatch \<Rightarrow>
               (case grp optionMatch 2 of
                  None \<Rightarrow> optionLoop filePath inMl' (Suc i) rest results
                | Some optionName \<Rightarrow>
                    (let isStatic = js_includes processedLine ''static''
                     in if optionName \<in> od_name ` set results
                        then optionLoop filePath inMl' (Suc i) rest results
                        else optionLoop filePath inMl' (Suc i) rest
                               (results @ [\<lparr>od_name = optionName, od_isStatic = isStatic,
                                             od_uri = filePath, od_line = i\<rparr>])))))"

definition extractOptionDeclarations :: "string \<Rightarrow> string \<Rightarrow> option_decl list" where
  "extractOptionDeclarations text filePath = optionLoop filePath False 0 (splitLines text) []"

section \<open>The symbol index\<close>

text \<open>
  The fourteen module-level tables of the extension. A \<open>Map\<close> is the list of its entries
  in insertion order: \<open>has\<close> is \<open>mhas\<close>, \<open>get\<close> is \<open>map_of\<close>, and \<open>set\<close> is
  \<open>AList.update\<close>, which replaces the value of a present key in place and appends an
  absent one.
\<close>

type_synonym ('k, 'v) jsmap = "('k \<times> 'v) list"

definition mhas :: "('k, 'v) jsmap \<Rightarrow> 'k \<Rightarrow> bool" where
  "mhas m k = (map_of m k \<noteq> None)"

record location =
  loc_uri :: string
  loc_line :: nat

record position =
  pos_uri :: string
  pos_line :: nat
  pos_column :: nat

record macro_def =
  md_name :: string
  md_value :: string
  md_line :: nat
  md_doc :: string

record macro_entry =
  me_value :: string
  me_doc :: string
  me_uri :: string
  me_line :: nat

record srg_decl =
  sd_uri :: string
  sd_line :: nat
  sd_members :: "string set"

record member_info =
  mi_uri :: string
  mi_line :: nat
  mi_srgName :: string
  mi_memberName :: string

record option_entry =
  oe_uri :: string
  oe_line :: nat
  oe_isStatic :: bool

record symbol_index =
  indexedSymbols :: "string set"
  headersPathIndex :: "(string, string) jsmap"
  headersBasenameIndex :: "(string, string list) jsmap"
  macroIndex :: "(string, macro_entry) jsmap"
  atomMethodIndex :: "(string, position) jsmap"
  atomTypeMembers :: "(string, string set) jsmap"
  srgSemanticIndex :: "(string, location) jsmap"
  srgMembers :: "(string, string set) jsmap"
  srgMemberIndex :: "(string, member_info) jsmap"
  srgIndex :: "(string, location) jsmap"
  structIndex :: "(string, location) jsmap"
  structMembers :: "(string, string set) jsmap"
  functionIndex :: "(string, position) jsmap"
  optionIndex :: "(string, option_entry) jsmap"

text \<open>
  What the extractors that are not modelled line by line return for one text:
  \<open>extractSymbolsFromText\<close>, \<open>extractMacrosWithComments\<close>, \<open>extractAtomMethods\<close> (its
  \<open>methods\<close> and \<open>properties\<close>), \<open>extractSrgSemantics\<close>, \<open>extractSrgDeclarations\<close> (\<open>srgInfo\<close> and
  \<open>memberLocations\<close>), \<open>extractStructDeclarations\<close> (\<open>structs\<close> and \<open>members\<close>),
  \<open>extractFunctionDeclarations\<close>, and the two loops over the \<open>#define\<close> and \<open>#ifndef\<close> lines
  in \<open>indexShaderQualityMacros\<close>. The index takes these results as they come; the theorems
  on the index hold whatever the extractors return.
\<close>

record scan =
  sc_symbols :: "string set"
  sc_macros :: "macro_def list"
  sc_atomMethods :: "(string \<times> position) list"
  sc_atomProperties :: "(string \<times> string set) list"
  sc_srgSemantics :: "(string \<times> location) list"
  sc_srgInfo :: "(string \<times> srg_decl) list"
  sc_memberLocations :: "(string \<times> member_info) list"
  sc_structs :: "(string \<times> location) list"
  sc_members :: "(string, string set) jsmap"
  sc_functions :: "(string \<times> position) list"
  sc_qualityDefines :: "macro_def list"
  sc_qualityGuards :: "macro_def list"

text \<open>
  A file found by \<open>walkDirCollect\<close>: its path, \<open>path.relative(rootPath, f)\<close> with \<open>/\<close> as
  separator, its base name, and its text (\<open>None\<close> if \<open>readFileSync\<close> throws).
\<close>

record source_file =
  hf_path :: string
  hf_rel :: string
  hf_base :: string
  hf_text :: "string option"
  hf_scan :: scan

record document =
  doc_languageId :: string
  doc_fileName :: string
  doc_uri :: string
  doc_text :: string
  doc_scan :: scan

subsection \<open>Merging one declaration into a table\<close>

text \<open>Lines 1119-1127: a macro of a corpus file.\<close>

definition indexMacro :: "string \<Rightarrow> macro_def \<Rightarrow> (string, macro_entry) jsmap \<Rightarrow> (string, macro_entry) jsmap" where
  "indexMacro f d m =
     (let entry = \<lparr>me_value = md_value d, me_doc = md_doc d, me_uri = f, me_line = md_line d\<rparr>
      in case map_of m (md_name d) of
           None \<Rightarrow> AList.update (md_name d) entry m
         | Some existing \<Rightarrow>
             if md_doc d \<noteq> [] \<and> (me_doc existing = [] \<or> length (me_doc existing) < length (md_doc d))
             then AList.update (md_name d) entry m
             else m)"

text \<open>Lines 2039-2048: a macro of the open document.\<close>

definition indexDocumentMacro :: "string \<Rightarrow> macro_def \<Rightarrow> (string, macro_entry) jsmap \<Rightarrow> (string, macro_entry) jsmap" where
  "indexDocumentMacro docUri d m =
     (let entry = \<lparr>me_value = md_value d, me_doc = md_doc d, me_uri = docUri, me_line = md_line d\<rparr>
      in case map_of m (md_name d) of
           None \<Rightarrow> AList.update (md_name d) entry m
         | Some existing \<Rightarrow>
             if docUri = me_uri existing
                \<or> (md_doc d \<noteq> [] \<and> (me_doc existing = [] \<or> length (me_doc existing) < length (md_doc d)))
             then AList.update (md_name d) entry m
             else m)"

text \<open>Lines 2016-2023: the guarded definition (\<open>#ifndef\<close>) of the shader quality file.\<close>

definition indexGuardedMacro :: "string \<Rightarrow> macro_def \<Rightarrow> (string, macro_entry) jsmap \<Rightarrow> (string, macro_entry) jsmap" where
  "indexGuardedMacro f d m =
     (let entry = \<lparr>me_value = md_value d, me_doc = md_doc d, me_uri = f, me_line = md_line d\<rparr>
      in case map_of m (md_name d) of
           None \<Rightarrow> AList.update (md_name d) entry m
         | Some existing \<Rightarrow>
             if md_doc d \<noteq> [] \<and> length (me_doc existing) = 0
             then AList.update (md_name d) entry m
             else m)"

text \<open>First wins: \<open>if (!table.has(k)) table.set(k, v)\<close>.\<close>

definition setIfAbsent :: "'k \<times> 'v \<Rightarrow> ('k, 'v) jsmap \<Rightarrow> ('k, 'v) jsmap" where
  "setIfAbsent kv m = (if mhas m (fst kv) then m else AList.update (fst kv) (snd kv) m)"

text \<open>
  Lines 1190-1200 and, with the same text, 3437-3447: the members of one struct are added
  to the set already recorded under its name.
\<close>

definition addMembers :: "string \<Rightarrow> string set option \<Rightarrow> (string, string set) jsmap \<Rightarrow> (string, string set) jsmap" where
  "addMembers name members m =
     (let m1 = (if mhas m name then m else AList.update name {} m)
      in case (map_of m1 name, members) of
           (Some existingMembers, Some newMembers) \<Rightarrow> AList.update name (existingMembers \<union> newMembers) m1
         | _ \<Rightarrow> m1)"

definition indexStruct :: "(string, string set) jsmap \<Rightarrow> string \<times> location \<Rightarrow> symbol_index \<Rightarrow> symbol_index" where
  "indexStruct members st idx =
     idx\<lparr>structIndex := setIfAbsent st (structIndex idx),
         structMembers := addMembers (fst st) (map_of members (fst st)) (structMembers idx)\<rparr>"

definition indexSrg :: "string \<times> srg_decl \<Rightarrow> symbol_index \<Rightarrow> symbol_index" where
  "indexSrg srg idx =
     idx\<lparr>srgIndex := setIfAbsent (fst srg, \<lparr>loc_uri = sd_uri (snd srg), loc_line = sd_line (snd srg)\<rparr>)
                        (srgIndex idx),
         srgMembers := addMembers (fst srg) (Some (sd_members (snd srg))) (srgMembers idx)\<rparr>"

definition indexOption :: "option_decl \<Rightarrow> (string, option_entry) jsmap \<Rightarrow> (string, option_entry) jsmap" where
  "indexOption d m =
     setIfAbsent (od_name d, \<lparr>oe_uri = od_uri d, oe_line = od_line d, oe_isStatic = od_isStatic d\<rparr>) m"

subsection \<open>indexHeaders\<close>

text \<open>Lines 1061-1073: thirteen \<open>clear()\<close> calls; \<open>functionIndex\<close> is not among them.\<close>

definition clearTables :: "symbol_index \<Rightarrow> symbol_index" where
  "clearTables idx =
     idx\<lparr>indexedSymbols := {}, headersPathIndex := [], headersBasenameIndex := [],
         macroIndex := [], atomMethodIndex := [], atomTypeMembers := [],
         srgSemanticIndex := [], srgMembers := [], srgMemberIndex := [], srgIndex := [],
         structIndex := [], structMembers := [], optionIndex := []\<rparr>"

definition builtinSrgSemantics :: "string list" where
  "builtinSrgSemantics =
     [''SRG_PerDraw'', ''SRG_PerMaterial'', ''SRG_PerPass'', ''SRG_PerPass_WithFallback'',
      ''SRG_PerScene'', ''SRG_PerView'', ''SRG_PerSubMesh'', ''SRG_RayTracingGlobal'',
      ''SRG_RayTracingLocal'']"

definition seedBuiltins :: "symbol_index \<Rightarrow> symbol_index" where
  "seedBuiltins idx =
     idx\<lparr>srgSemanticIndex :=
           fold (\<lambda>semantic m. AList.update semantic
                   \<lparr>loc_uri = ''azsl-builtin://srg-semantics'', loc_line = 0\<rparr> m)
                builtinSrgSemantics (srgSemanticIndex idx),
         atomTypeMembers :=
           AList.update ''LightingData''
             {''Init'', ''FinalizeLighting'', ''CalculateMultiscatterCompensation'', ''GetSpecularNdotV''}
             (AList.update ''Surface''
                {''CalculateRoughnessA'', ''SetAlbedoAndSpecularF0'', ''GetDefaultNormal'', ''GetSpecularF0''}
                (atomTypeMembers idx))\<rparr>"

text \<open>
  Lines 1108-1224, the body of the \<open>try\<close> for one readable file. \<open>extractAtomMethods\<close>
  itself adds the properties it found to \<open>atomTypeMembers\<close> (lines 1044-1054) before it
  returns.
\<close>

definition indexFile :: "source_file \<Rightarrow> symbol_index \<Rightarrow> symbol_index" where
  "indexFile f idx =
     (case hf_text f of
        None \<Rightarrow> idx
      | Some buf \<Rightarrow>
          (let sc = hf_scan f;
               idx = idx\<lparr>indexedSymbols := indexedSymbols idx \<union> sc_symbols sc\<rparr>;
               idx = idx\<lparr>macroIndex := fold (indexMacro (hf_path f)) (sc_macros sc) (macroIndex idx)\<rparr>;
               idx = idx\<lparr>atomTypeMembers :=
                          fold (\<lambda>(atomType, propSet). addMembers atomType (Some propSet))
                               (sc_atomProperties sc) (atomTypeMembers idx)\<rparr>;
               idx = idx\<lparr>atomMethodIndex :=
                          fold (\<lambda>m. AList.update (fst m) (snd m)) (sc_atomMethods sc) (atomMethodIndex idx)\<rparr>;
               idx = idx\<lparr>srgSemanticIndex :=
                          fold (\<lambda>srg. AList.update (fst srg) (snd srg)) (sc_srgSemantics sc)
                               (srgSemanticIndex idx)\<rparr>;
               idx = fold indexSrg (sc_srgInfo sc) idx;
               idx = idx\<lparr>srgMemberIndex := fold setIfAbsent (sc_memberLocations sc) (srgMemberIndex idx)\<rparr>;
               idx = fold (indexStruct (sc_members sc)) (sc_structs sc) idx;
               idx = idx\<lparr>functionIndex := fold setIfAbsent (sc_functions sc) (functionIndex idx)\<rparr>;
               idx = idx\<lparr>optionIndex :=
                          fold indexOption (extractOptionDeclarations buf (hf_path f)) (optionIndex idx)\<rparr>
           in idx))"

text \<open>Lines 1226-1231, after the \<open>try\<close>: the file is registered by relative path and base name.\<close>

definition registerFile :: "source_file \<Rightarrow> symbol_index \<Rightarrow> symbol_index" where
  "registerFile f idx =
     idx\<lparr>headersPathIndex := AList.update (hf_rel f) (hf_path f) (headersPathIndex idx),
         headersBasenameIndex :=
           AList.update (hf_base f)
             ((case map_of (headersBasenameIndex idx) (hf_base f) of None \<Rightarrow> [] | Some l \<Rightarrow> l) @ [hf_path f])
             (headersBasenameIndex idx)\<rparr>"

definition getFileBySuffix :: "symbol_index \<Rightarrow> string \<Rightarrow> string option" where
  "getFileBySuffix idx relSuffix =
     map_option snd (find (\<lambda>(rel, abs). js_endsWith rel relSuffix) (headersPathIndex idx))"

text \<open>
  \<open>indexShaderQualityMacros\<close>: the target file is looked up by suffix, then by base name,
  read again, and its macros merged.
\<close>

definition indexShaderQualityMacros :: "source_file list \<Rightarrow> symbol_index \<Rightarrow> symbol_index" where
  "indexShaderQualityMacros files idx =
     (let target =
            (case getFileBySuffix idx ''Atom/Features/ShaderQualityOptions.azsli'' of
               Some found \<Rightarrow> Some found
             | None \<Rightarrow>
                (case getFileBySuffix idx
                        ''Feature/Common/Assets/ShaderLib/Atom/Features/ShaderQualityOptions.azsli'' of
                   Some found \<Rightarrow> Some found
                 | None \<Rightarrow>
                    (case map_of (headersBasenameIndex idx) ''ShaderQualityOptions.azsli'' of
                       Some (first # _) \<Rightarrow> Some first
                     | _ \<Rightarrow> None)))
      in case target of
           None \<Rightarrow> idx
         | Some t \<Rightarrow>
            (case find (\<lambda>f. hf_path f = t) files of
               None \<Rightarrow> idx
             | Some f \<Rightarrow>
                (case hf_text f of
                   None \<Rightarrow> idx
                 | Some buf \<Rightarrow>
                     idx\<lparr>macroIndex :=
                           fold (indexGuardedMacro t) (sc_qualityGuards (hf_scan f))
                             (fold (indexMacro t) (sc_qualityDefines (hf_scan f)) (macroIndex idx))\<rparr>)))"

text \<open>
  \<open>indexHeaders(rootPath)\<close>. The argument is \<open>None\<close> when no root path is configured or it
  does not exist, and otherwise the files \<open>walkDirCollect\<close> returns, in its order.
\<close>

definition indexHeaders :: "source_file list option \<Rightarrow> symbol_index \<Rightarrow> symbol_index" where
  "indexHeaders rootPath idx =
     (let idx = seedBuiltins (clearTables idx)
      in case rootPath of
           None \<Rightarrow> idx
         | Some files \<Rightarrow>
             indexShaderQualityMacros files (fold (\<lambda>f idx. registerFile f (indexFile f idx)) files idx))"

text \<open>\<open>indexDocumentMacros(document)\<close>, run when a document is opened or changed.\<close>

definition indexDocumentMacros :: "document \<Rightarrow> symbol_index \<Rightarrow> symbol_index" where
  "indexDocumentMacros document idx =
     (if doc_languageId document \<noteq> ''azsl'' then idx
      else idx\<lparr>macroIndex :=
                 fold (indexDocumentMacro (doc_uri document)) (sc_macros (doc_scan document))
                      (macroIndex idx)\<rparr>)"

text \<open>
  What \<open>validateDocument\<close> does to the index (line 3384 and lines 3420-3487): nothing for a
  document that is not \<open>azsl\<close>; otherwise the structs of the document are merged into the
  index (a struct already indexed keeps its location), then baseline member sets are added
  for the engine types that have none.
\<close>

definition indexDocumentStructs :: "document \<Rightarrow> symbol_index \<Rightarrow> symbol_index" where
  "indexDocumentStructs document idx =
     (if doc_languageId document \<noteq> ''azsl'' then idx else
      let idx = fold (indexStruct (sc_members (doc_scan document))) (sc_structs (doc_scan document)) idx;
          idx = idx\<lparr>atomTypeMembers :=
                  setIfAbsent (''ForwardPassOutput'',
                      {''m_color'', ''m_diffuseColor'', ''m_specularColor'', ''m_albedo'',
                       ''m_specularF0'', ''m_normal'', ''m_scatterDistance'', ''m_depth''})
                    (setIfAbsent (''LightingData'',
                        {''diffuseResponse'', ''specularResponse'', ''diffuseLighting'',
                         ''specularLighting'', ''diffuseAmbientOcclusion'', ''specularOcclusion'',
                         ''Init'', ''FinalizeLighting''})
                      (setIfAbsent (''Surface'',
                          {''position'', ''normal'', ''vertexNormal'', ''metallic'', ''roughnessLinear'',
                           ''opacityAffectsSpecularFactor'', ''opacityAffectsEmissiveFactor'',
                           ''albedo'', ''roughnessA'', ''CalculateRoughnessA'',
                           ''SetAlbedoAndSpecularF0'', ''GetDefaultNormal'', ''GetSpecularF0''})
                        (atomTypeMembers idx)))\<rparr>;
          idx = idx\<lparr>structMembers :=
                  setIfAbsent (''DirectionalLight'',
                      {''m_direction'', ''m_angularRadius'', ''m_rgbIntensityLux'',
                       ''m_affectsGIFactor'', ''m_affectsGI'', ''m_lightingChannelMask'', ''m_padding''})
                    (setIfAbsent (''ForwardPassOutput'',
                        {''m_color'', ''m_diffuseColor'', ''m_specularColor'', ''m_albedo'',
                         ''m_specularF0'', ''m_normal'', ''m_scatterDistance'', ''m_depth''})
                      (structMembers idx))\<rparr>
      in idx)"

text \<open>The member set recorded for a struct name: empty when the name has no entry.\<close>

definition membersOf :: "symbol_index \<Rightarrow> string \<Rightarrow> string set" where
  "membersOf idx name = (case map_of (structMembers idx) name of None \<Rightarrow> {} | Some members \<Rightarrow> members)"

definition emptyIndex :: symbol_index where
  "emptyIndex =
     \<lparr>indexedSymbols = {}, headersPathIndex = [], headersBasenameIndex = [], macroIndex = [],
      atomMethodIndex = [], atomTypeMembers = [], srgSemanticIndex = [], srgMembers = [],
      srgMemberIndex = [], srgIndex = [], structIndex = [], structMembers = [],
      functionIndex = [], optionIndex = []\<rparr>"

definition emptyScan :: scan where
  "emptyScan =
     \<lparr>sc_symbols = {}, sc_macros = [], sc_atomMethods = [], sc_atomProperties = [],
      sc_srgSemantics = [], sc_srgInfo = [],
      sc_memberLocations = [], sc_structs = [], sc_members = [], sc_functions = [],
      sc_qualityDefines = [], sc_qualityGuards = []\<rparr>"

text \<open>The member set recorded under a name in a members table: empty when there is no entry.\<close>

definition memberSet :: "(string, string set) jsmap \<Rightarrow> string \<Rightarrow> string set" where
  "memberSet m name = (case map_of m name of None \<Rightarrow> {} | Some members \<Rightarrow> members)"

text \<open>The struct extractor reports a struct \<open>name\<close> with the member set \<open>members\<close>.\<close>

definition definesStruct :: "scan \<Rightarrow> string \<Rightarrow> string set \<Rightarrow> bool" where
  "definesStruct sc name members =
     (name \<in> fst ` set (sc_structs sc) \<and> map_of (sc_members sc) name = Some members)"

text \<open>What one file, and one document, contribute to the member set of a name.\<close>

definition fileMembers :: "source_file \<Rightarrow> string \<Rightarrow> string set" where
  "fileMembers f k =
     (if hf_text f \<noteq> None \<and> k \<in> fst ` set (sc_structs (hf_scan f))
      then memberSet (sc_members (hf_scan f)) k else {})"

definition documentMembers :: "document \<Rightarrow> string \<Rightarrow> string set" where
  "documentMembers d k =
     (if k \<in> fst ` set (sc_structs (doc_scan d)) then memberSet (sc_members (doc_scan d)) k else {})"

text \<open>Example inputs: two corpus files and an open document that each define a struct \<open>S\<close>.\<close>

definition example_fileAB :: source_file where
  "example_fileAB =
     \<lparr>hf_path = ''/gem/A.azsli'', hf_rel = ''A.azsli'', hf_base = ''A.azsli'',
      hf_text = Some ''struct S { float a; float b; };'',
      hf_scan = emptyScan\<lparr>sc_structs := [(''S'', \<lparr>loc_uri = ''/gem/A.azsli'', loc_line = 0\<rparr>)],
                          sc_members := [(''S'', {''a'', ''b''})]\<rparr>\<rparr>"

definition example_fileBC :: source_file where
  "example_fileBC =
     \<lparr>hf_path = ''/gem/B.azsli'', hf_rel = ''B.azsli'', hf_base = ''B.azsli'',
      hf_text = Some ''struct S { float b; float c; };'',
      hf_scan = emptyScan\<lparr>sc_structs := [(''S'', \<lparr>loc_uri = ''/gem/B.azsli'', loc_line = 0\<rparr>)],
                          sc_members := [(''S'', {''b'', ''c''})]\<rparr>\<rparr>"

definition example_docBC :: document where
  "example_docBC =
     \<lparr>doc_languageId = ''azsl'', doc_fileName = ''/work/m.azsl'', doc_uri = ''file:///work/m.azsl'',
      doc_text = ''struct S { float b; float c; };'',
      doc_scan = emptyScan\<lparr>sc_structs := [(''S'', \<lparr>loc_uri = ''/work/m.azsl'', loc_line = 0\<rparr>)],
                           sc_members := [(''S'', {''b'', ''c''})]\<rparr>\<rparr>"

text \<open>
  A corpus file with a function \<open>Foo\<close> on line 0 and a struct \<open>T\<close> on line 1. The function
  comes first: the function extractor skips every line after a one-line struct.
\<close>

definition example_fileFoo :: source_file where
  "example_fileFoo =
     \<lparr>hf_path = ''/gem/F.azsli'', hf_rel = ''F.azsli'', hf_base = ''F.azsli'',
      hf_text = Some (''float Foo() { return 1.0; }'' @ [CHR 0x0A] @ ''struct T { float a; };''),
      hf_scan = emptyScan\<lparr>sc_symbols := {''Foo''},
                          sc_structs := [(''T'', \<lparr>loc_uri = ''/gem/F.azsli'', loc_line = 1\<rparr>)],
                          sc_members := [(''T'', {''a''})],
                          sc_functions := [(''Foo'', \<lparr>pos_uri = ''/gem/F.azsli'', pos_line = 0, pos_column = 6\<rparr>)]\<rparr>\<rparr>"

text \<open>The entry a macro definition of file \<open>f\<close> would store.\<close>

definition macroEntry :: "string \<Rightarrow> macro_def \<Rightarrow> macro_entry" where
  "macroEntry f d = \<lparr>me_value = md_value d, me_doc = md_doc d, me_uri = f, me_line = md_line d\<rparr>"

text \<open>The macros one scan reports under the name \<open>n\<close>, in order.\<close>

definition macrosNamed :: "string \<Rightarrow> macro_def list \<Rightarrow> macro_def list" where
  "macrosNamed n ds = filter (\<lambda>d. md_name d = n) ds"

text \<open>The documentation string the index holds for a macro name.\<close>

definition macroDoc :: "symbol_index \<Rightarrow> string \<Rightarrow> string option" where
  "macroDoc idx n = map_option me_doc (map_of (macroIndex idx) n)"

text \<open>
  Example inputs: file A defines \<open>FOO\<close> with a one-line trailing comment, file B with a
  three-line block comment before it.
\<close>

definition example_fileTrailing :: source_file where
  "example_fileTrailing =
     \<lparr>hf_path = ''/gem/A.azsli'', hf_rel = ''A.azsli'', hf_base = ''A.azsli'',
      hf_text = Some ''#define FOO 1 // short'',
      hf_scan = emptyScan\<lparr>sc_macros :=
        [\<lparr>md_name = ''FOO'', md_value = ''1'', md_line = 0, md_doc = ''short''\<rparr>]\<rparr>\<rparr>"

definition example_fileBlock :: source_file where
  "example_fileBlock =
     \<lparr>hf_path = ''/gem/B.azsli'', hf_rel = ''B.azsli'', hf_base = ''B.azsli'',
      hf_text = Some (''/* first'' @ [CHR 0x0A] @ '' * second'' @ [CHR 0x0A] @ '' * third */''
                      @ [CHR 0x0A] @ ''#define FOO 1''),
      hf_scan = emptyScan\<lparr>sc_macros :=
        [\<lparr>md_name = ''FOO'', md_value = ''1'', md_line = 3,
          md_doc = ''first'' @ [CHR 0x0A] @ ''second'' @ [CHR 0x0A] @ ''third''\<rparr>]\<rparr>\<rparr>"

section \<open>Type and scope inference\<close>

definition countChar :: "char \<Rightarrow> string \<Rightarrow> nat" where
  "countChar c s = length (filter (\<lambda>x. x = c) s)"

text \<open>\<open>(line.match(/{/g) || []).length - (line.match(/}/g) || []).length\<close>\<close>

definition braceDelta :: "string \<Rightarrow> int" where
  "braceDelta line = int (countChar (CHR ''{'') line) - int (countChar (CHR ''}'') line)"

abbreviation d14 :: rx where
  "d14 \<equiv> Chr (oneOf ''1234'')"

text \<open>\<open>float(?:[1-4](?:x[1-4])?)?\<close> and \<open>int(?:[1-4])?\<close>, for the scalar names that take them.\<close>

definition matrixOf :: "string \<Rightarrow> rx" where
  "matrixOf base = Cat (Lit base) (Opt (Cat d14 (Opt (Cat (Lit ''x'') d14))))"

definition vectorOf :: "string \<Rightarrow> rx" where
  "vectorOf base = Cat (Lit base) (Opt d14)"

abbreviation wordChars :: rx where
  "wordChars \<equiv> Star (Chr isWordChar)"

text \<open>
  Line 1400 (and 3818):
  \<open>/\b((?:float(?:[1-4](?:x[1-4])?)?|real(?:[1-4](?:x[1-4])?)?|int(?:[1-4])?|uint(?:[1-4])?|bool|half|double|matrix|Texture\w*|Sampler\w*|RWTexture\w*|[A-Z][A-Za-z0-9_]*))\s+([A-Za-z_][A-Za-z0-9_]*)\s*[;=]/\<close>
  (line 3818 has no \<open>RWTexture\w*\<close> alternative; \<open>[A-Z][A-Za-z0-9_]*\<close> covers it).
\<close>

definition rx_varDecl :: rx where
  "rx_varDecl = seq [Wordb,
      Grp 1 (alts [matrixOf ''float'', matrixOf ''real'', vectorOf ''int'', vectorOf ''uint'',
                   Lit ''bool'', Lit ''half'', Lit ''double'', Lit ''matrix'',
                   Cat (Lit ''Texture'') wordChars, Cat (Lit ''Sampler'') wordChars,
                   Cat (Lit ''RWTexture'') wordChars,
                   Cat (Chr isUpper) wordChars]),
      Plus sp, Grp 2 ident, Star sp, Chr (oneOf '';='')]"

record var_decl =
  vd_type :: string
  vd_line :: nat
  vd_braceDepth :: int

text \<open>The sets \<open>atomTypes\<close> and \<open>textureTypes\<close> of \<open>getVariableTypeAtPosition\<close>.\<close>

definition atomTypesAtPosition :: "string set" where
  "atomTypesAtPosition =
     {''Surface'', ''LightingData'', ''DirectionalLight'', ''SimplePointLight'', ''PointLight'',
      ''SimpleSpotLight'', ''DiskLight'', ''ForwardPassOutput'', ''VertexShaderOutput'',
      ''VertexShaderInput''}"

definition textureTypes :: "string set" where
  "textureTypes =
     {''Texture2D'', ''Texture3D'', ''TextureCube'', ''Texture2DArray'', ''RWTexture2D'',
      ''RWTexture3D'', ''Texture1D'', ''Texture2DMS'', ''RWTexture1D''}"

text \<open>\<open>variableDeclarations.get(vName).push(decl)\<close>, after creating the array if absent.\<close>

definition pushDecl :: "string \<Rightarrow> var_decl \<Rightarrow> (string, var_decl list) jsmap \<Rightarrow> (string, var_decl list) jsmap" where
  "pushDecl vName decl m =
     AList.update vName ((case map_of m vName of None \<Rightarrow> [] | Some l \<Rightarrow> l) @ [decl]) m"

text \<open>Lines 1393-1416: the scan of all lines for declarations, with the running brace depth.\<close>

fun declLoop :: "symbol_index \<Rightarrow> nat \<Rightarrow> int \<Rightarrow> string list
      \<Rightarrow> (string, var_decl list) jsmap \<times> (string, string) jsmap
      \<Rightarrow> (string, var_decl list) jsmap \<times> (string, string) jsmap" where
  "declLoop idx i braceDepth [] st = st"
| "declLoop idx i braceDepth (line # rest) (variableDeclarations, variableTypes) =
     (let braceDepth = braceDepth + braceDelta line
      in case rx_match rx_varDecl line of
           None \<Rightarrow> declLoop idx (Suc i) braceDepth rest (variableDeclarations, variableTypes)
         | Some varDeclMatch \<Rightarrow>
            (case (grp varDeclMatch 1, grp varDeclMatch 2) of
               (Some fullType, Some vName) \<Rightarrow>
                 declLoop idx (Suc i) braceDepth rest
                   (pushDecl vName \<lparr>vd_type = fullType, vd_line = i, vd_braceDepth = braceDepth\<rparr>
                      variableDeclarations,
                    if fullType \<in> atomTypesAtPosition \<or> fullType \<in> textureTypes
                       \<or> mhas (structIndex idx) fullType \<or> mhas (structMembers idx) fullType
                    then AList.update vName fullType variableTypes
                    else variableTypes)
             | _ \<Rightarrow> declLoop idx (Suc i) braceDepth rest (variableDeclarations, variableTypes)))"

text \<open>
  Lines 1430-1441 (and 3510-3521): one step of the search for the best declaration;
  the state is \<open>bestMatch\<close> and \<open>bestBraceDepth\<close>, which starts at \<open>-1\<close>.
\<close>

definition pickStep :: "nat \<Rightarrow> int \<Rightarrow> var_decl \<Rightarrow> var_decl option \<times> int \<Rightarrow> var_decl option \<times> int" where
  "pickStep lineNum targetBraceDepth decl st =
     (case st of (bestMatch, bestBraceDepth) \<Rightarrow>
        if vd_line decl \<le> lineNum \<and> vd_braceDepth decl \<le> targetBraceDepth
        then (if vd_braceDepth decl > bestBraceDepth
              then (Some decl, vd_braceDepth decl)
              else if vd_braceDepth decl = bestBraceDepth
                      \<and> int (vd_line decl) > (case bestMatch of Some b \<Rightarrow> int (vd_line b) | None \<Rightarrow> - 1)
                   then (Some decl, bestBraceDepth)
                   else (bestMatch, bestBraceDepth))
        else (bestMatch, bestBraceDepth))"

definition bestDeclaration :: "nat \<Rightarrow> int \<Rightarrow> var_decl list \<Rightarrow> var_decl option" where
  "bestDeclaration lineNum targetBraceDepth declarations =
     fst (fold (pickStep lineNum targetBraceDepth) declarations (None, - 1))"

text \<open>Lines 1422-1427: the brace depth after line \<open>lineNum\<close>.\<close>

definition braceDepthAt :: "string list \<Rightarrow> nat \<Rightarrow> int" where
  "braceDepthAt lines lineNum = sum_list (map braceDelta (take (Suc lineNum) lines))"

definition getVariableTypeAtPosition :: "symbol_index \<Rightarrow> string \<Rightarrow> string \<Rightarrow> nat \<Rightarrow> string option" where
  "getVariableTypeAtPosition idx text varName lineNum =
     (let lines = splitLines text;
          (variableDeclarations, variableTypes) = declLoop idx 0 0 lines ([], [])
      in case map_of variableDeclarations varName of
           None \<Rightarrow> map_of variableTypes varName
         | Some declarations \<Rightarrow>
            (case bestDeclaration lineNum (braceDepthAt lines lineNum) declarations of
               Some bestMatch \<Rightarrow> Some (vd_type bestMatch)
             | None \<Rightarrow> map_of variableTypes varName))"

text \<open>
  Lines 3499-3533, the helper of \<open>validateDocument\<close>: the same search over the
  declarations that \<open>validateDocument\<close> recorded, at the brace depth the caller passes.
\<close>

definition getVariableTypeAtLine ::
  "(string, var_decl list) jsmap \<Rightarrow> (string, string) jsmap \<Rightarrow> string \<Rightarrow> nat \<Rightarrow> int \<Rightarrow> string option" where
  "getVariableTypeAtLine variableDeclarations variableTypes varName lineNum currentBraceDepth =
     (case map_of variableDeclarations varName of
        None \<Rightarrow> map_of variableTypes varName
      | Some declarations \<Rightarrow>
         (case bestDeclaration lineNum currentBraceDepth declarations of
            Some bestMatch \<Rightarrow> Some (vd_type bestMatch)
          | None \<Rightarrow> map_of variableTypes varName))"

text \<open>A line feed, to write example documents.\<close>

definition nl :: string where
  "nl = [CHR 0x0A]"

text \<open>
  A document that declares \<open>Foo x;\<close> at top level (line 0) and \<open>Bar x;\<close> inside the braces
  of a function body (line 3, the block being lines 2 to 5).
\<close>

definition example_scopeDoc :: string where
  "example_scopeDoc =
     ''Foo x;'' @ nl @ ''void f()'' @ nl @ ''{'' @ nl @ ''    Bar x;'' @ nl @ ''    x.a = 1;'' @ nl @ ''}''
      @ nl @ ''x.b = 2;''"

text \<open>A declaration is in scope at a line and brace depth (the comment at line 3509).\<close>

definition inScope :: "nat \<Rightarrow> int \<Rightarrow> var_decl \<Rightarrow> bool" where
  "inScope lineNum depth decl = (vd_line decl \<le> lineNum \<and> vd_braceDepth decl \<le> depth)"

text \<open>\<open>b\<close> is preferred to \<open>d\<close>: deeper, or as deep and not earlier.\<close>

definition preferredTo :: "var_decl \<Rightarrow> var_decl \<Rightarrow> bool" where
  "preferredTo b d =
     (vd_braceDepth d < vd_braceDepth b \<or> (vd_braceDepth d = vd_braceDepth b \<and> vd_line d \<le> vd_line b))"

section \<open>The validation sweep\<close>

datatype severity = Error | Warning | Information | Hint

text \<open>
  \<open>new vscode.Diagnostic(new vscode.Range(i, a, i, b), message, severity)\<close>: every range
  the extension builds lies within one line.
\<close>

record diagnostic =
  dg_line :: nat
  dg_start :: nat
  dg_end :: nat
  dg_message :: string
  dg_severity :: severity

definition errorAt :: "nat \<Rightarrow> nat \<Rightarrow> nat \<Rightarrow> string \<Rightarrow> diagnostic" where
  "errorAt i a b message =
     \<lparr>dg_line = i, dg_start = a, dg_end = b, dg_message = message, dg_severity = Error\<rparr>"

text \<open>
  A \<open>while ((match = re.exec(text)) !== null)\<close> loop over a pattern with the \<open>g\<close> flag, from
  \<open>lastIndex = k\<close>. The patterns used with it match at least one character; a match that
  did not advance would end the list here.
\<close>

function rx_all :: "rx \<Rightarrow> string \<Rightarrow> nat \<Rightarrow> rmatch list" where
  "rx_all r s k =
     (case rx_search r (rev (take k s)) (drop k s) of
        None \<Rightarrow> []
      | Some m \<Rightarrow>
          (let k' = m_index m + length (m_text m)
           in if k < k' \<and> k' \<le> length s then m # rx_all r s k' else [m]))"
  by pat_completeness auto
termination
  by (relation "measure (\<lambda>(r, s, k). length s - k)") auto

subsection \<open>Vector types and swizzles\<close>

text \<open>\<open>/^(float|int|uint|bool|real|half)[2-4]$/\<close>\<close>

definition rx_vectorType :: rx where
  "rx_vectorType = seq [Bol,
      alts [Lit ''float'', Lit ''int'', Lit ''uint'', Lit ''bool'', Lit ''real'', Lit ''half''],
      Chr (oneOf ''234''), Eol]"

definition isVectorType :: "string \<Rightarrow> bool" where
  "isVectorType type = rx_test rx_vectorType type"

text \<open>\<open>/^[xyzwrgba]{1,4}$/\<close>, the swizzle test of the sweep.\<close>

definition rx_swizzle :: rx where
  "rx_swizzle =
     (let c = Chr (oneOf ''xyzwrgba'')
      in seq [Bol, c, Opt (Cat c (Opt (Cat c (Opt c)))), Eol])"

text \<open>
  \<open>getSwizzleProperties(type)\<close>, lines 1462-1515. \<open>dim\<close> is the last character of the type
  if it is a digit. Both callers pass a type for which \<open>isVectorType\<close> holds, so \<open>dim\<close> is 2,
  3 or 4; for a larger digit the source reads past its four-element arrays, which the model
  renders as the text \<open>undefined\<close>. The result is the \<open>Set\<close> turned into a sorted array.
\<close>

definition components :: "nat \<Rightarrow> string" where
  "components i = (if i < 4 then [''xyzw'' ! i] else ''undefined'')"

definition colorComponents :: "nat \<Rightarrow> string" where
  "colorComponents i = (if i < 4 then [''rgba'' ! i] else ''undefined'')"

definition digitValue :: "char \<Rightarrow> nat option" where
  "digitValue c = map_option fst (find (\<lambda>(n, d). d = c) (enumerate 0 ''0123456789''))"

definition swizzleSingles :: "nat \<Rightarrow> string list" where
  "swizzleSingles dim = concat (map (\<lambda>i. [components i, colorComponents i]) [0..<dim])"

definition swizzlePairs :: "nat \<Rightarrow> string list" where
  "swizzlePairs dim =
     concat (map (\<lambda>i. concat (map (\<lambda>j.
        if i \<noteq> j then [components i @ components j, colorComponents i @ colorComponents j] else [])
      [0..<dim])) [0..<dim])"

definition swizzleTriples :: "nat \<Rightarrow> string list" where
  "swizzleTriples dim =
     (if 3 \<le> dim
      then concat (map (\<lambda>i. concat (map (\<lambda>j. concat (map (\<lambda>k.
             if i \<noteq> j \<and> j \<noteq> k \<and> i \<noteq> k
             then [components i @ components j @ components k,
                   colorComponents i @ colorComponents j @ colorComponents k]
             else [])
           [0..<dim])) [0..<dim])) [0..<dim])
      else [])"

definition swizzleQuads :: "nat \<Rightarrow> string list" where
  "swizzleQuads dim =
     (if dim = 4
      then concat (map (\<lambda>i. concat (map (\<lambda>j. concat (map (\<lambda>k. concat (map (\<lambda>l.
             if i \<noteq> j \<and> j \<noteq> k \<and> k \<noteq> l \<and> i \<noteq> k \<and> i \<noteq> l \<and> j \<noteq> l
             then [components i @ components j @ components k @ components l,
                   colorComponents i @ colorComponents j @ colorComponents k @ colorComponents l]
             else [])
           [0..<dim])) [0..<dim])) [0..<dim])) [0..<dim])
      else [])"

text \<open>The elements added to \<open>props\<close>, in the order of the four loops.\<close>

definition swizzleProps :: "nat \<Rightarrow> string list" where
  "swizzleProps dim = swizzleSingles dim @ swizzlePairs dim @ swizzleTriples dim @ swizzleQuads dim"

definition getSwizzleProperties :: "string \<Rightarrow> string list" where
  "getSwizzleProperties type =
     (case (if type = [] then None else digitValue (last type)) of
        None \<Rightarrow> []
      | Some dim \<Rightarrow> sort (remdups (swizzleProps dim)))"

text \<open>
  An accessor built from component indices: the letters at the indices \<open>is\<close> in the
  positional or in the colour alphabet.
\<close>

definition accessorOf :: "nat list \<Rightarrow> string set" where
  "accessorOf is = {map (\<lambda>k. ''xyzw'' ! k) is, map (\<lambda>k. ''rgba'' ! k) is}"

subsection \<open>Expression types\<close>

text \<open>A value is truthy: a string that is neither \<open>null\<close> nor empty.\<close>

definition truthy :: "string option \<Rightarrow> bool" where
  "truthy v = (case v of None \<Rightarrow> False | Some s \<Rightarrow> s \<noteq> [])"

definition quoted :: "string \<Rightarrow> string" where
  "quoted s = [CHR 0x27] @ s @ [CHR 0x27]"

text \<open>
  The argument scan of \<open>extractFunctionCallArgs\<close> (lines 1535-1550), from the character
  after the opening parenthesis, at depth 1: \<open>None\<close> when the call is not closed.
\<close>

fun scanArgs :: "string \<Rightarrow> nat \<Rightarrow> string \<Rightarrow> string list \<Rightarrow> string list option" where
  "scanArgs [] depth cur args = None"
| "scanArgs (c # cs) depth cur args =
     (if c = CHR ''('' then scanArgs cs (Suc depth) (c # cur) args
      else if c = CHR '')''
           then (if depth \<le> 1 then Some (args @ [js_trim (rev cur)])
                 else scanArgs cs (depth - 1) (c # cur) args)
      else if c = CHR '','' \<and> depth = 1 then scanArgs cs depth [] (args @ [js_trim (rev cur)])
      else scanArgs cs depth (c # cur) args)"

text \<open>\<open>new RegExp(`\\b${funcName}\\s*\\(`, 'g')\<close>; the last match is the call that is parsed.\<close>

definition rx_call :: "string \<Rightarrow> rx" where
  "rx_call funcName = seq [Wordb, Lit funcName, Star sp, Lit ''('']"

definition extractFunctionCallArgs :: "string \<Rightarrow> string \<Rightarrow> string list option" where
  "extractFunctionCallArgs text funcName =
     (case rx_all (rx_call funcName) text 0 of
        [] \<Rightarrow> None
      | m # ms \<Rightarrow>
          (let lastMatch = last (m # ms);
               startPos = m_index lastMatch + length (m_text lastMatch)
           in scanArgs (drop startPos text) 1 [] []))"

text \<open>\<open>/(float|int|uint|bool|real|half)([2-4])\s*\(/\<close>\<close>

definition rx_vectorConstructor :: rx where
  "rx_vectorConstructor = seq [
      Grp 1 (alts [Lit ''float'', Lit ''int'', Lit ''uint'', Lit ''bool'', Lit ''real'', Lit ''half'']),
      Grp 2 (Chr (oneOf ''234'')), Star sp, Lit ''('']"

definition vectorConstructorType :: "string \<Rightarrow> string option" where
  "vectorConstructorType s =
     (case rx_match rx_vectorConstructor s of
        None \<Rightarrow> None
      | Some m \<Rightarrow> (case (grp m 1, grp m 2) of (Some a, Some b) \<Rightarrow> Some (a @ b) | _ \<Rightarrow> None))"

text \<open>\<open>/^([A-Za-z_][A-Za-z0-9_]*)/\<close>\<close>

definition leadingIdentifier :: "string \<Rightarrow> string option" where
  "leadingIdentifier s =
     (case rx_match (seq [Bol, Grp 1 ident]) s of None \<Rightarrow> None | Some m \<Rightarrow> grp m 1)"

text \<open>
  \<open>getExpressionType(document, expression, lineNum)\<close>, lines 1554-1608. The block at lines
  1585-1595 only writes to the debug log.
\<close>

definition getExpressionType :: "symbol_index \<Rightarrow> string \<Rightarrow> string \<Rightarrow> nat \<Rightarrow> string option" where
  "getExpressionType idx text expression lineNum =
     (if expression = [] then None
      else
        (let trimmedExpr = js_trim expression;
             fromMul =
               (if rx_test (rx_call ''mul'') trimmedExpr
                then (case extractFunctionCallArgs trimmedExpr ''mul'' of
                        None \<Rightarrow> None
                      | Some args \<Rightarrow>
                          if 2 \<le> length args
                          then (let secondArg = js_trim (args ! 1)
                                in case vectorConstructorType secondArg of
                                     Some resultType \<Rightarrow> Some resultType
                                   | None \<Rightarrow>
                                      (case leadingIdentifier secondArg of
                                         None \<Rightarrow> None
                                       | Some v \<Rightarrow>
                                          (let varType = getVariableTypeAtPosition idx text v lineNum
                                           in if truthy varType \<and> isVectorType (the varType)
                                              then varType else None)))
                          else None)
                else None)
         in case fromMul of
              Some resultType \<Rightarrow> Some resultType
            | None \<Rightarrow> vectorConstructorType trimmedExpr))"

subsection \<open>The member-access check of the identifier loop\<close>

text \<open>
  What \<open>validateDocument\<close> has computed before its identifier loop and the loop reads:
  the declared names, the struct and PascalCase type names, the variable types, the
  recorded declarations, the function scopes, and the text of the document.
\<close>

record function_scope =
  fs_startLine :: nat
  fs_endLine :: "nat option"
  fs_returnType :: string
  fs_firstParamType :: "string option"

record sweep_context =
  cx_declarations :: "string set"
  cx_knownStructs :: "string set"
  cx_pascalCaseTypes :: "string set"
  cx_variableTypes :: "(string, string) jsmap"
  cx_variableDeclarations :: "(string, var_decl list) jsmap"
  cx_functionScopes :: "function_scope list"
  cx_text :: string

text \<open>The set \<open>atomTypes\<close> of \<open>validateDocument\<close> (line 3410).\<close>

definition atomTypes :: "string set" where
  "atomTypes =
     {''ForwardPassOutput'', ''Surface'', ''LightingData'', ''DirectionalLight'',
      ''SimplePointLight'', ''PointLight'', ''SimpleSpotLight'', ''DiskLight'',
      ''ViewSrg'', ''SceneSrg'', ''ObjectSrg''}"

definition textureMethods :: "string list" where
  "textureMethods =
     [''Sample'', ''SampleLevel'', ''SampleBias'', ''SampleGrad'', ''SampleCmp'', ''SampleCmpLevelZero'',
      ''Load'', ''GetDimensions'', ''Gather'', ''GatherRed'', ''GatherGreen'', ''GatherBlue'',
      ''GatherAlpha'', ''GatherCmp'', ''GatherCmpRed'']"

text \<open>\<open>scope.startLine <= lineNum && (!scope.endLine || lineNum <= scope.endLine)\<close>\<close>

definition scopeContains :: "nat \<Rightarrow> function_scope \<Rightarrow> bool" where
  "scopeContains lineNum scope =
     (fs_startLine scope \<le> lineNum
      \<and> (case fs_endLine scope of None \<Rightarrow> True | Some e \<Rightarrow> e = 0 \<or> lineNum \<le> e))"

definition getCurrentFunctionReturnType :: "function_scope list \<Rightarrow> nat \<Rightarrow> string option" where
  "getCurrentFunctionReturnType functionScopes lineNum =
     map_option fs_returnType (find (scopeContains lineNum) (rev functionScopes))"

definition getCurrentFunctionParameterType :: "function_scope list \<Rightarrow> nat \<Rightarrow> string option" where
  "getCurrentFunctionParameterType functionScopes lineNum =
     (case find (scopeContains lineNum) (rev functionScopes) of
        None \<Rightarrow> None
      | Some scope \<Rightarrow> fs_firstParamType scope)"

text \<open>What the check of one identifier does: push a diagnostic and \<open>continue\<close>, only
  \<open>continue\<close>, or go on to the checks that follow.\<close>

datatype outcome = Report diagnostic | Skip | Proceed

text \<open>\<open>atomTypes.has(srgName) || declarations.has(srgName) || srgMembers.has(srgName)\<close>\<close>

definition srgKnown :: "symbol_index \<Rightarrow> sweep_context \<Rightarrow> string \<Rightarrow> bool" where
  "srgKnown idx cx srgName =
     (srgName \<in> atomTypes \<or> srgName \<in> cx_declarations cx \<or> mhas (srgMembers idx) srgName)"

text \<open>Lines 4138-4142 and 4278-4282: the member of the SRG exists.\<close>

definition srgMemberExists :: "symbol_index \<Rightarrow> sweep_context \<Rightarrow> string \<Rightarrow> string \<Rightarrow> bool" where
  "srgMemberExists idx cx srgName memberName =
     (srgName @ ''::'' @ memberName \<in> cx_declarations cx
      \<or> mhas (srgMemberIndex idx) (srgName @ ''::'' @ memberName)
      \<or> (case map_of (srgMembers idx) srgName of None \<Rightarrow> False | Some members \<Rightarrow> memberName \<in> members))"

text \<open>\<open>/([A-Za-z_][A-Za-z0-9_]*)::\s*$/\<close>\<close>

definition rx_srgBefore :: rx where
  "rx_srgBefore = seq [Grp 1 ident, Lit ''::'', Star sp, Eol]"

text \<open>\<open>/([A-Za-z_][A-Za-z0-9_]*)::([A-Za-z_][A-Za-z0-9_]*)\s*\.(?![^.]*\.)/\<close>\<close>

definition rx_srgMember :: rx where
  "rx_srgMember = seq [Grp 1 ident, Lit ''::'', Grp 2 ident, Star sp, Lit ''.'',
      NotAhead (Cat (Star (Chr (noneOf ''.''))) (Lit ''.''))]"

text \<open>\<open>/([A-Za-z_][A-Za-z0-9_]*)\s*\./g\<close>\<close>

definition rx_varAccess :: rx where
  "rx_varAccess = seq [Grp 1 ident, Star sp, Lit ''.'']"

text \<open>\<open>/([A-Za-z_][A-Za-z0-9_]*)\s*\([^)]*\)\s*\./\<close>\<close>

definition rx_callBeforeDot :: rx where
  "rx_callBeforeDot = seq [Grp 1 ident, Star sp, Lit ''('', Star (Chr (noneOf '')'')), Lit '')'',
      Star sp, Lit ''.'']"

text \<open>Lines 4066-4079: \<open>memberFound\<close>.\<close>

definition srgMemberFound :: "symbol_index \<Rightarrow> sweep_context \<Rightarrow> string \<Rightarrow> string \<Rightarrow> bool" where
  "srgMemberFound idx cx srgName identifier =
     (if srgName @ ''::'' @ identifier \<in> cx_declarations cx then True
      else case map_of (srgMembers idx) srgName of
             Some members \<Rightarrow> identifier \<in> members
           | None \<Rightarrow> mhas (srgMemberIndex idx) (srgName @ ''::'' @ identifier))"

text \<open>Lines 4060-4096: the identifier directly follows \<open>Name::\<close>.\<close>

definition checkSrgQualified ::
  "symbol_index \<Rightarrow> sweep_context \<Rightarrow> nat \<Rightarrow> nat \<Rightarrow> string \<Rightarrow> string \<Rightarrow> outcome" where
  "checkSrgQualified idx cx i pos identifier beforeAccess =
     (case rx_match rx_srgBefore beforeAccess of
        None \<Rightarrow> Proceed
      | Some m \<Rightarrow>
         (case grp m 1 of
            None \<Rightarrow> Proceed
          | Some srgName \<Rightarrow>
             (let memberFound = srgMemberFound idx cx srgName identifier
              in if memberFound then Skip
                 else if srgKnown idx cx srgName
                 then Report (errorAt i pos (pos + length identifier)
                         (''no member named '' @ quoted identifier @ '' in SRG '' @ quoted srgName))
                 else Proceed)))"

text \<open>
  Lines 4147-4158: the member of a known SRG does not exist. The diagnostic is put on the
  first occurrence of the member name from column \<open>pos - 100\<close> on; without one, nothing
  is pushed.
\<close>

definition reportMissingSrgMember :: "nat \<Rightarrow> string \<Rightarrow> nat \<Rightarrow> string \<Rightarrow> string \<Rightarrow> outcome" where
  "reportMissingSrgMember i line pos srgName memberName =
     (case js_indexOfFrom line memberName (pos - 100) of
        Some memberNamePos \<Rightarrow>
          Report (errorAt i memberNamePos (memberNamePos + length memberName)
            (''no member named '' @ quoted memberName @ '' in SRG '' @ quoted srgName))
      | None \<Rightarrow> Skip)"

text \<open>
  Lines 4098-4271: which operand the identifier is accessed on, and its type. Either the
  check ends here (\<open>Done\<close>), or it yields \<open>srgMemberMatch\<close>, the name of \<open>varMatch\<close> and
  \<open>varType\<close>. The entries of \<open>srgMemberIndex\<close> have no \<open>type\<close> field, so lines 4168-4174
  assign nothing.
\<close>

datatype resolution =
  Done outcome
| Resolved "(string \<times> string) option" "string option" "string option"

definition resolveVariable ::
  "symbol_index \<Rightarrow> sweep_context \<Rightarrow> nat \<Rightarrow> int \<Rightarrow> string \<Rightarrow> string \<Rightarrow> string \<Rightarrow> string option" where
  "resolveVariable idx cx i validationBraceDepth beforeAccess expressionBeforeDot varName =
     (let exprType = getExpressionType idx (cx_text cx) expressionBeforeDot i;
          varType =
            (if truthy exprType then exprType
             else case rx_match rx_callBeforeDot beforeAccess of
                    None \<Rightarrow> None
                  | Some exprMatch \<Rightarrow>
                     if grp exprMatch 1 = Some ''mul''
                     then (case extractFunctionCallArgs expressionBeforeDot ''mul'' of
                             None \<Rightarrow> None
                           | Some mulArgs \<Rightarrow>
                              if 2 \<le> length mulArgs
                              then (let secondArg = js_trim (mulArgs ! 1)
                                    in case vectorConstructorType secondArg of
                                         Some t \<Rightarrow> Some t
                                       | None \<Rightarrow>
                                          (case leadingIdentifier secondArg of
                                             None \<Rightarrow> None
                                           | Some v \<Rightarrow>
                                              (let argVarType =
                                                     getVariableTypeAtLine (cx_variableDeclarations cx)
                                                       (cx_variableTypes cx) v i validationBraceDepth
                                               in if truthy argVarType \<and> isVectorType (the argVarType)
                                                  then argVarType else None)))
                              else None)
                     else None);
          varType =
            (if \<not> truthy varType \<and> (varName = ''OUT'' \<or> varName = ''out'')
                \<and> truthy (getCurrentFunctionReturnType (cx_functionScopes cx) i)
             then getCurrentFunctionReturnType (cx_functionScopes cx) i else varType);
          varType =
            (if \<not> truthy varType \<and> (varName = ''IN'' \<or> varName = ''in'')
                \<and> truthy (getCurrentFunctionParameterType (cx_functionScopes cx) i)
             then getCurrentFunctionParameterType (cx_functionScopes cx) i else varType);
          varType =
            (if \<not> truthy varType
             then getVariableTypeAtLine (cx_variableDeclarations cx) (cx_variableTypes cx)
                    varName i validationBraceDepth
             else varType);
          varType =
            (if \<not> truthy varType
             then (case find (\<lambda>(srgName, members).
                               varName \<in> members \<and> mhas (cx_variableTypes cx) (srgName @ ''::'' @ varName))
                          (srgMembers idx) of
                     Some (srgName, members) \<Rightarrow> map_of (cx_variableTypes cx) (srgName @ ''::'' @ varName)
                   | None \<Rightarrow> varType)
             else varType);
          varType =
            (if \<not> truthy varType
                \<and> (varName \<in> atomTypes \<or> varName \<in> cx_pascalCaseTypes cx
                    \<or> varName \<in> cx_knownStructs cx \<or> mhas (structIndex idx) varName)
             then Some varName else varType)
      in varType)"

definition resolveOperand ::
  "symbol_index \<Rightarrow> sweep_context \<Rightarrow> nat \<Rightarrow> int \<Rightarrow> string \<Rightarrow> nat \<Rightarrow> string \<Rightarrow> resolution" where
  "resolveOperand idx cx i validationBraceDepth line pos beforeAccess =
     (let srgMemberMatch =
            (case rx_match rx_srgMember beforeAccess of
               None \<Rightarrow> None
             | Some m \<Rightarrow> (case (grp m 1, grp m 2) of (Some a, Some b) \<Rightarrow> Some (a, b) | _ \<Rightarrow> None));
          expressionBeforeDot =
            take (case js_lastIndexOf beforeAccess ''.'' of None \<Rightarrow> 0 | Some k \<Rightarrow> k) beforeAccess;
          exprType =
            (if js_endsWith (js_trim expressionBeforeDot) '')''
             then getExpressionType idx (cx_text cx) expressionBeforeDot i else None);
          varMatch =
            (if srgMemberMatch = None \<and> \<not> truthy exprType
             then (case rx_all rx_varAccess beforeAccess 0 of
                     [] \<Rightarrow> None
                   | m # ms \<Rightarrow> grp (last (m # ms)) 1)
             else None)
      in case srgMemberMatch of
           Some (srgName, memberName) \<Rightarrow>
             if \<not> srgMemberExists idx cx srgName memberName \<and> srgKnown idx cx srgName
             then Done (reportMissingSrgMember i line pos srgName memberName)
             else Resolved srgMemberMatch None
                    (if mhas (cx_variableTypes cx) (srgName @ ''::'' @ memberName)
                     then map_of (cx_variableTypes cx) (srgName @ ''::'' @ memberName)
                     else exprType)
         | None \<Rightarrow>
            (case varMatch of
               Some varName \<Rightarrow>
                 Resolved None varMatch
                   (resolveVariable idx cx i validationBraceDepth beforeAccess expressionBeforeDot varName)
             | None \<Rightarrow> Resolved None None exprType))"

text \<open>Lines 4303-4393: the operand has the type \<open>varType\<close>.\<close>

definition checkResolvedMember :: "symbol_index \<Rightarrow> nat \<Rightarrow> nat \<Rightarrow> string \<Rightarrow> string \<Rightarrow> outcome" where
  "checkResolvedMember idx i pos identifier varType =
     (let range = (\<lambda>message. errorAt i pos (pos + length identifier) message)
      in if isVectorType varType \<and> rx_test rx_swizzle identifier then Skip
         else case map_of (atomTypeMembers idx) varType of
                Some members \<Rightarrow>
                  if identifier \<in> members then Skip
                  else Report (range (''no member named '' @ quoted identifier @ '' in type ''
                                       @ quoted varType))
              | None \<Rightarrow>
                 (case (if mhas (structIndex idx) varType \<or> mhas (structMembers idx) varType
                           \<or> varType \<in> atomTypes
                        then (case map_of (structMembers idx) varType of
                                Some members \<Rightarrow>
                                  Some (if identifier \<in> members then Skip
                                        else Report (range (''no member named '' @ quoted identifier
                                               @ '' in struct '' @ quoted varType)))
                              | None \<Rightarrow>
                                  if varType \<in> atomTypes
                                  then Some (Report (range (''no member named '' @ quoted identifier
                                               @ '' in struct '' @ quoted varType
                                               @ '' (type found but members not indexed)'')))
                                  else None)
                        else None) of
                    Some out \<Rightarrow> out
                  | None \<Rightarrow>
                     (case map_of (srgMembers idx) varType of
                        Some members \<Rightarrow>
                          if identifier \<in> members then Skip
                          else Report (range (''no member named '' @ quoted identifier @ '' in type ''
                                               @ quoted varType))
                      | None \<Rightarrow>
                          if js_startsWith varType ''Texture'' \<and> identifier \<notin> set textureMethods
                          then Report (range (''no member named '' @ quoted identifier @ '' in type ''
                                 @ quoted varType @ ''. Valid methods: ''
                                 @ foldr (\<lambda>m acc. if acc = [] then m else m @ '', '' @ acc) textureMethods []))
                          else Skip)))"

text \<open>
  Lines 4056-4403: the branch of the identifier loop for an identifier with a \<open>.\<close> or
  \<open>::\<close> somewhere before it on the line.
\<close>

definition checkMemberAccess ::
  "symbol_index \<Rightarrow> sweep_context \<Rightarrow> nat \<Rightarrow> int \<Rightarrow> string \<Rightarrow> nat \<Rightarrow> string \<Rightarrow> string \<Rightarrow> outcome" where
  "checkMemberAccess idx cx i validationBraceDepth line pos identifier beforeMatch =
     (if \<not> (js_includes beforeMatch ''.'' \<or> js_includes beforeMatch ''::'') then Proceed
      else
        (let beforeAccess = js_trim beforeMatch
         in case checkSrgQualified idx cx i pos identifier beforeAccess of
              Report d \<Rightarrow> Report d
            | Skip \<Rightarrow> Skip
            | Proceed \<Rightarrow>
               (case resolveOperand idx cx i validationBraceDepth line pos beforeAccess of
                  Done out \<Rightarrow> out
                | Resolved srgMemberMatch varMatch varType \<Rightarrow>
                   (case (case srgMemberMatch of
                            Some (srgName, memberName) \<Rightarrow>
                              if \<not> truthy varType \<and> srgMemberExists idx cx srgName memberName
                              then Some (if rx_test rx_swizzle identifier then Skip
                                         else Report (errorAt i pos (pos + length identifier)
                                                (''invalid swizzle property '' @ quoted identifier)))
                              else None
                          | None \<Rightarrow> None) of
                      Some out \<Rightarrow> out
                    | None \<Rightarrow>
                       if truthy varType then checkResolvedMember idx i pos identifier (the varType)
                       else if srgMemberMatch \<noteq> None \<or> varMatch \<noteq> None then Skip
                       else Proceed))))"

text \<open>A name as \<open>[A-Za-z_][A-Za-z0-9_]*\<close> matches it in full.\<close>

definition identifierShaped :: "string \<Rightarrow> bool" where
  "identifierShaped name =
     (case name of [] \<Rightarrow> False | c # w \<Rightarrow> isIdentStart c \<and> list_all isWordChar w)"

subsection \<open>The checks for an undeclared identifier\<close>

text \<open>The set \<open>builtinIdentifiers\<close> (line 3211).\<close>

definition builtinIdentifiers :: "string set" where
  "builtinIdentifiers = set
     [''max'', ''min'', ''saturate'', ''clamp'', ''smoothstep'', ''normalize'', ''length'', ''dot'', ''cross'',
      ''pow'', ''floor'', ''ceil'', ''frac'', ''lerp'', ''step'', ''ddx'', ''ddy'', ''abs'', ''mul'', ''round'',
      ''sin'', ''cos'', ''sqrt'', ''fmod'',
      ''Sample'', ''SampleCmp'', ''GetDimensions'',
      ''float'', ''float2'', ''float3'', ''float4'', ''float2x2'', ''float3x3'', ''float4x4'',
      ''real'', ''real2'', ''real3'', ''real4'', ''real3x3'', ''real3x4'', ''real4x4'',
      ''int'', ''int2'', ''int3'', ''int4'', ''uint'', ''uint2'', ''uint3'', ''uint4'', ''bool'',
      ''half'', ''double'', ''matrix'', ''void'',
      ''Texture2D'', ''Texture3D'', ''TextureCube'', ''Texture2DArray'', ''RWTexture2D'',
      ''Sampler'', ''SamplerState'', ''SamplerComparisonState'',
      ''if'', ''else'', ''for'', ''while'', ''do'', ''switch'', ''case'', ''default'', ''break'', ''continue'',
      ''return'', ''true'', ''false'',
      ''struct'', ''cbuffer'', ''tbuffer'', ''namespace'', ''class'', ''static'', ''const'', ''groupshared'',
      ''uniform'', ''volatile'', ''option'', ''noperspective'', ''inline'',
      ''POSITION'', ''NORMAL'', ''TEXCOORD0'', ''TEXCOORD1'', ''TEXCOORD2'', ''TEXCOORD3'', ''TEXCOORD4'',
      ''TEXCOORD5'', ''TEXCOORD6'',
      ''UV0'', ''UV1'', ''UV2'', ''UV3'',
      ''SV_Position'', ''SV_Target'', ''SV_Target0'', ''SV_InstanceID'', ''SV_VertexID'',
      ''COLOR0'', ''COLOR1'', ''TANGENT'', ''BINORMAL'']"

definition atomFunctions :: "string list" where
  "atomFunctions =
     [''GetObjectToWorldMatrix'', ''GetObjectToWorldMatrixInverseTranspose'', ''ApplyIblForward'',
      ''ComputeShadowIndex'', ''EncodeNormalSignedOctahedron'', ''GetVisibility'', ''Init'',
      ''FinalizeLighting'', ''CalculateRoughnessA'', ''SetAlbedoAndSpecularF0'', ''GetSpecularF0'',
      ''GetDefaultNormal'']"

text \<open>\<open>/:\s*$/\<close>\<close>

definition rx_colonAtEnd :: rx where
  "rx_colonAtEnd = seq [Lit '':'', Star sp, Eol]"

text \<open>\<open>/\b(?:struct|ShaderResourceGroup|cbuffer|tbuffer|namespace|class)\s+$/\<close>\<close>

definition rx_afterBlockKeyword :: rx where
  "rx_afterBlockKeyword = seq [Wordb,
      alts [Lit ''struct'', Lit ''ShaderResourceGroup'', Lit ''cbuffer'', Lit ''tbuffer'',
            Lit ''namespace'', Lit ''class''],
      Plus sp, Eol]"

text \<open>
  \<open>/\b(?:float(?:[1-4](?:x[1-4])?)?|int(?:[1-4])?|uint(?:[1-4])?|bool|half|double|void|matrix|Texture\w*|Sampler\w*)\s+$/\<close>
\<close>

definition rx_afterTypeName :: rx where
  "rx_afterTypeName = seq [Wordb,
      alts [matrixOf ''float'', vectorOf ''int'', vectorOf ''uint'', Lit ''bool'', Lit ''half'',
            Lit ''double'', Lit ''void'', Lit ''matrix'',
            Cat (Lit ''Texture'') wordChars, Cat (Lit ''Sampler'') wordChars],
      Plus sp, Eol]"

text \<open>\<open>/\b[A-Z][A-Za-z0-9_]*\s+$/\<close>\<close>

definition rx_afterPascalName :: rx where
  "rx_afterPascalName = seq [Wordb, Chr isUpper, wordChars, Plus sp, Eol]"

text \<open>\<open>/\([^)]*$/\<close>, \<open>/<[^>]*$/\<close> and \<open>/"[^"]*$/\<close>: an opener that is not closed before the end.\<close>

definition rx_unclosed :: "char \<Rightarrow> char \<Rightarrow> rx" where
  "rx_unclosed opener closer = seq [Lit [opener], Star (Chr (noneOf [closer])), Eol]"

text \<open>\<open>/([A-Za-z_][A-Za-z0-9_]*)::([A-Za-z_][A-Za-z0-9_]*)/\<close> and \<open>/([A-Z][A-Za-z0-9_]*)::([A-Za-z_][A-Za-z0-9_]*)/\<close>\<close>

definition rx_qualified :: rx where
  "rx_qualified = seq [Grp 1 ident, Lit ''::'', Grp 2 ident]"

definition rx_namespaceQualified :: rx where
  "rx_namespaceQualified = seq [Grp 1 (Cat (Chr isUpper) wordChars), Lit ''::'', Grp 2 ident]"

text \<open>\<open>/[\d.eE+-]\s*$/\<close>\<close>

definition rx_afterNumberOrDot :: rx where
  "rx_afterNumberOrDot = seq [Chr (\<lambda>c. isDigit c \<or> oneOf ''.eE+-'' c), Star sp, Eol]"

text \<open>\<open>/^\s*X/\<close> for a character class \<open>X\<close>: what follows the identifier.\<close>

definition followedBy :: "(char \<Rightarrow> bool) \<Rightarrow> string \<Rightarrow> bool" where
  "followedBy p afterMatch = rx_test (seq [Bol, Star sp, Chr p]) afterMatch"

text \<open>Lines 4405-4509.\<close>

definition checkUndeclared ::
  "symbol_index \<Rightarrow> sweep_context \<Rightarrow> nat \<Rightarrow> string \<Rightarrow> nat \<Rightarrow> string \<Rightarrow> string \<Rightarrow> string \<Rightarrow> outcome" where
  "checkUndeclared idx cx i line pos identifier beforeMatch afterMatch =
     (let startsUpper = (case identifier of [] \<Rightarrow> False | c # _ \<Rightarrow> isUpper c);
          trimmedBefore = js_trim beforeMatch;
          window = take (pos + length identifier - (pos - 50)) (drop (pos - 50) line)
      in if startsUpper \<and> (identifier \<in> cx_pascalCaseTypes cx \<or> identifier \<in> atomTypes) then Skip
         else if rx_test rx_colonAtEnd beforeMatch then Skip
         else if rx_test rx_afterBlockKeyword trimmedBefore then Skip
         else if rx_test rx_afterTypeName trimmedBefore then Skip
         else if rx_test rx_afterPascalName trimmedBefore then Skip
         else if rx_test (rx_unclosed (CHR ''('') (CHR '')'')) beforeMatch \<and> js_includes afterMatch '')''
         then Skip
         else if (case rx_match rx_qualified window of
                    None \<Rightarrow> False
                  | Some m \<Rightarrow>
                     (case (grp m 1, grp m 2) of
                        (Some srg, Some member) \<Rightarrow>
                          member = identifier
                          \<and> (srg @ ''::'' @ member \<in> cx_declarations cx
                             \<or> srg \<in> atomTypes \<or> srg \<in> cx_declarations cx
                             \<or> (case map_of (srgMembers idx) srg of
                                   None \<Rightarrow> False
                                 | Some members \<Rightarrow> identifier \<in> members))
                      | _ \<Rightarrow> False))
         then Skip
         else if (\<exists>decl \<in> cx_declarations cx.
                    js_includes decl ''::'' \<and> js_endsWith decl (''::'' @ identifier))
         then Skip
         else if rx_test rx_afterNumberOrDot beforeMatch then Skip
         else if rx_test (rx_unclosed (CHR ''<'') (CHR ''>'')) beforeMatch
                 \<or> rx_test (rx_unclosed (CHR 0x22) (CHR 0x22)) beforeMatch
         then Skip
         else if identifier \<in> set atomFunctions then Skip
         else if (case rx_match rx_namespaceQualified window of
                    None \<Rightarrow> False
                  | Some m \<Rightarrow> grp m 2 = Some identifier)
         then Skip
         else if startsUpper then Skip
         else if js_includes beforeMatch ''?'' \<or> js_includes (take 5 afterMatch) '':'' then Skip
         else if \<not> (followedBy (oneOf '';'') afterMatch \<or> followedBy (oneOf ''+-*/%<>!&|='') afterMatch
                    \<or> followedBy (oneOf ''('') afterMatch \<or> followedBy (oneOf ''['') afterMatch
                    \<or> followedBy (oneOf '','') afterMatch \<or> followedBy (oneOf '')]'') afterMatch)
         then Skip
         else if (case identifier of [] \<Rightarrow> False | c # _ \<Rightarrow> isLower c \<or> c = CHR ''_'')
         then Report (errorAt i pos (pos + length identifier)
                        (''use of undeclared identifier '' @ quoted identifier))
         else Skip)"

text \<open>
  Lines 4037-4510, the body of the identifier loop for the identifier found at column
  \<open>pos\<close> of \<open>lineWithoutStrings\<close>: a built-in or declared name is skipped, then the
  member-access check, then the checks for an undeclared identifier.
\<close>

definition checkIdentifier ::
  "symbol_index \<Rightarrow> sweep_context \<Rightarrow> nat \<Rightarrow> int \<Rightarrow> string \<Rightarrow> string \<Rightarrow> nat \<Rightarrow> string \<Rightarrow> outcome" where
  "checkIdentifier idx cx i validationBraceDepth line lineWithoutStrings pos identifier =
     (let beforeMatch = take pos lineWithoutStrings;
          afterMatch = drop (pos + length identifier) lineWithoutStrings
      in if identifier \<in> builtinIdentifiers then Skip
         else if identifier \<in> cx_declarations cx then Skip
         else case checkMemberAccess idx cx i validationBraceDepth line pos identifier beforeMatch of
                Report d \<Rightarrow> Report d
              | Skip \<Rightarrow> Skip
              | Proceed \<Rightarrow> checkUndeclared idx cx i line pos identifier beforeMatch afterMatch)"

definition emptyContext :: sweep_context where
  "emptyContext =
     \<lparr>cx_declarations = {}, cx_knownStructs = {}, cx_pascalCaseTypes = {}, cx_variableTypes = [],
      cx_variableDeclarations = [], cx_functionScopes = [], cx_text = []\<rparr>"

text \<open>
  The context of the sweep for the document \<open>float3 v;\<close> followed by an access to a member
  of \<open>v\<close>: the declaration is recorded on line 0 at brace depth 0.
\<close>

definition example_vectorContext :: sweep_context where
  "example_vectorContext =
     emptyContext\<lparr>cx_declarations := {''v''},
                    cx_variableTypes := [(''v'', ''float3'')],
                    cx_variableDeclarations :=
                      [(''v'', [\<lparr>vd_type = ''float3'', vd_line = 0, vd_braceDepth = 0\<rparr>])]\<rparr>"

text \<open>An index in which the SRG \<open>ViewSrg\<close> has the member \<open>m_tex\<close>, read from a header.\<close>

definition example_srgIndex :: symbol_index where
  "example_srgIndex = emptyIndex\<lparr>srgMembers := [(''ViewSrg'', {''m_tex''})]\<rparr>"

subsection \<open>Non-static options and the ShaderVariantFallback SRG\<close>

text \<open>\<open>/^\s*option\s+(?:bool|int|uint)\s+([A-Za-z_][A-Za-z0-9_]*)\s*[=;]/\<close>\<close>

definition rx_documentOption :: rx where
  "rx_documentOption = seq [Bol, Star sp, Lit ''option'', Plus sp,
      alts [Lit ''bool'', Lit ''int'', Lit ''uint''], Plus sp,
      Grp 1 ident, Star sp, Chr (oneOf ''=;'')]"

text \<open>
  \<open>/(?:partial\s+)?ShaderResourceGroup\s+([A-Za-z_][A-Za-z0-9_]*)\s*:\s*([A-Za-z_][A-Za-z0-9_]*)/\<close>
\<close>

definition rx_srgDeclaration :: rx where
  "rx_srgDeclaration = seq [Opt (Cat (Lit ''partial'') (Plus sp)), Lit ''ShaderResourceGroup'', Plus sp,
      Grp 1 ident, Star sp, Lit '':'', Star sp, Grp 2 ident]"

text \<open>\<open>optionMatch[1]\<close> of a comment-free line, when the line matches and is not static.\<close>

definition documentOptionName :: "string \<Rightarrow> string option" where
  "documentOptionName processedLine =
     (case rx_match rx_documentOption processedLine of
        None \<Rightarrow> None
      | Some optionMatch \<Rightarrow>
          if \<not> js_includes processedLine ''static'' then grp optionMatch 1 else None)"

text \<open>\<open>srgMatch[1]\<close> and \<open>srgMatch[2]\<close> of a comment-free line.\<close>

definition srgDeclarationOf :: "string \<Rightarrow> (string \<times> string) option" where
  "srgDeclarationOf processedLine =
     (case rx_match rx_srgDeclaration processedLine of
        None \<Rightarrow> None
      | Some srgMatch \<Rightarrow>
          (case (grp srgMatch 1, grp srgMatch 2) of
             (Some srgName, Some semanticName) \<Rightarrow> Some (srgName, semanticName)
           | _ \<Rightarrow> None))"

definition variantFallbackSemantics :: "string set" where
  "variantFallbackSemantics = {''SRG_PerDraw'', ''SRG_PerPass_WithFallback'', ''SRG_RayTracingGlobal''}"

definition fallbackMessage :: string where
  "fallbackMessage =
     ''If you have non-static options, one SRG must be designated as the default ShaderVariantFallback''"

record option_use =
  ou_name :: string
  ou_line :: int
  ou_fromIndex :: bool

text \<open>The variables of the loop at lines 3631-3712, and the diagnostics pushed so far.\<close>

record fallback_scan =
  fb_inMultiLineComment :: bool
  fb_nonStaticOptions :: "option_use list"
  fb_hasShaderVariantFallback :: bool
  fb_diagnostics :: "diagnostic list"

text \<open>One iteration of the loop, for line \<open>i\<close>.\<close>

definition scanLine :: "symbol_index \<Rightarrow> nat \<Rightarrow> string \<Rightarrow> fallback_scan \<Rightarrow> fallback_scan" where
  "scanLine idx i line st =
     (case stripComments (fb_inMultiLineComment st) line of
        (inMl, None) \<Rightarrow> st\<lparr>fb_inMultiLineComment := inMl\<rparr>
      | (inMl, Some processedLine) \<Rightarrow>
          (let st = st\<lparr>fb_inMultiLineComment := inMl\<rparr>;
               st = (case documentOptionName processedLine of
                       None \<Rightarrow> st
                     | Some optionName \<Rightarrow>
                         if optionName \<in> ou_name ` set (fb_nonStaticOptions st) then st
                         else st\<lparr>fb_nonStaticOptions := fb_nonStaticOptions st
                                   @ [\<lparr>ou_name = optionName, ou_line = int i, ou_fromIndex = False\<rparr>]\<rparr>)
           in case srgDeclarationOf processedLine of
                None \<Rightarrow> st
              | Some (srgName, semanticName) \<Rightarrow>
                  (let st = (if \<not> mhas (srgSemanticIndex idx) semanticName
                             then st\<lparr>fb_diagnostics := fb_diagnostics st
                                       @ [errorAt i 0 (length line)
                                            (''Declaration for semantic '' @ semanticName
                                             @ '' used in SRG '' @ srgName @ '' was not found'')]\<rparr>
                             else st)
                   in if semanticName \<in> variantFallbackSemantics
                      then st\<lparr>fb_hasShaderVariantFallback := True\<rparr> else st)))"

text \<open>
  Lines 3608-3728 of \<open>validateDocument\<close>, for the last component \<open>fileName\<close> of the
  document's path and the lines of its text: the diagnostics this part pushes.
\<close>

definition checkShaderVariantFallback :: "symbol_index \<Rightarrow> string \<Rightarrow> string list \<Rightarrow> diagnostic list" where
  "checkShaderVariantFallback idx fileName lines =
     (let isAzslFile = (js_endsWith fileName ''.azsl'' \<and> \<not> js_endsWith fileName ''.azsli'');
          nonStaticOptions =
            (if isAzslFile
             then map (\<lambda>(optionName, optionInfo).
                         \<lparr>ou_name = optionName, ou_line = - 1, ou_fromIndex = True\<rparr>)
                    (filter (\<lambda>(optionName, optionInfo). \<not> oe_isStatic optionInfo) (optionIndex idx))
             else []);
          st = fold (\<lambda>(i, line). scanLine idx i line) (enumerate 0 lines)
                 \<lparr>fb_inMultiLineComment = False, fb_nonStaticOptions = nonStaticOptions,
                  fb_hasShaderVariantFallback = False, fb_diagnostics = []\<rparr>
      in fb_diagnostics st
         @ (if isAzslFile \<and> fb_nonStaticOptions st \<noteq> [] \<and> \<not> fb_hasShaderVariantFallback st
            then [errorAt 0 0 (case lines of [] \<Rightarrow> 0 | first # _ \<Rightarrow> length first) fallbackMessage]
            else []))"






subsection \<open>The syntax pass\<close>

text \<open>
  \<open>s.replace(/\/\*[\s\S]*?\*\//g, '')\<close>: every \<open>/*\<close> that is closed is removed up to its
  \<open>*/\<close>; from a \<open>/*\<close> that is not closed the text is kept.
\<close>

function removeBlockComments :: "string \<Rightarrow> string" where
  "removeBlockComments [] = []"
| "removeBlockComments (c # cs) =
     (if take 2 (c # cs) = ''/*''
      then (case indexOfAux ''*/'' (drop 2 (c # cs)) 0 of
              None \<Rightarrow> c # cs
            | Some e \<Rightarrow> removeBlockComments (drop (e + 2) (drop 2 (c # cs))))
      else c # removeBlockComments cs)"
  by pat_completeness auto
termination
  by (relation "measure length") auto

text \<open>\<open>/^\s*\/\//\<close> and \<open>/^\s*#/\<close>\<close>

definition isCommentOrDirective :: "string \<Rightarrow> bool" where
  "isCommentOrDirective line =
     (rx_test (seq [Bol, Star sp, Lit ''//'']) line \<or> rx_test (seq [Bol, Star sp, Lit ''#'']) line)"

text \<open>\<open>/([A-Za-z_][A-Za-z0-9_]*)\s*\.\s*$/\<close> and \<open>/([A-Za-z_][A-Za-z0-9_]*)\s*::\s*$/\<close>\<close>

definition rx_incompleteAccess :: "string \<Rightarrow> rx" where
  "rx_incompleteAccess accessor = seq [Grp 1 ident, Star sp, Lit accessor, Star sp, Eol]"

text \<open>
  \<open>/^(float|int|uint|bool|half|double|void|matrix|Texture|Sampler|struct|class|namespace|ShaderResourceGroup|cbuffer|tbuffer|#|\/\/|\/\*)/\<close>
  and \<open>/^[A-Z][A-Za-z0-9_]*\s+[A-Za-z_]/\<close>: the tests of the next line.
\<close>

definition rx_declarationStart :: rx where
  "rx_declarationStart = seq [Bol,
      alts [Lit ''float'', Lit ''int'', Lit ''uint'', Lit ''bool'', Lit ''half'', Lit ''double'',
            Lit ''void'', Lit ''matrix'', Lit ''Texture'', Lit ''Sampler'', Lit ''struct'',
            Lit ''class'', Lit ''namespace'', Lit ''ShaderResourceGroup'', Lit ''cbuffer'',
            Lit ''tbuffer'', Lit ''#'', Lit ''//'', Lit ''/*'']]"

definition rx_typedDeclaration :: rx where
  "rx_typedDeclaration = seq [Bol, Chr isUpper, wordChars, Plus sp, Chr isIdentStart]"

definition looksLikeDeclaration :: "string \<Rightarrow> bool" where
  "looksLikeDeclaration nextLine =
     (rx_test rx_declarationStart nextLine \<or> rx_test rx_typedDeclaration nextLine)"

text \<open>
  \<open>/\b([A-Za-z_][A-Za-z0-9_]*)\s*\.\s*;/g\<close>, \<open>/\b([A-Za-z_][A-Za-z0-9_]*)\s*\.\s*\./g\<close> and
  \<open>/\b([A-Za-z_][A-Za-z0-9_]*)\s*::\s*;/g\<close>
\<close>

definition rx_accessThen :: "string \<Rightarrow> string \<Rightarrow> rx" where
  "rx_accessThen accessor follower =
     seq [Wordb, Grp 1 ident, Star sp, Lit accessor, Star sp, Lit follower]"

text \<open>
  Lines 4530-4554 and 4556-4580: the trimmed line ends in a name and the accessor, and the
  next line looks like a declaration or there is no next line. The diagnostic covers the
  last occurrence of the accessor in the line as it was read. When \<open>lastIndexOf\<close> finds
  none (the accessor was put together by removing a comment, as in \<open>a:/**/:\<close>), the source
  passes the column \<open>-1\<close> to \<open>new vscode.Range\<close>, which throws: the result is \<open>None\<close>.
\<close>

definition incompleteAccess ::
  "nat \<Rightarrow> string \<Rightarrow> string option \<Rightarrow> string \<Rightarrow> string \<Rightarrow> diagnostic list option" where
  "incompleteAccess i line following trimmedLine accessor =
     (if rx_test (rx_incompleteAccess accessor) trimmedLine
         \<and> (case following of None \<Rightarrow> True | Some nextLine \<Rightarrow> looksLikeDeclaration (js_trim nextLine))
      then (case js_lastIndexOf line accessor of
              Some accessorPos \<Rightarrow>
                Some [errorAt i accessorPos (accessorPos + length accessor) ''incomplete member access'']
            | None \<Rightarrow> None)
      else Some [])"

text \<open>
  Lines 4582-4616: a \<open>;\<close> or a \<open>.\<close> directly after an accessor. The diagnostic starts
  after the name and ends after the \<open>;\<close> (\<open>indexOf\<close> yielding \<open>-1\<close> would give the end 0),
  or covers two characters.
\<close>

definition unexpectedSemicolon :: "nat \<Rightarrow> string \<Rightarrow> string \<Rightarrow> diagnostic list" where
  "unexpectedSemicolon i lineWithoutComments accessor =
     map (\<lambda>m. let accessorPos = m_index m + length (case grp m 1 of None \<Rightarrow> [] | Some name \<Rightarrow> name)
               in errorAt i accessorPos
                    (case js_indexOfFrom lineWithoutComments '';'' accessorPos of
                       None \<Rightarrow> 0
                     | Some semicolonPos \<Rightarrow> semicolonPos + 1)
                    (''syntax error: unexpected '' @ quoted '';'' @ '' after '' @ quoted accessor))
       (rx_all (rx_accessThen accessor '';'') lineWithoutComments 0)"

definition unexpectedDot :: "nat \<Rightarrow> string \<Rightarrow> diagnostic list" where
  "unexpectedDot i lineWithoutComments =
     map (\<lambda>m. let firstDotPos = m_index m + length (case grp m 1 of None \<Rightarrow> [] | Some name \<Rightarrow> name)
               in errorAt i firstDotPos (firstDotPos + 2)
                    (''syntax error: unexpected '' @ quoted ''.'' @ '' after '' @ quoted ''.''))
       (rx_all (rx_accessThen ''.'' ''.'') lineWithoutComments 0)"

text \<open>Lines 4521-4526: block comments closed on the line and a trailing \<open>//\<close> comment are cut.\<close>

definition withoutComments :: "string \<Rightarrow> string" where
  "withoutComments line =
     (let lineWithoutComments = removeBlockComments line
      in case js_indexOf lineWithoutComments ''//'' of
           None \<Rightarrow> lineWithoutComments
         | Some commentIndex \<Rightarrow> take commentIndex lineWithoutComments)"

text \<open>
  One iteration of the loop at lines 4514-4617, for line \<open>i\<close> and the line after it:
  the diagnostics it pushes, or \<open>None\<close> when it throws.
\<close>

definition syntaxLine :: "nat \<Rightarrow> string \<Rightarrow> string option \<Rightarrow> diagnostic list option" where
  "syntaxLine i line following =
     (if isCommentOrDirective line then Some []
      else
        (let lineWithoutComments = withoutComments line;
             trimmedLine = js_trim lineWithoutComments
         in case incompleteAccess i line following trimmedLine ''.'' of
              None \<Rightarrow> None
            | Some incompleteDot \<Rightarrow>
               (case incompleteAccess i line following trimmedLine ''::'' of
                  None \<Rightarrow> None
                | Some incompleteColon \<Rightarrow>
                    Some (incompleteDot @ incompleteColon
                          @ unexpectedSemicolon i lineWithoutComments ''.''
                          @ unexpectedDot i lineWithoutComments
                          @ unexpectedSemicolon i lineWithoutComments ''::''))))"

text \<open>The loop over the lines, from line \<open>i\<close> on.\<close>

fun syntaxPass :: "nat \<Rightarrow> string list \<Rightarrow> diagnostic list option" where
  "syntaxPass i [] = Some []"
| "syntaxPass i (line # rest) =
     (case syntaxLine i line (case rest of [] \<Rightarrow> None | nextLine # _ \<Rightarrow> Some nextLine) of
        None \<Rightarrow> None
      | Some diagnostics \<Rightarrow>
          (case syntaxPass (Suc i) rest of
             None \<Rightarrow> None
           | Some later \<Rightarrow> Some (diagnostics @ later)))"

subsection \<open>The incomplete statement check of the main loop\<close>

text \<open>
  \<open>s.replace(/"[^"]*"/g, '""')\<close>: every string literal that is closed on the line is
  emptied.
\<close>

function replaceStrings :: "string \<Rightarrow> string" where
  "replaceStrings [] = []"
| "replaceStrings (c # cs) =
     (if c = CHR 0x22
      then (case indexOfAux [CHR 0x22] cs 0 of
              None \<Rightarrow> c # cs
            | Some e \<Rightarrow> CHR 0x22 # CHR 0x22 # replaceStrings (drop (Suc e) cs))
      else c # replaceStrings cs)"
  by pat_completeness auto
termination
  by (relation "measure length") auto

text \<open>\<open>s.replace(/\/\/.*$/g, '')\<close>; the \<open>.\<close> matches no line feed and no carriage return.\<close>

definition removeLineComment :: "string \<Rightarrow> string" where
  "removeLineComment s =
     (case rx_match (seq [Lit ''//'', Star (Chr (noneOf [CHR 0x0A, CHR 0x0D])), Eol]) s of
        None \<Rightarrow> s
      | Some m \<Rightarrow> take (m_index m) s)"

text \<open>Lines 3932-3948: the flag \<open>inBlockComment\<close> after a line.\<close>

definition blockCommentAfter :: "bool \<Rightarrow> string \<Rightarrow> bool" where
  "blockCommentAfter inBlockComment lineWithoutStrings =
     (case js_indexOf lineWithoutStrings ''/*'' of
        Some blockCommentStart \<Rightarrow>
          (case js_indexOf lineWithoutStrings ''*/'' of
             Some blockCommentEnd \<Rightarrow> \<not> blockCommentStart < blockCommentEnd
           | None \<Rightarrow> True)
      | None \<Rightarrow>
          (if js_indexOf lineWithoutStrings ''*/'' \<noteq> None \<and> inBlockComment then False
           else inBlockComment))"

text \<open>
  Lines 3978-3989 and 3992-4005: the trimmed line matches the pattern, and the name it
  captured is looked up in the line without strings and comments.
\<close>

definition syntaxErrorAt :: "nat \<Rightarrow> rx \<Rightarrow> string \<Rightarrow> string \<Rightarrow> diagnostic list" where
  "syntaxErrorAt i pattern trimmedAfterComments lineWithoutStrings =
     (case rx_match pattern trimmedAfterComments of
        None \<Rightarrow> []
      | Some m \<Rightarrow>
          (case grp m 1 of
             None \<Rightarrow> []
           | Some varName \<Rightarrow>
               (case js_indexOf lineWithoutStrings varName of
                  None \<Rightarrow> []
                | Some pos \<Rightarrow>
                    [errorAt i pos (pos + length varName) ''syntax error: incomplete member access''])))"

text \<open>
  Lines 3929-4009 for line \<open>i\<close>: the new value of \<open>inBlockComment\<close> and the diagnostics
  pushed. The patterns are \<open>/\b([A-Za-z_][A-Za-z0-9_]*)\s*\.\s*;$/\<close> and
  \<open>/\b([A-Za-z_][A-Za-z0-9_]*)\s*\.\s*$/\<close>; the line after \<open>i\<close> is not read.
\<close>

definition incompleteStatement :: "nat \<Rightarrow> string \<Rightarrow> bool \<Rightarrow> bool \<times> diagnostic list" where
  "incompleteStatement i line inBlockComment =
     (let lineWithoutStrings = replaceStrings line;
          inBlockComment = blockCommentAfter inBlockComment lineWithoutStrings;
          originalHasComment = (rx_test (Lit ''//'') line \<or> rx_test (Lit ''/*'') line \<or> inBlockComment);
          lineWithoutStrings = removeLineComment (removeBlockComments lineWithoutStrings);
          trimmedAfterComments = js_trim lineWithoutStrings
      in (inBlockComment,
          if trimmedAfterComments \<noteq> [] \<and> \<not> originalHasComment \<and> \<not> inBlockComment
          then syntaxErrorAt i (seq [Wordb, Grp 1 ident, Star sp, Lit ''.'', Star sp, Lit '';'', Eol])
                 trimmedAfterComments lineWithoutStrings
               @ syntaxErrorAt i (seq [Wordb, Grp 1 ident, Star sp, Lit ''.'', Star sp, Eol])
                   trimmedAfterComments lineWithoutStrings
          else []))"

text \<open>
  What this check contributes over the lines of the loop at lines 3906-4512, from line \<open>i\<close>
  on; a comment or directive line is skipped before the flag is updated (line 3914).
\<close>

fun incompleteStatements :: "nat \<Rightarrow> bool \<Rightarrow> string list \<Rightarrow> diagnostic list" where
  "incompleteStatements i inBlockComment [] = []"
| "incompleteStatements i inBlockComment (line # rest) =
     (if isCommentOrDirective line then incompleteStatements (Suc i) inBlockComment rest
      else (case incompleteStatement i line inBlockComment of
              (inBlockComment', diagnostics) \<Rightarrow>
                 diagnostics @ incompleteStatements (Suc i) inBlockComment' rest))"

subsection \<open>Validation and completion of a document\<close>

text \<open>\<open>document.fileName.split(/[/\\]/).pop()\<close>\<close>

definition baseName :: "string \<Rightarrow> string" where
  "baseName path = rev (takeWhile (\<lambda>c. c \<noteq> CHR ''/'' \<and> c \<noteq> CHR 0x5C) (rev path))"

text \<open>
  The state that \<open>validateDocument\<close> can change: the tables of the index and the
  diagnostic collection, which holds the diagnostics last set for each document.
\<close>

record extension_state =
  ext_index :: symbol_index
  diagnosticCollection :: "(string, diagnostic list) jsmap"

text \<open>
  \<open>validateDocument\<close> (lines 3383-4620). A document that is not \<open>azsl\<close> returns at once
  (line 3384). Otherwise the structs of the document are merged into the index (lines
  3420-3487), the option and SRG pass (lines 3608-3728), the passes over functions,
  variables and identifiers (lines 3730-4512) and the syntax pass (lines 4514-4617) push
  their diagnostics in this order, and line 4619 sets them for the document. The
  diagnostics of lines 3730-4512 are not computed here: \<open>sweepDiagnostics\<close> stands for them,
  \<open>None\<close> when that part throws. When a pass throws, line 4619 is not reached.
\<close>

definition validateDocument ::
  "(symbol_index \<Rightarrow> document \<Rightarrow> diagnostic list option) \<Rightarrow> document \<Rightarrow> extension_state
     \<Rightarrow> extension_state" where
  "validateDocument sweepDiagnostics document st =
     (if doc_languageId document \<noteq> ''azsl'' then st
      else
        (let fileName = baseName (doc_fileName document);
             lines = splitLines (doc_text document);
             idx = indexDocumentStructs document (ext_index st);
             st = st\<lparr>ext_index := idx\<rparr>
         in case sweepDiagnostics idx document of
              None \<Rightarrow> st
            | Some sweep \<Rightarrow>
               (case syntaxPass 0 lines of
                  None \<Rightarrow> st
                | Some syntaxDiagnostics \<Rightarrow>
                    st\<lparr>diagnosticCollection :=
                         AList.update (doc_uri document)
                           (checkShaderVariantFallback idx fileName lines @ sweep @ syntaxDiagnostics)
                           (diagnosticCollection st)\<rparr>)))"

text \<open>
  Lines 4622-4632: the handlers of \<open>onDidChangeTextDocument\<close> and \<open>onDidOpenTextDocument\<close>.
\<close>

definition docChangeWatcher ::
  "(symbol_index \<Rightarrow> document \<Rightarrow> diagnostic list option) \<Rightarrow> document \<Rightarrow> extension_state
     \<Rightarrow> extension_state" where
  "docChangeWatcher sweepDiagnostics document st =
     (if doc_languageId document = ''azsl'' then validateDocument sweepDiagnostics document st else st)"

definition docOpenWatcher ::
  "(symbol_index \<Rightarrow> document \<Rightarrow> diagnostic list option) \<Rightarrow> document \<Rightarrow> extension_state
     \<Rightarrow> extension_state" where
  "docOpenWatcher sweepDiagnostics document st =
     (if doc_languageId document = ''azsl'' then validateDocument sweepDiagnostics document st else st)"

text \<open>The \<open>position\<close> argument of \<open>provideCompletionItems\<close>, a \<open>vscode.Position\<close>.\<close>

record cursor =
  cur_line :: nat
  cur_character :: nat

text \<open>
  \<open>provideCompletionItems\<close> (lines 1610-1790): the empty list for a document that is not
  \<open>azsl\<close> (lines 1611-1613). The items collected after that are not computed here:
  \<open>completions\<close> stands for them.
\<close>

definition provideCompletionItems ::
  "(document \<Rightarrow> cursor \<Rightarrow> symbol_index \<Rightarrow> 'item list) \<Rightarrow> document \<Rightarrow> cursor \<Rightarrow> symbol_index
     \<Rightarrow> 'item list" where
  "provideCompletionItems completions document position idx =
     (if doc_languageId document \<noteq> ''azsl'' then [] else completions document position idx)"

text \<open>The two-line document \<open>foo.\<close>, \<open>float x;\<close> under two language ids.\<close>

definition example_docFoo :: "string \<Rightarrow> document" where
  "example_docFoo languageId =
     \<lparr>doc_languageId = languageId, doc_fileName = ''/work/foo.azsl'', doc_uri = ''file:///work/foo.azsl'',
      doc_text = ''foo.'' @ [CHR 0x0A] @ ''float x;'', doc_scan = emptyScan\<rparr>"

section \<open>Properties\<close>

lemmas charclass_defs =
  isSpace_def isDigit_def isUpper_def isLower_def isIdentStart_def isWordChar_def
  oneOf_def noneOf_def

lemmas js_defs =
  js_indexOf_def js_indexOfFrom_def js_includes_def js_lastIndexOf_def js_trim_def
  js_startsWith_def js_endsWith_def splitLines_def

lemmas rx_defs = rx_match_def rx_test_def grp_def remaining_def atWordBoundary_def

subsection \<open>The static flag of an option entry\<close>

text \<open>
  C9. The scanner decides the flag with \<open>processedLine.includes('static')\<close>, a test for the
  text \<open>static\<close> anywhere in the line, not for the keyword. A declaration without the
  keyword whose name contains \<open>static\<close> is recorded as static: the flag is not "true exactly
  when the keyword is present". The same name with the keyword absent and no such text
  (\<open>o_fog\<close>) is recorded as non-static, and with the keyword present as static.
\<close>

theorem option_static_flag_name_substring:
  "extractOptionDeclarations ''option bool o_static_fog = true;'' ''a.azsli''
     = [\<lparr>od_name = ''o_static_fog'', od_isStatic = True, od_uri = ''a.azsli'', od_line = 0\<rparr>]
   \<and> extractOptionDeclarations ''option bool o_fog = true;'' ''a.azsli''
     = [\<lparr>od_name = ''o_fog'', od_isStatic = False, od_uri = ''a.azsli'', od_line = 0\<rparr>]
   \<and> extractOptionDeclarations ''option static bool o_fog = true;'' ''a.azsli''
     = [\<lparr>od_name = ''o_fog'', od_isStatic = True, od_uri = ''a.azsli'', od_line = 0\<rparr>]"
  by (simp add: extractOptionDeclarations_def stripComments_def rx_optionDecl_def
        charclass_defs js_defs rx_defs)

subsection \<open>Struct member sets grow until the next reindex\<close>

lemma membersOf_memberSet: "membersOf idx = memberSet (structMembers idx)"
  by (simp add: membersOf_def memberSet_def fun_eq_iff)

lemma memberSet_addMembers:
  "memberSet (addMembers n mo m) k =
     (if k = n then memberSet m n \<union> (case mo of None \<Rightarrow> {} | Some x \<Rightarrow> x) else memberSet m k)"
  by (auto simp: memberSet_def addMembers_def mhas_def update_conv' Let_def split: option.splits)

lemma structMembers_indexStruct:
  "structMembers (indexStruct members st idx) = addMembers (fst st) (map_of members (fst st)) (structMembers idx)"
  by (simp add: indexStruct_def)

lemma structMembers_fold_indexStruct:
  "structMembers (fold (indexStruct members) sts idx) =
     fold (\<lambda>st. addMembers (fst st) (map_of members (fst st))) sts (structMembers idx)"
  by (induction sts arbitrary: idx) (simp_all add: indexStruct_def)

lemma memberSet_fold_addMembers:
  "memberSet (fold (\<lambda>st. addMembers (fst st) (map_of members (fst st))) sts m) k =
     memberSet m k \<union> (if k \<in> fst ` set sts then memberSet members k else {})"
proof (induction sts arbitrary: m)
  case Nil
  then show ?case by simp
next
  case (Cons st sts)
  have "memberSet (addMembers (fst st) (map_of members (fst st)) m) k =
          memberSet m k \<union> (if k = fst st then memberSet members k else {})"
    unfolding memberSet_addMembers by (simp add: memberSet_def split: option.splits)
  with Cons.IH [of "addMembers (fst st) (map_of members (fst st)) m"] show ?case by auto
qed

lemma structMembers_fold_indexSrg: "structMembers (fold indexSrg srgs idx) = structMembers idx"
  by (induction srgs arbitrary: idx) (simp_all add: indexSrg_def)

lemma structMembers_indexFile:
  "structMembers (indexFile f idx) =
     (case hf_text f of None \<Rightarrow> structMembers idx
      | Some buf \<Rightarrow> fold (\<lambda>st. addMembers (fst st) (map_of (sc_members (hf_scan f)) (fst st)))
                       (sc_structs (hf_scan f)) (structMembers idx))"
  by (simp add: indexFile_def Let_def structMembers_fold_indexStruct structMembers_fold_indexSrg
           split: option.splits)

lemma membersOf_indexFile: "membersOf (indexFile f idx) k = membersOf idx k \<union> fileMembers f k"
  by (auto simp: membersOf_memberSet structMembers_indexFile memberSet_fold_addMembers fileMembers_def
           split: option.splits)

lemma membersOf_registerFile: "membersOf (registerFile f idx) k = membersOf idx k"
  by (simp add: membersOf_def registerFile_def)

lemma memberSet_setIfAbsent: "memberSet m k \<subseteq> memberSet (setIfAbsent kv m) k"
  by (auto simp: memberSet_def setIfAbsent_def mhas_def update_conv' split: option.splits)

lemma memberSet_setIfAbsent_present:
  "map_of m k \<noteq> None \<Longrightarrow> memberSet (setIfAbsent kv m) k = memberSet m k"
  by (auto simp: memberSet_def setIfAbsent_def mhas_def update_conv' split: option.splits)

lemma structMembers_indexDocumentStructs:
  assumes "doc_languageId d = ''azsl''"
  shows "structMembers (indexDocumentStructs d idx) =
             setIfAbsent (''DirectionalLight'',
                      {''m_direction'', ''m_angularRadius'', ''m_rgbIntensityLux'',
                       ''m_affectsGIFactor'', ''m_affectsGI'', ''m_lightingChannelMask'', ''m_padding''})
                    (setIfAbsent (''ForwardPassOutput'',
                        {''m_color'', ''m_diffuseColor'', ''m_specularColor'', ''m_albedo'',
                         ''m_specularF0'', ''m_normal'', ''m_scatterDistance'', ''m_depth''})
                      (fold (\<lambda>st. addMembers (fst st) (map_of (sc_members (doc_scan d)) (fst st)))
                         (sc_structs (doc_scan d)) (structMembers idx)))"
  using assms by (simp add: indexDocumentStructs_def Let_def structMembers_fold_indexStruct)

lemma membersOf_indexDocumentStructs_mono:
  "membersOf idx k \<subseteq> membersOf (indexDocumentStructs d idx) k"
proof (cases "doc_languageId d = ''azsl''")
  case False
  then show ?thesis by (simp add: indexDocumentStructs_def)
next
  case True
  let ?m = "fold (\<lambda>st. addMembers (fst st) (map_of (sc_members (doc_scan d)) (fst st)))
                 (sc_structs (doc_scan d)) (structMembers idx)"
  have 1: "membersOf idx k \<subseteq> memberSet ?m k"
    by (simp add: memberSet_fold_addMembers membersOf_memberSet)
  show ?thesis
    unfolding membersOf_memberSet [of "indexDocumentStructs d idx"]
      structMembers_indexDocumentStructs [OF True]
    using 1 memberSet_setIfAbsent by (meson order_trans)
qed

lemma dom_addMembers:
  "(map_of (addMembers n mo m) k \<noteq> None) = (k = n \<or> map_of m k \<noteq> None)"
  by (auto simp: addMembers_def mhas_def update_conv' Let_def split: option.splits)

lemma dom_fold_addMembers:
  "(map_of (fold (\<lambda>st. addMembers (fst st) (f st)) sts m) k \<noteq> None) =
     (k \<in> fst ` set sts \<or> map_of m k \<noteq> None)"
  by (induction sts arbitrary: m) (auto simp: dom_addMembers simp del: not_None_eq)

lemma membersOf_indexDocumentStructs_defined:
  assumes "doc_languageId d = ''azsl''" and "k \<in> fst ` set (sc_structs (doc_scan d))"
  shows "membersOf (indexDocumentStructs d idx) k = membersOf idx k \<union> documentMembers d k"
proof -
  let ?m = "fold (\<lambda>st. addMembers (fst st) (map_of (sc_members (doc_scan d)) (fst st)))
                 (sc_structs (doc_scan d)) (structMembers idx)"
  have 1: "memberSet ?m k = membersOf idx k \<union> documentMembers d k"
    by (simp add: memberSet_fold_addMembers membersOf_memberSet documentMembers_def)
  have p: "map_of ?m k \<noteq> None"
    using assms(2) dom_fold_addMembers [of "\<lambda>st. map_of (sc_members (doc_scan d)) (fst st)"] by blast
  have q: "map_of (setIfAbsent (''ForwardPassOutput'',
                        {''m_color'', ''m_diffuseColor'', ''m_specularColor'', ''m_albedo'',
                         ''m_specularF0'', ''m_normal'', ''m_scatterDistance'', ''m_depth''}) ?m) k \<noteq> None"
    using p by (auto simp: setIfAbsent_def mhas_def update_conv')
  show ?thesis
    unfolding membersOf_memberSet [of "indexDocumentStructs d idx"]
      structMembers_indexDocumentStructs [OF assms(1)] 1 [symmetric]
    using memberSet_setIfAbsent_present [OF q] memberSet_setIfAbsent_present [OF p] by simp
qed

lemma fileMembers_defines:
  "hf_text f \<noteq> None \<Longrightarrow> definesStruct (hf_scan f) S A \<Longrightarrow> fileMembers f S = A"
  by (auto simp: fileMembers_def definesStruct_def memberSet_def)

lemma documentMembers_defines:
  "definesStruct (doc_scan d) S B \<Longrightarrow> documentMembers d S = B"
  by (auto simp: documentMembers_def definesStruct_def memberSet_def)

lemma membersOf_cleared: "membersOf (seedBuiltins (clearTables idx)) k = {}"
  by (simp add: membersOf_def seedBuiltins_def clearTables_def)

lemma membersOf_fold_files:
  "membersOf (fold (\<lambda>f idx. registerFile f (indexFile f idx)) files idx) k =
     membersOf idx k \<union> (\<Union>f\<in>set files. fileMembers f k)"
  by (induction files arbitrary: idx) (auto simp: membersOf_registerFile membersOf_indexFile)

lemma membersOf_indexShaderQualityMacros:
  "membersOf (indexShaderQualityMacros files idx) k = membersOf idx k"
  by (simp add: membersOf_def indexShaderQualityMacros_def Let_def split: option.splits list.splits)

lemma membersOf_indexHeaders:
  "membersOf (indexHeaders rootPath idx) k =
     (case rootPath of None \<Rightarrow> {} | Some files \<Rightarrow> (\<Union>f\<in>set files. fileMembers f k))"
  by (simp add: indexHeaders_def Let_def membersOf_indexShaderQualityMacros membersOf_fold_files
        membersOf_cleared split: option.splits)

text \<open>
  C4. The member set recorded for a struct name \<open>S\<close> grows by union within one run of
  \<open>indexHeaders\<close> and in the validations that follow it, and a new run starts from nothing.
  After \<open>indexHeaders\<close> the set is the union of what the readable files of that run
  contribute, whatever was recorded before and whatever the order of the files: two files
  defining \<open>S\<close> with members \<open>A\<close> and \<open>B\<close> give \<open>A \<union> B\<close> in either order. Validating a
  document never removes a member, and a document defining \<open>S\<close> with members \<open>B\<close>, validated
  after the run, gives \<open>A \<union> B\<close>. When the document is validated first and the corpus is
  indexed afterwards, the members that came from the document are removed: the set is \<open>A\<close>.
\<close>

theorem struct_members_grow_until_reindex:
  "membersOf (indexHeaders (Some files) idx) S = (\<Union>f\<in>set files. fileMembers f S)
   \<and> (hf_text f \<noteq> None \<and> hf_text g \<noteq> None
        \<and> definesStruct (hf_scan f) S A \<and> definesStruct (hf_scan g) S B \<longrightarrow>
          membersOf (indexHeaders (Some [f, g]) idx) S = A \<union> B
        \<and> membersOf (indexHeaders (Some [g, f]) idx) S = A \<union> B)
   \<and> membersOf idx S \<subseteq> membersOf (indexDocumentStructs d idx) S
   \<and> (hf_text f \<noteq> None \<and> definesStruct (hf_scan f) S A
        \<and> doc_languageId d = ''azsl'' \<and> definesStruct (doc_scan d) S B \<longrightarrow>
          membersOf (indexDocumentStructs d (indexHeaders (Some [f]) idx)) S = A \<union> B
        \<and> membersOf (indexHeaders (Some [f]) (indexDocumentStructs d idx)) S = A)"
proof (intro conjI impI)
  show "membersOf (indexHeaders (Some files) idx) S = (\<Union>f\<in>set files. fileMembers f S)"
    by (simp add: membersOf_indexHeaders)
  show "membersOf idx S \<subseteq> membersOf (indexDocumentStructs d idx) S"
    by (rule membersOf_indexDocumentStructs_mono)
next
  assume h: "hf_text f \<noteq> None \<and> hf_text g \<noteq> None
        \<and> definesStruct (hf_scan f) S A \<and> definesStruct (hf_scan g) S B"
  then have "fileMembers f S = A" "fileMembers g S = B"
    by (simp_all add: fileMembers_defines)
  then show "membersOf (indexHeaders (Some [f, g]) idx) S = A \<union> B"
    and "membersOf (indexHeaders (Some [g, f]) idx) S = A \<union> B"
    by (auto simp: membersOf_indexHeaders)
next
  assume h: "hf_text f \<noteq> None \<and> definesStruct (hf_scan f) S A
        \<and> doc_languageId d = ''azsl'' \<and> definesStruct (doc_scan d) S B"
  then have a: "fileMembers f S = A" and b: "documentMembers d S = B"
    and k: "S \<in> fst ` set (sc_structs (doc_scan d))" and z: "doc_languageId d = ''azsl''"
    by (simp_all add: fileMembers_defines documentMembers_defines definesStruct_def)
  show "membersOf (indexDocumentStructs d (indexHeaders (Some [f]) idx)) S = A \<union> B"
    by (simp add: membersOf_indexDocumentStructs_defined [OF z k] membersOf_indexHeaders a b)
  show "membersOf (indexHeaders (Some [f]) (indexDocumentStructs d idx)) S = A"
    by (simp add: membersOf_indexHeaders a)
qed

lemma example_structs:
  "hf_text example_fileAB \<noteq> None" "hf_text example_fileBC \<noteq> None"
  "definesStruct (hf_scan example_fileAB) ''S'' {''a'', ''b''}"
  "definesStruct (hf_scan example_fileBC) ''S'' {''b'', ''c''}"
  "doc_languageId example_docBC = ''azsl''"
  "definesStruct (doc_scan example_docBC) ''S'' {''b'', ''c''}"
  by (simp_all add: example_fileAB_def example_fileBC_def example_docBC_def definesStruct_def
        emptyScan_def)

text \<open>
  Two files with \<open>struct S { float a; float b; };\<close> and \<open>struct S { float b; float c; };\<close>, and a
  document with the second text.
\<close>

theorem struct_members_grow_until_reindex_witness:
  "membersOf (indexHeaders (Some [example_fileAB, example_fileBC]) emptyIndex) ''S'' = {''a'', ''b'', ''c''}
   \<and> membersOf (indexHeaders (Some [example_fileBC, example_fileAB]) emptyIndex) ''S'' = {''a'', ''b'', ''c''}
   \<and> membersOf (indexDocumentStructs example_docBC (indexHeaders (Some [example_fileAB]) emptyIndex)) ''S''
        = {''a'', ''b'', ''c''}
   \<and> membersOf (indexHeaders (Some [example_fileAB]) (indexDocumentStructs example_docBC emptyIndex)) ''S''
        = {''a'', ''b''}"
  using example_structs
    struct_members_grow_until_reindex
      [of "[]" emptyIndex "''S''" example_fileAB example_fileBC "{''a'', ''b''}" "{''b'', ''c''}"
          example_docBC]
  by auto

text \<open>
  The document is validated on an empty index, which records \<open>{b,c}\<close> for \<open>S\<close>; then the corpus
  with the file defining \<open>S\<close> with \<open>{a,b}\<close> is indexed: \<open>c\<close> is no longer a member of \<open>S\<close>.
\<close>

theorem reindex_removes_document_members:
  "membersOf (indexDocumentStructs example_docBC emptyIndex) ''S'' = {''b'', ''c''}
   \<and> membersOf (indexHeaders (Some [example_fileAB]) (indexDocumentStructs example_docBC emptyIndex)) ''S''
        = {''a'', ''b''}"
proof -
  have k: "''S'' \<in> fst ` set (sc_structs (doc_scan example_docBC))"
    by (simp add: example_docBC_def emptyScan_def)
  have e: "membersOf emptyIndex ''S'' = {}"
    by (simp add: membersOf_def emptyIndex_def)
  show ?thesis
    using example_structs
    by (simp add: membersOf_indexDocumentStructs_defined [OF _ k] membersOf_indexHeaders e
          fileMembers_defines documentMembers_defines)
qed

subsection \<open>What a reindex resets\<close>

text \<open>
  C3. \<open>indexHeaders\<close> clears thirteen of the fourteen tables and reseeds the built-in SRG
  semantics and Atom-type members, but it has no \<open>functionIndex.clear()\<close>: a function indexed
  by an earlier run is still in the index after a reindex over a corpus that no longer
  has it, whereas the struct indexed by that same run is gone.
\<close>

theorem reindex_keeps_function_index:
  "functionIndex (indexHeaders (Some []) (indexHeaders (Some [example_fileFoo]) emptyIndex))
     = [(''Foo'', \<lparr>pos_uri = ''/gem/F.azsli'', pos_line = 0, pos_column = 6\<rparr>)]
   \<and> structIndex (indexHeaders (Some [example_fileFoo]) emptyIndex)
     = [(''T'', \<lparr>loc_uri = ''/gem/F.azsli'', loc_line = 1\<rparr>)]
   \<and> structIndex (indexHeaders (Some []) (indexHeaders (Some [example_fileFoo]) emptyIndex)) = []"
  by (simp add: indexHeaders_def indexShaderQualityMacros_def getFileBySuffix_def
        clearTables_def seedBuiltins_def builtinSrgSemantics_def indexFile_def registerFile_def
        example_fileFoo_def emptyIndex_def emptyScan_def indexStruct_def setIfAbsent_def mhas_def
        addMembers_def extractOptionDeclarations_def stripComments_def rx_optionDecl_def
        charclass_defs js_defs rx_defs Let_def)

subsection \<open>Macro entries are replaced only by longer documentation\<close>

lemma indexMacro_at:
  "map_of (indexMacro f d m) n =
     (if md_name d = n
      then (case map_of m n of
              None \<Rightarrow> Some (macroEntry f d)
            | Some e \<Rightarrow> if length (me_doc e) < length (md_doc d) then Some (macroEntry f d) else Some e)
      else map_of m n)"
  by (auto simp: indexMacro_def macroEntry_def update_conv' Let_def split: option.splits)

lemma indexGuardedMacro_at:
  "map_of (indexGuardedMacro f d m) n =
     (if md_name d = n
      then (case map_of m n of
              None \<Rightarrow> Some (macroEntry f d)
            | Some e \<Rightarrow> if md_doc d \<noteq> [] \<and> me_doc e = [] then Some (macroEntry f d) else Some e)
      else map_of m n)"
  by (auto simp: indexGuardedMacro_def macroEntry_def update_conv' Let_def split: option.splits)

lemma indexDocumentMacro_at:
  "map_of (indexDocumentMacro u d m) n =
     (if md_name d = n
      then (case map_of m n of
              None \<Rightarrow> Some (macroEntry u d)
            | Some e \<Rightarrow> if u = me_uri e \<or> length (me_doc e) < length (md_doc d)
                        then Some (macroEntry u d) else Some e)
      else map_of m n)"
  by (auto simp: indexDocumentMacro_def macroEntry_def update_conv' Let_def split: option.splits)

lemma fold_indexMacro_named:
  "map_of m n = map_of m' n \<Longrightarrow>
   map_of (fold (indexMacro f) ds m) n = map_of (fold (indexMacro f) (macrosNamed n ds) m') n"
proof (induction ds arbitrary: m m')
  case Nil
  then show ?case by (simp add: macrosNamed_def)
next
  case (Cons d ds)
  show ?case
  proof (cases "md_name d = n")
    case True
    have "map_of (indexMacro f d m) n = map_of (indexMacro f d m') n"
      using Cons.prems by (simp add: indexMacro_at)
    from Cons.IH [OF this] True show ?thesis by (simp add: macrosNamed_def)
  next
    case False
    have "map_of (indexMacro f d m) n = map_of m' n"
      using Cons.prems False by (simp add: indexMacro_at)
    from Cons.IH [OF this] False show ?thesis by (simp add: macrosNamed_def)
  qed
qed

lemma macroIndex_fold_indexSrg: "macroIndex (fold indexSrg srgs idx) = macroIndex idx"
  by (induction srgs arbitrary: idx) (simp_all add: indexSrg_def)

lemma macroIndex_fold_indexStruct: "macroIndex (fold (indexStruct ms) sts idx) = macroIndex idx"
  by (induction sts arbitrary: idx) (simp_all add: indexStruct_def)

lemma macroIndex_indexFile:
  "macroIndex (indexFile f idx) =
     (case hf_text f of None \<Rightarrow> macroIndex idx
      | Some buf \<Rightarrow> fold (indexMacro (hf_path f)) (sc_macros (hf_scan f)) (macroIndex idx))"
  by (simp add: indexFile_def Let_def macroIndex_fold_indexSrg macroIndex_fold_indexStruct
           split: option.splits)

lemma macroDoc_two_files:
  assumes r: "hf_text fA \<noteq> None" "hf_text fB \<noteq> None"
    and a: "macrosNamed n (sc_macros (hf_scan fA)) = [dA]"
    and b: "macrosNamed n (sc_macros (hf_scan fB)) = [dB]"
    and l: "length (md_doc dA) < length (md_doc dB)"
    and fresh: "map_of (macroIndex idx) n = None"
  shows "macroDoc (indexFile fB (indexFile fA idx)) n = Some (md_doc dB)"
    and "macroDoc (indexFile fA (indexFile fB idx)) n = Some (md_doc dB)"
proof -
  have na: "md_name dA = n" and nb: "md_name dB = n"
    using a b by (metis (mono_tags, lifting) filter_eq_ConsD macrosNamed_def)+
  have A: "\<And>i. map_of (macroIndex (indexFile fA i)) n = map_of (indexMacro (hf_path fA) dA (macroIndex i)) n"
    using r(1) fold_indexMacro_named [OF refl, of "hf_path fA" "sc_macros (hf_scan fA)" _ n]
    by (auto simp: macroIndex_indexFile a)
  have B: "\<And>i. map_of (macroIndex (indexFile fB i)) n = map_of (indexMacro (hf_path fB) dB (macroIndex i)) n"
    using r(2) fold_indexMacro_named [OF refl, of "hf_path fB" "sc_macros (hf_scan fB)" _ n]
    by (auto simp: macroIndex_indexFile b)
  show "macroDoc (indexFile fB (indexFile fA idx)) n = Some (md_doc dB)"
    using l fresh by (simp add: macroDoc_def A B indexMacro_at na nb macroEntry_def)
  show "macroDoc (indexFile fA (indexFile fB idx)) n = Some (md_doc dB)"
    using l fresh by (simp add: macroDoc_def A B indexMacro_at na nb macroEntry_def)
qed

text \<open>
  C6. Whenever merging one macro definition changes the entry already indexed under a name,
  the definition has that name and a strictly longer documentation string than the entry
  had; this holds for a corpus file (\<open>indexMacro\<close>), for the guarded definitions of the
  shader quality file (\<open>indexGuardedMacro\<close>), and for the open document
  (\<open>indexDocumentMacro\<close>), where the entry is also replaced when the document itself produced
  it. Consequently, when file A and file B each define the macro once, B with the longer
  documentation, and the name is not indexed yet, the index holds B's documentation after
  both files are ingested, in either order.
\<close>

theorem macro_overwritten_only_by_longer_doc:
  "(map_of m n = Some e \<and> map_of (indexMacro f d m) n \<noteq> Some e \<longrightarrow>
      md_name d = n \<and> length (me_doc e) < length (md_doc d)
      \<and> map_of (indexMacro f d m) n = Some (macroEntry f d))
   \<and> (map_of m n = Some e \<and> map_of (indexGuardedMacro f d m) n \<noteq> Some e \<longrightarrow>
      md_name d = n \<and> length (me_doc e) < length (md_doc d)
      \<and> map_of (indexGuardedMacro f d m) n = Some (macroEntry f d))
   \<and> (map_of m n = Some e \<and> map_of (indexDocumentMacro u d m) n \<noteq> Some e \<longrightarrow>
      md_name d = n \<and> (length (me_doc e) < length (md_doc d) \<or> me_uri e = u)
      \<and> map_of (indexDocumentMacro u d m) n = Some (macroEntry u d))
   \<and> (hf_text fA \<noteq> None \<and> hf_text fB \<noteq> None
      \<and> macrosNamed n (sc_macros (hf_scan fA)) = [dA]
      \<and> macrosNamed n (sc_macros (hf_scan fB)) = [dB]
      \<and> length (md_doc dA) < length (md_doc dB)
      \<and> map_of (macroIndex idx) n = None \<longrightarrow>
        macroDoc (indexFile fB (indexFile fA idx)) n = Some (md_doc dB)
      \<and> macroDoc (indexFile fA (indexFile fB idx)) n = Some (md_doc dB))"
proof (intro conjI impI)
  assume "hf_text fA \<noteq> None \<and> hf_text fB \<noteq> None
      \<and> macrosNamed n (sc_macros (hf_scan fA)) = [dA]
      \<and> macrosNamed n (sc_macros (hf_scan fB)) = [dB]
      \<and> length (md_doc dA) < length (md_doc dB)
      \<and> map_of (macroIndex idx) n = None"
  then show "macroDoc (indexFile fB (indexFile fA idx)) n = Some (md_doc dB)"
    and "macroDoc (indexFile fA (indexFile fB idx)) n = Some (md_doc dB)"
    using macroDoc_two_files by blast+
qed (auto simp: indexMacro_at indexGuardedMacro_at indexDocumentMacro_at split: if_splits)

theorem macro_overwritten_only_by_longer_doc_witness:
  "map_of [(''FOO'', macroEntry ''/gem/A.azsli'' \<lparr>md_name = ''FOO'', md_value = ''1'', md_line = 0, md_doc = ''short''\<rparr>)]
      ''FOO''
     = Some (macroEntry ''/gem/A.azsli'' \<lparr>md_name = ''FOO'', md_value = ''1'', md_line = 0, md_doc = ''short''\<rparr>)
   \<and> map_of (indexMacro ''/gem/B.azsli''
               \<lparr>md_name = ''FOO'', md_value = ''1'', md_line = 3, md_doc = ''longer text''\<rparr>
               [(''FOO'', macroEntry ''/gem/A.azsli''
                   \<lparr>md_name = ''FOO'', md_value = ''1'', md_line = 0, md_doc = ''short''\<rparr>)]) ''FOO''
     = Some (macroEntry ''/gem/B.azsli''
               \<lparr>md_name = ''FOO'', md_value = ''1'', md_line = 3, md_doc = ''longer text''\<rparr>)
   \<and> hf_text example_fileTrailing \<noteq> None \<and> hf_text example_fileBlock \<noteq> None
   \<and> macrosNamed ''FOO'' (sc_macros (hf_scan example_fileTrailing))
        = [\<lparr>md_name = ''FOO'', md_value = ''1'', md_line = 0, md_doc = ''short''\<rparr>]
   \<and> macrosNamed ''FOO'' (sc_macros (hf_scan example_fileBlock))
        = [\<lparr>md_name = ''FOO'', md_value = ''1'', md_line = 3,
            md_doc = ''first'' @ [CHR 0x0A] @ ''second'' @ [CHR 0x0A] @ ''third''\<rparr>]
   \<and> map_of (macroIndex emptyIndex) ''FOO'' = None
   \<and> macroDoc (indexFile example_fileBlock (indexFile example_fileTrailing emptyIndex)) ''FOO''
        = Some (''first'' @ [CHR 0x0A] @ ''second'' @ [CHR 0x0A] @ ''third'')
   \<and> macroDoc (indexFile example_fileTrailing (indexFile example_fileBlock emptyIndex)) ''FOO''
        = Some (''first'' @ [CHR 0x0A] @ ''second'' @ [CHR 0x0A] @ ''third'')"
proof -
  let ?dA = "\<lparr>md_name = ''FOO'', md_value = ''1'', md_line = 0, md_doc = ''short''\<rparr>"
  let ?dL = "\<lparr>md_name = ''FOO'', md_value = ''1'', md_line = 3, md_doc = ''longer text''\<rparr>"
  let ?dB = "\<lparr>md_name = ''FOO'', md_value = ''1'', md_line = 3,
              md_doc = ''first'' @ [CHR 0x0A] @ ''second'' @ [CHR 0x0A] @ ''third''\<rparr>"
  let ?m = "[(''FOO'', macroEntry ''/gem/A.azsli'' ?dA)]"
  have h1: "map_of ?m ''FOO'' = Some (macroEntry ''/gem/A.azsli'' ?dA)"
    by simp
  have h2: "map_of (indexMacro ''/gem/B.azsli'' ?dL ?m) ''FOO'' \<noteq> Some (macroEntry ''/gem/A.azsli'' ?dA)"
    by (simp add: indexMacro_def macroEntry_def)
  have h3: "hf_text example_fileTrailing \<noteq> None" "hf_text example_fileBlock \<noteq> None"
    "macrosNamed ''FOO'' (sc_macros (hf_scan example_fileTrailing)) = [?dA]"
    "macrosNamed ''FOO'' (sc_macros (hf_scan example_fileBlock)) = [?dB]"
    "length (md_doc ?dA) < length (md_doc ?dB)"
    "map_of (macroIndex emptyIndex) ''FOO'' = None"
    by (simp_all add: example_fileTrailing_def example_fileBlock_def macrosNamed_def emptyScan_def
          emptyIndex_def)
  show ?thesis
    using h1 h2 h3
      macro_overwritten_only_by_longer_doc
        [where m = ?m and n = "''FOO''" and e = "macroEntry ''/gem/A.azsli'' ?dA"
           and f = "''/gem/B.azsli''" and d = ?dL and u = "''file:///work/m.azsl''"
           and fA = example_fileTrailing and fB = example_fileBlock and dA = ?dA and dB = ?dB
           and idx = emptyIndex]
    by simp
qed

subsection \<open>Scope-aware variable typing\<close>

lemma pick_invariant:
  assumes "sorted_wrt (\<lambda>a b. vd_line a < vd_line b) ds"
  shows "case fold (pickStep n t) ds (None, - 1) of
           (bm, bd) \<Rightarrow>
             - 1 \<le> bd
             \<and> (bm = None \<longrightarrow> bd = - 1 \<and> (\<forall>d\<in>set ds. inScope n t d \<longrightarrow> vd_braceDepth d < - 1))
             \<and> (\<forall>b. bm = Some b \<longrightarrow>
                   b \<in> set ds \<and> inScope n t b \<and> vd_braceDepth b = bd
                   \<and> (\<forall>d\<in>set ds. inScope n t d \<longrightarrow> preferredTo b d))"
  using assms
proof (induction ds rule: rev_induct)
  case Nil
  then show ?case by simp
next
  case (snoc x xs)
  obtain bm bd where st: "fold (pickStep n t) xs (None, - 1) = (bm, bd)"
    by (cases "fold (pickStep n t) xs (None, - 1)")
  have srt: "sorted_wrt (\<lambda>a b. vd_line a < vd_line b) xs"
    and later: "\<forall>d\<in>set xs. vd_line d < vd_line x"
    using snoc.prems by (auto simp: sorted_wrt_append)
  from snoc.IH [OF srt] st
  have i1: "- 1 \<le> bd"
    and i2: "bm = None \<longrightarrow> bd = - 1 \<and> (\<forall>d\<in>set xs. inScope n t d \<longrightarrow> vd_braceDepth d < - 1)"
    and i3: "\<forall>b. bm = Some b \<longrightarrow>
                   b \<in> set xs \<and> inScope n t b \<and> vd_braceDepth b = bd
                   \<and> (\<forall>d\<in>set xs. inScope n t d \<longrightarrow> preferredTo b d)"
    by auto
  have step: "fold (pickStep n t) (xs @ [x]) (None, - 1) = pickStep n t x (bm, bd)"
    by (simp add: st)
  show ?case
    unfolding step
  proof (cases bm)
    case None
    with i1 i2 later show "case pickStep n t x (bm, bd) of
           (bm, bd) \<Rightarrow>
             - 1 \<le> bd
             \<and> (bm = None \<longrightarrow> bd = - 1 \<and> (\<forall>d\<in>set (xs @ [x]). inScope n t d \<longrightarrow> vd_braceDepth d < - 1))
             \<and> (\<forall>b. bm = Some b \<longrightarrow>
                   b \<in> set (xs @ [x]) \<and> inScope n t b \<and> vd_braceDepth b = bd
                   \<and> (\<forall>d\<in>set (xs @ [x]). inScope n t d \<longrightarrow> preferredTo b d))"
      by (auto simp: pickStep_def inScope_def preferredTo_def)
  next
    case (Some b)
    with i3 later have b: "b \<in> set xs" "inScope n t b" "vd_braceDepth b = bd"
      "\<forall>d\<in>set xs. inScope n t d \<longrightarrow> preferredTo b d" "vd_line b < vd_line x"
      by auto
    consider (out) "\<not> inScope n t x"
      | (deeper) "inScope n t x" "bd < vd_braceDepth x"
      | (same) "inScope n t x" "vd_braceDepth x = bd"
      | (shallower) "inScope n t x" "vd_braceDepth x < bd"
      by linarith
    then show "case pickStep n t x (bm, bd) of
           (bm, bd) \<Rightarrow>
             - 1 \<le> bd
             \<and> (bm = None \<longrightarrow> bd = - 1 \<and> (\<forall>d\<in>set (xs @ [x]). inScope n t d \<longrightarrow> vd_braceDepth d < - 1))
             \<and> (\<forall>b. bm = Some b \<longrightarrow>
                   b \<in> set (xs @ [x]) \<and> inScope n t b \<and> vd_braceDepth b = bd
                   \<and> (\<forall>d\<in>set (xs @ [x]). inScope n t d \<longrightarrow> preferredTo b d))"
    proof cases
      case out
      with i1 b Some show ?thesis
        by (auto simp: pickStep_def inScope_def)
    next
      case deeper
      have "\<forall>d\<in>set xs. inScope n t d \<longrightarrow> preferredTo x d"
        using b(3,4) deeper(2) by (fastforce simp: preferredTo_def)
      with i1 deeper Some show ?thesis
        by (auto simp: pickStep_def inScope_def preferredTo_def)
    next
      case same
      have "\<forall>d\<in>set xs. inScope n t d \<longrightarrow> preferredTo x d"
        using b(3,4,5) same(2) by (fastforce simp: preferredTo_def)
      with i1 same b(5) Some show ?thesis
        by (auto simp: pickStep_def inScope_def preferredTo_def)
    next
      case shallower
      with i1 b Some show ?thesis
        by (auto simp: pickStep_def inScope_def preferredTo_def)
    qed
  qed
qed

lemma bestDeclaration_greatest:
  assumes "sorted_wrt (\<lambda>a b. vd_line a < vd_line b) ds"
    and "d \<in> set ds" and "inScope n t d" and "- 1 \<le> vd_braceDepth d"
  shows "\<exists>b\<in>set ds. bestDeclaration n t ds = Some b \<and> inScope n t b
            \<and> (\<forall>d'\<in>set ds. inScope n t d' \<longrightarrow> preferredTo b d')"
proof -
  obtain bm bd where st: "fold (pickStep n t) ds (None, - 1) = (bm, bd)"
    by (cases "fold (pickStep n t) ds (None, - 1)")
  from pick_invariant [OF assms(1), of n t] st assms(2-4)
  show ?thesis
    by (cases bm) (auto simp: bestDeclaration_def)
qed

lemma map_of_pushDecl:
  "map_of (pushDecl v d m) v' =
     (if v' = v then Some ((case map_of m v of None \<Rightarrow> [] | Some l \<Rightarrow> l) @ [d]) else map_of m v')"
  by (simp add: pushDecl_def update_conv')

lemma declLoop_sorted:
  assumes "\<forall>v l. map_of (fst st) v = Some l \<longrightarrow>
             sorted_wrt (\<lambda>a b. vd_line a < vd_line b) l \<and> (\<forall>d\<in>set l. vd_line d < i)"
  shows "\<forall>v l. map_of (fst (declLoop idx i bd ls st)) v = Some l \<longrightarrow>
             sorted_wrt (\<lambda>a b. vd_line a < vd_line b) l \<and> (\<forall>d\<in>set l. vd_line d < i + length ls)"
  using assms
proof (induction ls arbitrary: i bd st)
  case Nil
  then show ?case by simp
next
  case (Cons line rest)
  obtain vds vts where st: "st = (vds, vts)"
    by (cases st)
  let ?bd = "bd + braceDelta line"
  have IH: "\<And>st'. \<forall>v l. map_of (fst st') v = Some l \<longrightarrow>
               sorted_wrt (\<lambda>a b. vd_line a < vd_line b) l \<and> (\<forall>d\<in>set l. vd_line d < Suc i)
     \<Longrightarrow> \<forall>v l. map_of (fst (declLoop idx (Suc i) ?bd rest st')) v = Some l \<longrightarrow>
               sorted_wrt (\<lambda>a b. vd_line a < vd_line b) l
               \<and> (\<forall>d\<in>set l. vd_line d < i + length (line # rest))"
    using Cons.IH [of _ "Suc i" ?bd] by simp
  have keep: "\<forall>v l. map_of (fst (vds, vts)) v = Some l \<longrightarrow>
             sorted_wrt (\<lambda>a b. vd_line a < vd_line b) l \<and> (\<forall>d\<in>set l. vd_line d < Suc i)"
    using Cons.prems by (auto simp: st less_Suc_eq)
  have push: "\<And>t v w. \<forall>v' l. map_of (fst (pushDecl v \<lparr>vd_type = t, vd_line = i, vd_braceDepth = ?bd\<rparr> vds, w))
                                 v' = Some l \<longrightarrow>
             sorted_wrt (\<lambda>a b. vd_line a < vd_line b) l \<and> (\<forall>d\<in>set l. vd_line d < Suc i)"
    using Cons.prems
    by (auto simp: st map_of_pushDecl sorted_wrt_append less_Suc_eq split: option.splits if_splits)
  consider (skip) "declLoop idx i bd (line # rest) st = declLoop idx (Suc i) ?bd rest (vds, vts)"
    | (rec) t v w where "declLoop idx i bd (line # rest) st =
          declLoop idx (Suc i) ?bd rest
            (pushDecl v \<lparr>vd_type = t, vd_line = i, vd_braceDepth = ?bd\<rparr> vds, w)"
  proof (cases "rx_match rx_varDecl line")
    case None
    then show ?thesis using skip by (simp add: st Let_def)
  next
    case (Some m)
    show ?thesis
    proof (cases "grp m 1")
      case None
      with Some show ?thesis using skip by (simp add: st Let_def)
    next
      case t: (Some fullType)
      show ?thesis
      proof (cases "grp m 2")
        case None
        with Some t show ?thesis using skip by (simp add: st Let_def)
      next
        case v: (Some vName)
        with Some t show ?thesis using rec by (simp add: st Let_def)
      qed
    qed
  qed
  then show ?case
  proof cases
    case skip
    show ?thesis unfolding skip by (rule IH [OF keep])
  next
    case rec
    show ?thesis unfolding rec by (rule IH [OF push])
  qed
qed

text \<open>
  Where some declaration in scope was recorded at a brace depth of at least \<open>-1\<close> (so in
  every document whose closing braces never outnumber the opening ones by two), the
  function returns the type of the deepest declaration in scope, the latest one among
  equally deep ones.
\<close>

lemma getVariableTypeAtPosition_greatest:
  assumes rec: "map_of (fst (declLoop idx 0 0 (splitLines text) ([], []))) v = Some ds"
    and d: "d \<in> set ds" "inScope n (braceDepthAt (splitLines text) n) d" "- 1 \<le> vd_braceDepth d"
  shows "\<exists>b\<in>set ds. getVariableTypeAtPosition idx text v n = Some (vd_type b)
            \<and> inScope n (braceDepthAt (splitLines text) n) b
            \<and> (\<forall>d'\<in>set ds. inScope n (braceDepthAt (splitLines text) n) d' \<longrightarrow> preferredTo b d')"
proof -
  have "sorted_wrt (\<lambda>a b. vd_line a < vd_line b) ds"
    using declLoop_sorted [of "([], [])" 0 idx 0 "splitLines text"] rec by simp
  from bestDeclaration_greatest [OF this d]
  obtain b where b: "b \<in> set ds" "bestDeclaration n (braceDepthAt (splitLines text) n) ds = Some b"
    "inScope n (braceDepthAt (splitLines text) n) b"
    "\<forall>d'\<in>set ds. inScope n (braceDepthAt (splitLines text) n) d' \<longrightarrow> preferredTo b d'"
    by blast
  have "getVariableTypeAtPosition idx text v n = Some (vd_type b)"
    using rec b(2)
    by (cases "declLoop idx 0 0 (splitLines text) ([], [])")
       (simp add: getVariableTypeAtPosition_def Let_def)
  with b show ?thesis by blast
qed

lemmas scope_defs =
  getVariableTypeAtPosition_def getVariableTypeAtLine_def bestDeclaration_def pickStep_def
  braceDepthAt_def braceDelta_def countChar_def pushDecl_def rx_varDecl_def matrixOf_def
  vectorOf_def nl_def

text \<open>
  The document with \<open>Foo x;\<close> at top level and \<open>Bar x;\<close> in a block: \<open>x\<close> is \<open>Bar\<close> from the
  inner declaration to the last line before the closing brace, and \<open>Foo\<close> on every other line.
\<close>

lemma scope_example_resolves:
  "map (getVariableTypeAtPosition emptyIndex example_scopeDoc ''x'') [0, 1, 2, 3, 4, 5, 6]
     = [Some ''Foo'', Some ''Foo'', Some ''Foo'', Some ''Bar'', Some ''Bar'', Some ''Foo'', Some ''Foo'']"
  by (simp add: example_scopeDoc_def scope_defs emptyIndex_def mhas_def
        atomTypesAtPosition_def textureTypes_def charclass_defs js_defs rx_defs)

text \<open>
  C5. The search starts with \<open>bestBraceDepth = -1\<close> and replaces the best match only by a
  declaration that is deeper, or as deep and later. A declaration recorded at depth \<open>-2\<close> or
  below is therefore never chosen, although it is in scope by the source's own criterion
  (declaration line at most the query line, recorded depth at most the depth at the query
  line): after two unmatched closing braces, \<open>Foo x;\<close> on line 1 is the only declaration of
  \<open>x\<close> and in scope on line 2, and both \<open>getVariableTypeAtPosition\<close> and
  \<open>getVariableTypeAtLine\<close> return no type.
\<close>

theorem variable_scope_negative_depth:
  "fst (declLoop emptyIndex 0 0 (splitLines (''}}'' @ nl @ ''Foo x;'' @ nl @ ''x.a = 1;'')) ([], []))
     = [(''x'', [\<lparr>vd_type = ''Foo'', vd_line = 1, vd_braceDepth = - 2\<rparr>])]
   \<and> braceDepthAt (splitLines (''}}'' @ nl @ ''Foo x;'' @ nl @ ''x.a = 1;'')) 2 = - 2
   \<and> inScope 2 (- 2) \<lparr>vd_type = ''Foo'', vd_line = 1, vd_braceDepth = - 2\<rparr>
   \<and> getVariableTypeAtPosition emptyIndex (''}}'' @ nl @ ''Foo x;'' @ nl @ ''x.a = 1;'') ''x'' 2 = None
   \<and> getVariableTypeAtLine [(''x'', [\<lparr>vd_type = ''Foo'', vd_line = 1, vd_braceDepth = - 2\<rparr>])] []
        ''x'' 2 (- 2) = None"
  by (simp add: scope_defs inScope_def emptyIndex_def mhas_def
        atomTypesAtPosition_def textureTypes_def charclass_defs js_defs rx_defs)

subsection \<open>The matcher on arbitrary text\<close>

text \<open>
  From here on the recursive equations of the search and of the repetition are unfolded
  by hand; closed examples add them to the simplifier again.
\<close>

declare rx_search.simps [simp del]

declare rx_all.simps [simp del]

declare rxm.simps(6,7) [simp del]

lemma rx_search_Bol: "b \<noteq> [] \<Longrightarrow> rx_search (Cat Bol r) b a = None"
proof (induction a arbitrary: b)
  case Nil
  then show ?case by (subst rx_search.simps) simp
next
  case (Cons x a)
  have "rx_search (Cat Bol r) (x # b) a = None"
    by (rule Cons.IH) simp
  with Cons.prems show ?case by (subst rx_search.simps) simp
qed

lemma rx_test_anchored: "rx_test (Cat Bol r) s = (rxm (Cat Bol r) ([], s, []) \<noteq> [])"
proof (cases "rxm (Cat Bol r) ([], s, [])")
  case Nil
  then show ?thesis
    unfolding rx_test_def rx_match_def
    by (subst rx_search.simps) (simp add: rx_search_Bol split: list.splits)
next
  case (Cons x xs)
  then show ?thesis
    unfolding rx_test_def rx_match_def
    by (subst rx_search.simps) (simp split: prod.splits)
qed

lemma rx_search_finds:
  "rxm r (rev X @ b, rest, []) \<noteq> [] \<Longrightarrow> rx_search r b (X @ rest) \<noteq> None"
proof (induction X arbitrary: b)
  case Nil
  then show ?case
    by (subst rx_search.simps) (auto split: list.splits)
next
  case (Cons x X)
  from Cons.prems have "rxm r (rev X @ (x # b), rest, []) \<noteq> []" by simp
  from Cons.IH [OF this] show ?case
    by (subst rx_search.simps) (auto split: list.splits)
qed

lemma star_stop: "s \<in> set (rxm (Star r) s)"
  by (subst rxm.simps(6)) simp

lemma star_step:
  assumes "p w" and "x \<in> set (rxm (Star (Chr p)) (w # b, a, cs))"
  shows "x \<in> set (rxm (Star (Chr p)) (b, w # a, cs))"
  using assms by (subst rxm.simps(6)) (simp add: remaining_def)

lemma rxm_Star_spaces:
  "list_all p ws \<Longrightarrow> (rev ws @ b, rest, cs) \<in> set (rxm (Star (Chr p)) (b, ws @ rest, cs))"
proof (induction ws arbitrary: b)
  case Nil
  then show ?case by (simp add: star_stop)
next
  case (Cons w ws)
  then have "(rev ws @ w # b, rest, cs) \<in> set (rxm (Star (Chr p)) (w # b, ws @ rest, cs))"
    by simp
  with Cons.prems show ?case
    using star_step [of p w _ b "ws @ rest" cs] by simp
qed

lemma rxm_Cat_nonempty:
  "s1 \<in> set (rxm r1 s) \<Longrightarrow> rxm r2 s1 \<noteq> [] \<Longrightarrow> rxm (Cat r1 r2) s \<noteq> []"
  by auto

lemma ends_with_spaces_Eol:
  "list_all isSpace ws \<Longrightarrow> rxm (Cat (Star sp) Eol) (b, ws, cs) \<noteq> []"
  using rxm_Star_spaces [of isSpace ws b "[]" cs] by (intro rxm_Cat_nonempty) auto

lemma colonAtEnd_matches:
  "list_all isSpace ws \<Longrightarrow> rx_test rx_colonAtEnd (X @ '':'' @ ws)"
  unfolding rx_test_def rx_match_def rx_colonAtEnd_def
  by (rule rx_search_finds) (use ends_with_spaces_Eol in simp)

lemma afterNumberOrDot_matches:
  "list_all isSpace ws \<Longrightarrow> rx_test rx_afterNumberOrDot (X @ ''.'' @ ws)"
  unfolding rx_test_def rx_match_def rx_afterNumberOrDot_def
  by (rule rx_search_finds) (use ends_with_spaces_Eol in \<open>simp add: oneOf_def\<close>)

lemma isVectorType_nonempty: "isVectorType t \<Longrightarrow> t \<noteq> []"
  unfolding isVectorType_def rx_vectorType_def
  by (auto simp add: rx_test_anchored)

lemma swizzle_pattern:
  "(rxm (Cat Bol (Cat (Chr p) (Cat (Opt (Cat (Chr p) (Opt (Cat (Chr p) (Opt (Chr p)))))) Eol)))
      ([], s, []) \<noteq> [])
   = (s \<noteq> [] \<and> length s \<le> 4 \<and> list_all p s)"
proof -
  consider "s = []" | a where "s = [a]" | a b where "s = [a, b]" | a b c where "s = [a, b, c]"
    | a b c d where "s = [a, b, c, d]" | a b c d e r where "s = a # b # c # d # e # r"
    by (metis list.exhaust)
  then show ?thesis
  proof cases
    case 1
    then show ?thesis by simp
  next
    case 2
    then show ?thesis by simp
  next
    case 3
    then show ?thesis by simp
  next
    case 4
    then show ?thesis by simp
  next
    case 5
    then show ?thesis by simp
  next
    case 6
    then show ?thesis by simp
  qed
qed

lemma swizzle_test_iff:
  "rx_test rx_swizzle s = (s \<noteq> [] \<and> length s \<le> 4 \<and> set s \<subseteq> set ''xyzwrgba'')"
proof -
  have "list_all (oneOf ''xyzwrgba'') s = (set s \<subseteq> set ''xyzwrgba'')"
    unfolding oneOf_def list_all_iff by blast
  then show ?thesis
    unfolding rx_swizzle_def Let_def seq.simps rx_test_anchored swizzle_pattern by simp
qed

subsection \<open>Swizzle accessors in the sweep\<close>

lemma not_space_dot: "\<not> isSpace CHR ''.''" "\<not> isSpace CHR '':''"
  by (simp_all add: isSpace_def)

lemma indexOfAux_single: "(indexOfAux [c] s n \<noteq> None) = (c \<in> set s)"
  by (induction s arbitrary: n) auto

lemma js_includes_single: "js_includes s [c] = (c \<in> set s)"
  unfolding js_includes_def js_indexOf_def by (rule indexOfAux_single)

lemma indexOfAux_append: "indexOfAux sub (X @ sub @ Y) n \<noteq> None"
proof (induction X arbitrary: n)
  case Nil
  show ?case
  proof (cases "sub @ Y")
    case Nil
    then show ?thesis by simp
  next
    case (Cons a l)
    have "take (length sub) (a # l) = sub"
      unfolding Cons [symmetric] by simp
    then show ?thesis using Cons by simp
  qed
next
  case (Cons x X)
  then show ?case by simp
qed

lemma js_includes_append: "js_includes (X @ sub @ Y) sub"
  unfolding js_includes_def js_indexOf_def by (rule indexOfAux_append)

lemma js_trim_access:
  assumes "list_all isSpace ws" and "sepr \<noteq> []" and "\<not> isSpace (last sepr)"
  shows "\<exists>X. js_trim (pre @ sepr @ ws) = X @ [last sepr]"
proof -
  obtain Y where Y: "dropWhile isSpace (pre @ sepr @ ws) = Y @ [last sepr] @ ws"
  proof -
    have "pre @ sepr @ ws = (pre @ butlast sepr) @ [last sepr] @ ws"
      using assms(2) by simp
    moreover have "\<exists>Y. dropWhile isSpace (Z @ [last sepr] @ ws) = Y @ [last sepr] @ ws" for Z
      using assms(3) by (induction Z) auto
    ultimately show ?thesis using that by metis
  qed
  have "dropWhile isSpace (rev ws) = []"
    using assms(1) by (simp add: list_all_iff)
  then have "dropWhile isSpace (rev (Y @ [last sepr] @ ws)) = last sepr # rev Y"
    using assms(1,3) by (simp add: dropWhile_append list_all_iff)
  then show ?thesis
    unfolding js_trim_def Y by simp
qed

lemma star_chr_results:
  "x \<in> set (rxm (Star (Chr p)) (b, a, cs)) \<Longrightarrow> \<exists>ws. a = ws @ fst (snd x) \<and> list_all p ws"
proof (induction a arbitrary: b)
  case Nil
  then show ?case by (subst (asm) rxm.simps(6)) simp
next
  case (Cons c a)
  from Cons.prems
  consider "x = (b, c # a, cs)" | "p c" and "x \<in> set (rxm (Star (Chr p)) (c # b, a, cs))"
    by (subst (asm) rxm.simps(6)) (auto simp add: remaining_def split: if_splits)
  then show ?case
  proof cases
    case 1
    then show ?thesis by simp
  next
    case 2
    from Cons.IH [OF 2(2)] obtain ws where "a = ws @ fst (snd x)" "list_all p ws" by blast
    with 2(1) have "c # a = (c # ws) @ fst (snd x) \<and> list_all p (c # ws)" by simp
    then show ?thesis by blast
  qed
qed

lemma srgBefore_tail:
  assumes "rxm (Cat (Lit ''::'') (Cat (Star sp) Eol)) (b, a, cs) \<noteq> []"
  shows "\<exists>ws. a = ''::'' @ ws \<and> list_all isSpace ws"
proof -
  from assms have t: "take (Suc (Suc 0)) a = ''::''"
    by (auto split: if_splits)
  from assms obtain x where x: "x \<in> set (rxm (Star sp) (rev ''::'' @ b, drop (Suc (Suc 0)) a, cs))"
      and e: "rxm Eol x \<noteq> []"
    by (auto split: if_splits)
  from e have "fst (snd x) = []"
    by (cases x) (auto split: if_splits)
  with star_chr_results [OF x] have "list_all isSpace (drop (Suc (Suc 0)) a)" by auto
  moreover have "a = take (Suc (Suc 0)) a @ drop (Suc (Suc 0)) a" by simp
  ultimately show ?thesis using t by metis
qed

lemma rxm_Cat_iff: "(rxm (Cat r1 r2) s \<noteq> []) = (\<exists>s1\<in>set (rxm r1 s). rxm r2 s1 \<noteq> [])"
  by auto

lemma rxm_Grp_results:
  "y \<in> set (rxm (Grp n r) (b, a, cs)) \<Longrightarrow> \<exists>z\<in>set (rxm r (b, a, cs)). fst (snd y) = fst (snd z)"
  by force

lemma ident_results:
  assumes "z \<in> set (rxm ident (b, a, cs))"
  shows "\<exists>w. a = w @ fst (snd z)"
proof -
  from assms obtain c a1 where a: "a = c # a1"
      and s: "z \<in> set (rxm (Star (Chr isWordChar)) (c # b, a1, cs))"
    by (cases a) (auto split: if_splits)
  from star_chr_results [OF s] obtain w where "a1 = w @ fst (snd z)" by blast
  with a have "a = (c # w) @ fst (snd z)" by simp
  then show ?thesis by blast
qed

lemma srgBefore_shape:
  assumes "rxm rx_srgBefore (b, a, cs) \<noteq> []"
  shows "\<exists>w ws. a = w @ ''::'' @ ws \<and> list_all isSpace ws"
proof -
  from assms obtain y where y: "y \<in> set (rxm (Grp 1 ident) (b, a, cs))"
      and t: "rxm (Cat (Lit ''::'') (Cat (Star sp) Eol)) y \<noteq> []"
    using rxm_Cat_iff [of "Grp 1 ident" "Cat (Lit ''::'') (Cat (Star sp) Eol)" "(b, a, cs)"]
    unfolding rx_srgBefore_def seq.simps by blast
  from rxm_Grp_results [OF y] obtain z where z: "z \<in> set (rxm ident (b, a, cs))"
      and yz: "fst (snd y) = fst (snd z)" by blast
  from ident_results [OF z] obtain w where w: "a = w @ fst (snd y)" using yz by auto
  obtain yb ya ycs where "y = (yb, ya, ycs)" by (cases y)
  with srgBefore_tail t obtain ws where "fst (snd y) = ''::'' @ ws" "list_all isSpace ws"
    by fastforce
  with w have "a = w @ ''::'' @ ws \<and> list_all isSpace ws" by simp
  then show ?thesis by blast
qed

lemma srgBefore_not_after_dot:
  assumes "a = [] \<or> last a = CHR ''.''"
  shows "rxm rx_srgBefore (b, a, cs) = []"
proof (rule ccontr)
  assume "rxm rx_srgBefore (b, a, cs) \<noteq> []"
  from srgBefore_shape [OF this] obtain w ws where a: "a = w @ ''::'' @ ws" and ws: "list_all isSpace ws"
    by blast
  show False
  proof (cases ws rule: rev_cases)
    case Nil
    with a assms show False by simp
  next
    case (snoc ws' c)
    with a assms ws show False by (auto simp add: not_space_dot)
  qed
qed

lemma srgBefore_search_none:
  "a = [] \<or> last a = CHR ''.'' \<Longrightarrow> rx_search rx_srgBefore b a = None"
proof (induction a arbitrary: b)
  case Nil
  then show ?case by (subst rx_search.simps) (simp add: srgBefore_not_after_dot)
next
  case (Cons c a)
  have "a = [] \<or> last a = CHR ''.''" using Cons.prems by (auto split: if_splits)
  from Cons.IH [OF this] Cons.prems show ?case
    by (subst rx_search.simps) (simp add: srgBefore_not_after_dot)
qed

lemma dot_access_not_qualified:
  "checkSrgQualified idx cx i pos identifier (X @ ''.'') = Proceed"
  unfolding checkSrgQualified_def rx_match_def
  by (simp add: srgBefore_search_none)

lemma identStart_wordChar: "isIdentStart c \<Longrightarrow> isWordChar c"
  by (auto simp add: isIdentStart_def isWordChar_def)

lemma wordChar_not_space: "isWordChar c \<Longrightarrow> \<not> isSpace c"
  by (auto simp add: charclass_defs)

lemma ident_shape:
  assumes "z \<in> set (rxm ident (b, a, cs))"
  shows "\<exists>c w. a = c # w @ fst (snd z) \<and> isIdentStart c \<and> list_all isWordChar w"
proof -
  from assms obtain c a1 where a: "a = c # a1" and c: "isIdentStart c"
      and s: "z \<in> set (rxm (Star (Chr isWordChar)) (c # b, a1, cs))"
    by (cases a) (auto split: if_splits)
  from star_chr_results [OF s] obtain w where "a1 = w @ fst (snd z)" "list_all isWordChar w" by blast
  with a c show ?thesis by blast
qed

lemma srgBefore_strong_shape:
  assumes "rxm rx_srgBefore (b, a, cs) \<noteq> []"
  shows "\<exists>c w ws. a = c # w @ ''::'' @ ws \<and> isIdentStart c \<and> list_all isWordChar w
                  \<and> list_all isSpace ws"
proof -
  from assms obtain y where y: "y \<in> set (rxm (Grp 1 ident) (b, a, cs))"
      and t: "rxm (Cat (Lit ''::'') (Cat (Star sp) Eol)) y \<noteq> []"
    using rxm_Cat_iff [of "Grp 1 ident" "Cat (Lit ''::'') (Cat (Star sp) Eol)" "(b, a, cs)"]
    unfolding rx_srgBefore_def seq.simps by blast
  from rxm_Grp_results [OF y] obtain z where z: "z \<in> set (rxm ident (b, a, cs))"
      and yz: "fst (snd y) = fst (snd z)" by blast
  from ident_shape [OF z] obtain c w where w: "a = c # w @ fst (snd y)" "isIdentStart c"
      "list_all isWordChar w"
    using yz by auto
  obtain yb ya ycs where "y = (yb, ya, ycs)" by (cases y)
  with srgBefore_tail t obtain ws where "fst (snd y) = ''::'' @ ws" "list_all isSpace ws"
    by fastforce
  with w have "a = c # w @ ''::'' @ ws \<and> isIdentStart c \<and> list_all isWordChar w \<and> list_all isSpace ws"
    by simp
  then show ?thesis by blast
qed

lemma srgBefore_not_inside:
  assumes "p2 \<noteq> []" and "\<not> isWordChar (last p2)"
  shows "rxm rx_srgBefore (b, p2 @ name @ ''::'', cs) = []"
proof (rule ccontr)
  assume "rxm rx_srgBefore (b, p2 @ name @ ''::'', cs) \<noteq> []"
  from srgBefore_strong_shape [OF this] obtain c w ws
    where a: "p2 @ name @ ''::'' = c # w @ ''::'' @ ws" and c: "isIdentStart c"
      and w: "list_all isWordChar w" and ws: "list_all isSpace ws"
    by blast
  have "ws = []"
  proof (rule ccontr)
    assume n: "ws \<noteq> []"
    then have "last (c # w @ ''::'' @ ws) = last ws" by simp
    moreover have "last (p2 @ name @ ''::'') = CHR '':''" by simp
    ultimately have "last ws = CHR '':''" using a by simp
    moreover have "isSpace (last ws)" using ws n by (simp add: list_all_iff)
    ultimately show False by (simp add: not_space_dot)
  qed
  with a have "(p2 @ name) @ ''::'' = (c # w) @ ''::''" by simp
  then have "p2 @ name = c # w" by (simp only: append_same_eq)
  then have "set p2 \<subseteq> set (c # w)" by (metis set_append Un_upper1)
  then have "last p2 \<in> set (c # w)" using assms(1) by (meson last_in_set subsetD)
  then have "isWordChar (last p2)"
    using c w by (auto simp add: identStart_wordChar list_all_iff)
  with assms(2) show False by simp
qed

lemma star_head:
  assumes "list_all p w" and "rest = [] \<or> \<not> p (hd rest)"
  shows "\<exists>others. rxm (Star (Chr p)) (b, w @ rest, cs) = (rev w @ b, rest, cs) # others"
  using assms
proof (induction w arbitrary: b)
  case Nil
  have "rxm (Chr p) (b, rest, cs) = []"
    using Nil.prems(2) by (cases rest) auto
  then show ?case by (subst rxm.simps(6)) simp
next
  case (Cons x w)
  from Cons.IH [of "x # b"] Cons.prems obtain others
    where "rxm (Star (Chr p)) (x # b, w @ rest, cs) = (rev w @ x # b, rest, cs) # others"
    by auto
  with Cons.prems show ?case
    by (subst rxm.simps(6)) (simp add: remaining_def)
qed

lemma srgBefore_at_name:
  assumes "identifierShaped name"
  shows "\<exists>b' others. rxm rx_srgBefore (b, name @ ''::'', cs) = (b', [], (1, name) # cs) # others"
proof -
  from assms obtain c w where n: "name = c # w" and c: "isIdentStart c" and w: "list_all isWordChar w"
    by (auto simp add: identifierShaped_def split: list.splits)
  have "\<not> isWordChar (hd ''::'')" by (simp add: charclass_defs)
  with star_head [of isWordChar w "''::''" "c # b" cs] w obtain others
    where s: "rxm (Star (Chr isWordChar)) (c # b, w @ ''::'', cs) = (rev w @ c # b, ''::'', cs) # others"
    by auto
  have t: "rxm (Cat (Lit ''::'') (Cat (Star sp) Eol)) (bb, ''::'', cs') = [(rev ''::'' @ bb, [], cs')]"
    for bb cs'
    by (simp add: rxm.simps(6))
  show ?thesis
    unfolding rx_srgBefore_def n using c s t by simp
qed

lemma srgBefore_search:
  assumes "identifierShaped name" and "p0 = [] \<or> \<not> isWordChar (last p0)"
  shows "\<exists>m. rx_search rx_srgBefore b (p0 @ name @ ''::'') = Some m \<and> grp m 1 = Some name"
  using assms(2)
proof (induction p0 arbitrary: b)
  case Nil
  from srgBefore_at_name [OF assms(1), of b "[]"] obtain b' others
    where "rxm rx_srgBefore (b, name @ ''::'', []) = (b', [], [(1, name)]) # others"
    by blast
  then show ?case
    by (subst rx_search.simps) (simp add: grp_def)
next
  case (Cons x p0)
  have "rxm rx_srgBefore (b, (x # p0) @ name @ ''::'', []) = []"
    using Cons.prems by (intro srgBefore_not_inside) simp_all
  moreover have "p0 = [] \<or> \<not> isWordChar (last p0)"
    using Cons.prems by (auto split: if_splits)
  ultimately show ?case
    using Cons.IH [of "x # b"] by (subst rx_search.simps) simp
qed

lemma qualified_access:
  assumes "identifierShaped srgName" and "p0 = [] \<or> \<not> isWordChar (last p0)"
  shows "checkSrgQualified idx cx i pos identifier (p0 @ srgName @ ''::'') =
     (if srgMemberFound idx cx srgName identifier then Skip
      else if srgKnown idx cx srgName
      then Report (errorAt i pos (pos + length identifier)
              (''no member named '' @ quoted identifier @ '' in SRG '' @ quoted srgName))
      else Proceed)"
proof -
  from srgBefore_search [OF assms, of "[]"] obtain m
    where "rx_match rx_srgBefore (p0 @ srgName @ ''::'') = Some m" "grp m 1 = Some srgName"
    unfolding rx_match_def by blast
  then show ?thesis
    unfolding checkSrgQualified_def Let_def by simp
qed

lemma js_trim_qualified:
  assumes "identifierShaped srgName" and "list_all isSpace ws"
    and "p0 = [] \<or> \<not> isWordChar (last p0)"
  shows "\<exists>p1. js_trim (p0 @ srgName @ ''::'' @ ws) = p1 @ srgName @ ''::''
              \<and> (p1 = [] \<or> \<not> isWordChar (last p1))"
proof -
  from assms(1) obtain c w where n: "srgName = c # w" and c: "isIdentStart c"
    by (auto simp add: identifierShaped_def split: list.splits)
  have nc: "\<not> isSpace c" using c by (simp add: identStart_wordChar wordChar_not_space)
  define p1 where "p1 = dropWhile isSpace p0"
  have 1: "dropWhile isSpace (p0 @ srgName @ ''::'' @ ws) = p1 @ srgName @ ''::'' @ ws"
    unfolding p1_def n using nc by (simp add: dropWhile_append)
  have 2: "dropWhile isSpace (rev (p1 @ srgName @ ''::'' @ ws)) = rev (p1 @ srgName @ ''::'')"
    using assms(2) by (simp add: dropWhile_append list_all_iff not_space_dot)
  have 3: "p1 = [] \<or> \<not> isWordChar (last p1)"
  proof (cases "p1 = []")
    case True
    then show ?thesis by simp
  next
    case False
    obtain q where "p0 = q @ p1"
      unfolding p1_def by (metis takeWhile_dropWhile_id)
    with False have "last p1 = last p0" "p0 \<noteq> []" by simp_all
    with assms(3) show ?thesis by simp
  qed
  show ?thesis
    unfolding js_trim_def 1 2 using 3 by simp
qed

lemmas sweep_defs =
  checkIdentifier_def checkMemberAccess_def checkSrgQualified_def resolveOperand_def
  resolveVariable_def reportMissingSrgMember_def checkResolvedMember_def checkUndeclared_def
  getExpressionType_def
  extractFunctionCallArgs_def vectorConstructorType_def leadingIdentifier_def
  rx_srgBefore_def rx_srgMember_def rx_varAccess_def rx_callBeforeDot_def rx_call_def
  rx_vectorConstructor_def isVectorType_def rx_vectorType_def rx_swizzle_def
  srgKnown_def srgMemberExists_def srgMemberFound_def truthy_def quoted_def errorAt_def
  builtinIdentifiers_def atomTypes_def textureMethods_def
  getCurrentFunctionReturnType_def getCurrentFunctionParameterType_def scopeContains_def
  getVariableTypeAtLine_def bestDeclaration_def pickStep_def
  emptyContext_def emptyIndex_def mhas_def
  rx_search.simps rx_all.simps rxm.simps
  charclass_defs js_defs rx_defs

lemma checkUndeclared_after_dot:
  assumes "list_all isSpace ws"
  shows "checkUndeclared idx cx i line pos identifier (pre @ ''.'' @ ws) afterMatch = Skip"
proof -
  have "rx_test rx_afterNumberOrDot (pre @ ''.'' @ ws)"
    using assms by (rule afterNumberOrDot_matches)
  then show ?thesis
    unfolding checkUndeclared_def Let_def by simp
qed

lemma checkUndeclared_after_colons:
  assumes "list_all isSpace ws"
  shows "checkUndeclared idx cx i line pos identifier (pre @ ''::'' @ ws) afterMatch = Skip"
proof -
  have "rx_test rx_colonAtEnd ((pre @ '':'') @ '':'' @ ws)"
    using assms by (rule colonAtEnd_matches)
  then show ?thesis
    unfolding checkUndeclared_def Let_def by simp
qed

text \<open>
  The identifier directly follows a \<open>.\<close> (blanks may come between), the operand before it
  resolves to the vector type \<open>t\<close>, and the identifier consists of one to four of the
  letters \<open>xyzwrgba\<close>: it is skipped without a diagnostic.
\<close>

lemma swizzle_letters_skipped:
  assumes vec: "isVectorType t"
    and name: "identifier \<noteq> []" "length identifier \<le> 4" "set identifier \<subseteq> set ''xyzwrgba''"
    and access: "take pos lineWithoutStrings = pre @ ''.'' @ ws" "list_all isSpace ws"
    and operand: "resolveOperand idx cx i validationBraceDepth line pos
                    (js_trim (take pos lineWithoutStrings)) = Resolved srgMemberMatch varMatch (Some t)"
  shows "checkIdentifier idx cx i validationBraceDepth line lineWithoutStrings pos identifier = Skip"
proof -
  have sw: "rx_test rx_swizzle identifier"
    using name by (simp add: swizzle_test_iff)
  have tr: "truthy (Some t)"
    using isVectorType_nonempty [OF vec] by (simp add: truthy_def)
  obtain X where X: "js_trim (take pos lineWithoutStrings) = X @ ''.''"
    using js_trim_access [of ws "''.''" pre] access by (auto simp add: not_space_dot)
  have inc: "js_includes (take pos lineWithoutStrings) ''.''"
    unfolding access(1) by (rule js_includes_append)
  have q: "checkSrgQualified idx cx i pos identifier (js_trim (take pos lineWithoutStrings)) = Proceed"
    unfolding X by (rule dot_access_not_qualified)
  have r: "checkResolvedMember idx i pos identifier t = Skip"
    using vec sw by (simp add: checkResolvedMember_def)
  have "checkMemberAccess idx cx i validationBraceDepth line pos identifier (take pos lineWithoutStrings)
          = Skip"
    unfolding checkMemberAccess_def Let_def
    using inc q operand tr r by (simp split: option.splits prod.splits)
  then show ?thesis
    unfolding checkIdentifier_def Let_def by simp
qed

text \<open>The dimension of a vector type is its last character, one of \<open>2\<close>, \<open>3\<close>, \<open>4\<close>.\<close>

lemma rxm_Chr_Eol:
  "(rxm (Cat (Chr p) Eol) (b, a, cs) \<noteq> []) = (\<exists>c. a = [c] \<and> p c)"
  by (cases a) (auto split: list.splits)

lemma rxm_Lit_results: "x \<in> set (rxm (Lit l) (b, a, cs)) \<Longrightarrow> a = l @ fst (snd x)"
  by (auto split: if_splits) (metis append_take_drop_id)

lemma vectorBase_results:
  assumes "x \<in> set (rxm (alts [Lit ''float'', Lit ''int'', Lit ''uint'', Lit ''bool'', Lit ''real'', Lit ''half''])
                     (b, a, cs))"
  shows "\<exists>l. a = l @ fst (snd x)"
proof -
  from assms have "\<exists>l. x \<in> set (rxm (Lit l) (b, a, cs))"
    by (simp only: alts.simps rxm.simps(4) set_append Un_iff) blast
  then show ?thesis
    using rxm_Lit_results by blast
qed

lemma isVectorType_last:
  assumes "isVectorType t"
  shows "t \<noteq> [] \<and> last t \<in> set ''234''"
proof -
  let ?A = "alts [Lit ''float'', Lit ''int'', Lit ''uint'', Lit ''bool'', Lit ''real'', Lit ''half'']"
  from assms have "rxm (Cat ?A (Cat (Chr (oneOf ''234'')) Eol)) ([], t, []) \<noteq> []"
    unfolding isVectorType_def rx_vectorType_def seq.simps rx_test_anchored
    by (subst (asm) rxm.simps(3)) simp
  then obtain x where x: "x \<in> set (rxm ?A ([], t, []))"
      and e: "rxm (Cat (Chr (oneOf ''234'')) Eol) x \<noteq> []"
    unfolding rxm_Cat_iff by blast
  obtain xb xa xcs where xx: "x = (xb, xa, xcs)" by (cases x)
  from e obtain c where c: "xa = [c]" "oneOf ''234'' c"
    unfolding xx rxm_Chr_Eol by blast
  from vectorBase_results [OF x] obtain l where "t = l @ xa"
    unfolding xx by auto
  with c show ?thesis by (simp add: oneOf_def)
qed

lemma digitValue_234:
  "digitValue CHR ''2'' = Some 2" "digitValue CHR ''3'' = Some 3" "digitValue CHR ''4'' = Some 4"
  by (simp_all add: digitValue_def enumerate_eq_zip)

lemma isVectorType_dimension:
  assumes "isVectorType t"
  shows "\<exists>dim\<in>{2, 3, 4}. t \<noteq> [] \<and> digitValue (last t) = Some dim"
  using isVectorType_last [OF assms] digitValue_234 by auto

text \<open>
  The four loops of \<open>getSwizzleProperties\<close> add exactly the accessors that are built from a
  non-empty list of distinct component indices below the dimension, spelled in the
  position alphabet or in the colour alphabet.
\<close>

lemma components_below: "i < 4 \<Longrightarrow> components i = [''xyzw'' ! i]"
  and colorComponents_below: "i < 4 \<Longrightarrow> colorComponents i = [''rgba'' ! i]"
  by (simp_all add: components_def colorComponents_def)

lemma concat_mapI: "i \<in> set xs \<Longrightarrow> x \<in> set (f i) \<Longrightarrow> x \<in> set (concat (map f xs))"
  by auto

lemma in_swizzleSingles:
  assumes "dim \<le> 4"
  shows "(s \<in> set (swizzleSingles dim)) = (\<exists>i<dim. s \<in> accessorOf [i])"
proof -
  have "i < dim \<Longrightarrow> i < 4" for i using assms by simp
  then show ?thesis
    unfolding swizzleSingles_def accessorOf_def
    by (auto simp add: components_below colorComponents_below)
qed

lemma in_swizzlePairs:
  assumes "dim \<le> 4"
  shows "(s \<in> set (swizzlePairs dim)) = (\<exists>i<dim. \<exists>j<dim. i \<noteq> j \<and> s \<in> accessorOf [i, j])"
proof
  have b: "i < dim \<Longrightarrow> i < 4" for i using assms by simp
  assume "s \<in> set (swizzlePairs dim)"
  then show "\<exists>i<dim. \<exists>j<dim. i \<noteq> j \<and> s \<in> accessorOf [i, j]"
    unfolding swizzlePairs_def accessorOf_def
    by (auto simp add: b components_below colorComponents_below split: if_splits) blast+
next
  have b: "i < dim \<Longrightarrow> i < 4" for i using assms by simp
  assume "\<exists>i<dim. \<exists>j<dim. i \<noteq> j \<and> s \<in> accessorOf [i, j]"
  then obtain i j where i: "i \<in> set [0..<dim]" and j: "j \<in> set [0..<dim]"
      and c: "i \<noteq> j" and s: "s \<in> accessorOf [i, j]"
    by auto
  have "s \<in> set (if i \<noteq> j then [components i @ components j, colorComponents i @ colorComponents j]
                  else [])"
    using i j c s b by (auto simp add: accessorOf_def components_below colorComponents_below)
  then show "s \<in> set (swizzlePairs dim)"
    unfolding swizzlePairs_def
    by (intro concat_mapI [OF i] concat_mapI [OF j])
qed

lemma in_swizzleTriples:
  assumes "dim \<le> 4"
  shows "(s \<in> set (swizzleTriples dim))
         = (3 \<le> dim \<and> (\<exists>i<dim. \<exists>j<dim. \<exists>k<dim. i \<noteq> j \<and> j \<noteq> k \<and> i \<noteq> k \<and> s \<in> accessorOf [i, j, k]))"
proof
  have b: "i < dim \<Longrightarrow> i < 4" for i using assms by simp
  assume "s \<in> set (swizzleTriples dim)"
  then show "3 \<le> dim \<and> (\<exists>i<dim. \<exists>j<dim. \<exists>k<dim. i \<noteq> j \<and> j \<noteq> k \<and> i \<noteq> k \<and> s \<in> accessorOf [i, j, k])"
    unfolding swizzleTriples_def accessorOf_def
    by (auto simp add: b components_below colorComponents_below split: if_splits) blast+
next
  have b: "i < dim \<Longrightarrow> i < 4" for i using assms by simp
  assume a: "3 \<le> dim \<and> (\<exists>i<dim. \<exists>j<dim. \<exists>k<dim. i \<noteq> j \<and> j \<noteq> k \<and> i \<noteq> k \<and> s \<in> accessorOf [i, j, k])"
  then obtain i j k where i: "i \<in> set [0..<dim]" and j: "j \<in> set [0..<dim]" and k: "k \<in> set [0..<dim]"
      and c: "i \<noteq> j \<and> j \<noteq> k \<and> i \<noteq> k" and s: "s \<in> accessorOf [i, j, k]"
    by auto
  have "s \<in> set (if i \<noteq> j \<and> j \<noteq> k \<and> i \<noteq> k
                  then [components i @ components j @ components k,
                        colorComponents i @ colorComponents j @ colorComponents k]
                  else [])"
    using i j k c s b by (auto simp add: accessorOf_def components_below colorComponents_below)
  then have "s \<in> set (concat (map (\<lambda>i. concat (map (\<lambda>j. concat (map (\<lambda>k.
             if i \<noteq> j \<and> j \<noteq> k \<and> i \<noteq> k
             then [components i @ components j @ components k,
                   colorComponents i @ colorComponents j @ colorComponents k]
             else [])
           [0..<dim])) [0..<dim])) [0..<dim]))"
    by (intro concat_mapI [OF i] concat_mapI [OF j] concat_mapI [OF k])
  with a show "s \<in> set (swizzleTriples dim)"
    unfolding swizzleTriples_def by simp
qed

lemma in_swizzleQuads:
  "(s \<in> set (swizzleQuads dim))
     = (dim = 4 \<and> (\<exists>i<dim. \<exists>j<dim. \<exists>k<dim. \<exists>l<dim.
          i \<noteq> j \<and> j \<noteq> k \<and> k \<noteq> l \<and> i \<noteq> k \<and> i \<noteq> l \<and> j \<noteq> l \<and> s \<in> accessorOf [i, j, k, l]))"
proof
  assume "s \<in> set (swizzleQuads dim)"
  then show "dim = 4 \<and> (\<exists>i<dim. \<exists>j<dim. \<exists>k<dim. \<exists>l<dim.
          i \<noteq> j \<and> j \<noteq> k \<and> k \<noteq> l \<and> i \<noteq> k \<and> i \<noteq> l \<and> j \<noteq> l \<and> s \<in> accessorOf [i, j, k, l])"
    unfolding swizzleQuads_def accessorOf_def
    by (auto simp add: components_below colorComponents_below split: if_splits) blast+
next
  assume a: "dim = 4 \<and> (\<exists>i<dim. \<exists>j<dim. \<exists>k<dim. \<exists>l<dim.
          i \<noteq> j \<and> j \<noteq> k \<and> k \<noteq> l \<and> i \<noteq> k \<and> i \<noteq> l \<and> j \<noteq> l \<and> s \<in> accessorOf [i, j, k, l])"
  then obtain i j k l where i: "i \<in> set [0..<dim]" and j: "j \<in> set [0..<dim]"
      and k: "k \<in> set [0..<dim]" and l: "l \<in> set [0..<dim]"
      and c: "i \<noteq> j \<and> j \<noteq> k \<and> k \<noteq> l \<and> i \<noteq> k \<and> i \<noteq> l \<and> j \<noteq> l" and s: "s \<in> accessorOf [i, j, k, l]"
    by auto
  have "s \<in> set (if i \<noteq> j \<and> j \<noteq> k \<and> k \<noteq> l \<and> i \<noteq> k \<and> i \<noteq> l \<and> j \<noteq> l
                  then [components i @ components j @ components k @ components l,
                        colorComponents i @ colorComponents j @ colorComponents k @ colorComponents l]
                  else [])"
    using a i j k l c s by (auto simp add: accessorOf_def components_below colorComponents_below)
  then have "s \<in> set (concat (map (\<lambda>i. concat (map (\<lambda>j. concat (map (\<lambda>k. concat (map (\<lambda>l.
             if i \<noteq> j \<and> j \<noteq> k \<and> k \<noteq> l \<and> i \<noteq> k \<and> i \<noteq> l \<and> j \<noteq> l
             then [components i @ components j @ components k @ components l,
                   colorComponents i @ colorComponents j @ colorComponents k @ colorComponents l]
             else [])
           [0..<dim])) [0..<dim])) [0..<dim])) [0..<dim]))"
    by (intro concat_mapI [OF i] concat_mapI [OF j] concat_mapI [OF k] concat_mapI [OF l])
  with a show "s \<in> set (swizzleQuads dim)"
    unfolding swizzleQuads_def by simp
qed

lemma distinct_indices_length:
  assumes "distinct is" and "set is \<subseteq> {..<dim}"
  shows "length is \<le> dim"
proof -
  have "card (set is) \<le> card {..<dim}"
    using assms(2) by (intro card_mono) simp_all
  then show ?thesis
    using assms(1) by (simp add: distinct_card)
qed

lemma in_swizzleProps:
  assumes "dim \<in> {2, 3, 4}"
  shows "(s \<in> set (swizzleProps dim))
         = (\<exists>is. is \<noteq> [] \<and> distinct is \<and> set is \<subseteq> {..<dim} \<and> s \<in> accessorOf is)"
proof
  from assms have d: "dim \<le> 4" by auto
  assume "s \<in> set (swizzleProps dim)"
  then consider i where "i < dim" "s \<in> accessorOf [i]"
    | i j where "i < dim" "j < dim" "i \<noteq> j" "s \<in> accessorOf [i, j]"
    | i j k where "i < dim" "j < dim" "k < dim" "i \<noteq> j" "j \<noteq> k" "i \<noteq> k" "s \<in> accessorOf [i, j, k]"
    | i j k l where "i < dim" "j < dim" "k < dim" "l < dim"
        "i \<noteq> j" "j \<noteq> k" "k \<noteq> l" "i \<noteq> k" "i \<noteq> l" "j \<noteq> l" "s \<in> accessorOf [i, j, k, l]"
    unfolding swizzleProps_def set_append Un_iff
      in_swizzleSingles [OF d] in_swizzlePairs [OF d] in_swizzleTriples [OF d] in_swizzleQuads
    by blast
  then show "\<exists>is. is \<noteq> [] \<and> distinct is \<and> set is \<subseteq> {..<dim} \<and> s \<in> accessorOf is"
  proof cases
    case 1
    then have "[i] \<noteq> [] \<and> distinct [i] \<and> set [i] \<subseteq> {..<dim} \<and> s \<in> accessorOf [i]" by simp
    then show ?thesis by blast
  next
    case 2
    then have "[i, j] \<noteq> [] \<and> distinct [i, j] \<and> set [i, j] \<subseteq> {..<dim} \<and> s \<in> accessorOf [i, j]"
      by simp
    then show ?thesis by blast
  next
    case 3
    then have "[i, j, k] \<noteq> [] \<and> distinct [i, j, k] \<and> set [i, j, k] \<subseteq> {..<dim}
               \<and> s \<in> accessorOf [i, j, k]"
      by simp
    then show ?thesis by blast
  next
    case 4
    then have "[i, j, k, l] \<noteq> [] \<and> distinct [i, j, k, l] \<and> set [i, j, k, l] \<subseteq> {..<dim}
               \<and> s \<in> accessorOf [i, j, k, l]"
      by simp
    then show ?thesis by blast
  qed
next
  from assms have d: "dim \<le> 4" by auto
  assume "\<exists>is. is \<noteq> [] \<and> distinct is \<and> set is \<subseteq> {..<dim} \<and> s \<in> accessorOf is"
  then obtain "is" where n: "is \<noteq> []" and di: "distinct is" and su: "set is \<subseteq> {..<dim}"
      and s: "s \<in> accessorOf is"
    by blast
  have len: "length is \<le> dim" using di su by (rule distinct_indices_length)
  consider i where "is = [i]" | i j where "is = [i, j]" | i j k where "is = [i, j, k]"
    | i j k l where "is = [i, j, k, l]" | "5 \<le> length is"
  proof (cases "is")
    case Nil
    with n show ?thesis by simp
  next
    case c1: (Cons i r1)
    show ?thesis
    proof (cases r1)
      case Nil
      with c1 that(1) show ?thesis by simp
    next
      case c2: (Cons j r2)
      show ?thesis
      proof (cases r2)
        case Nil
        with c1 c2 that(2) show ?thesis by simp
      next
        case c3: (Cons k r3)
        show ?thesis
        proof (cases r3)
          case Nil
          with c1 c2 c3 that(3) show ?thesis by simp
        next
          case c4: (Cons l r4)
          show ?thesis
          proof (cases r4)
            case Nil
            with c1 c2 c3 c4 that(4) show ?thesis by simp
          next
            case (Cons m r5)
            with c1 c2 c3 c4 that(5) show ?thesis by simp
          qed
        qed
      qed
    qed
  qed
  then show "s \<in> set (swizzleProps dim)"
  proof cases
    case 1
    with su s have "\<exists>i<dim. s \<in> accessorOf [i]" by auto
    then show ?thesis
      unfolding swizzleProps_def set_append Un_iff in_swizzleSingles [OF d] by blast
  next
    case 2
    with su s di have "\<exists>i<dim. \<exists>j<dim. i \<noteq> j \<and> s \<in> accessorOf [i, j]" by auto
    then show ?thesis
      unfolding swizzleProps_def set_append Un_iff in_swizzlePairs [OF d] by blast
  next
    case 3
    with su s di len
    have "3 \<le> dim \<and> (\<exists>i<dim. \<exists>j<dim. \<exists>k<dim. i \<noteq> j \<and> j \<noteq> k \<and> i \<noteq> k \<and> s \<in> accessorOf [i, j, k])"
      by auto
    then show ?thesis
      unfolding swizzleProps_def set_append Un_iff in_swizzleTriples [OF d] by blast
  next
    case 4
    with su s di len d
    have "dim = 4 \<and> (\<exists>i<dim. \<exists>j<dim. \<exists>k<dim. \<exists>l<dim.
          i \<noteq> j \<and> j \<noteq> k \<and> k \<noteq> l \<and> i \<noteq> k \<and> i \<noteq> l \<and> j \<noteq> l \<and> s \<in> accessorOf [i, j, k, l])"
      by auto
    then show ?thesis
      unfolding swizzleProps_def set_append Un_iff in_swizzleQuads by blast
  next
    case 5
    with len d show ?thesis by simp
  qed
qed

lemma getSwizzleProperties_set:
  assumes "t \<noteq> []" and "digitValue (last t) = Some dim"
  shows "set (getSwizzleProperties t) = set (swizzleProps dim)"
  using assms by (simp add: getSwizzleProperties_def)

text \<open>
  C2. For a vector type \<open>t\<close>: on an operand of that type the sweep accepts every accessed
  name of one to four of the letters \<open>xyzwrgba\<close>, whatever the dimension of the vector and
  whether or not a letter repeats, because it tests the name against
  \<open>/^[xyzwrgba]{1,4}$/\<close> only. The rule of distinct component indices below the dimension
  describes \<open>getSwizzleProperties\<close>, the completion list: the dimension \<open>dim\<close> is the last
  character of the type name, and the list holds exactly the accessors built from distinct
  indices below \<open>dim\<close>.
\<close>

theorem sweep_accepts_swizzle_letters:
  assumes vec: "isVectorType t"
  shows "(identifier \<noteq> [] \<and> length identifier \<le> 4 \<and> set identifier \<subseteq> set ''xyzwrgba''
          \<and> take pos lineWithoutStrings = pre @ ''.'' @ ws \<and> list_all isSpace ws
          \<and> resolveOperand idx cx i validationBraceDepth line pos
               (js_trim (take pos lineWithoutStrings)) = Resolved srgMemberMatch varMatch (Some t)
          \<longrightarrow> checkIdentifier idx cx i validationBraceDepth line lineWithoutStrings pos identifier = Skip)
       \<and> (\<exists>dim\<in>{2, 3, 4}.
             digitValue (last t) = Some dim
             \<and> set (getSwizzleProperties t)
                 = {s. \<exists>is. is \<noteq> [] \<and> distinct is \<and> set is \<subseteq> {..<dim} \<and> s \<in> accessorOf is})"
proof (intro conjI impI)
  assume "identifier \<noteq> [] \<and> length identifier \<le> 4 \<and> set identifier \<subseteq> set ''xyzwrgba''
          \<and> take pos lineWithoutStrings = pre @ ''.'' @ ws \<and> list_all isSpace ws
          \<and> resolveOperand idx cx i validationBraceDepth line pos
               (js_trim (take pos lineWithoutStrings)) = Resolved srgMemberMatch varMatch (Some t)"
  with vec show "checkIdentifier idx cx i validationBraceDepth line lineWithoutStrings pos identifier = Skip"
    using swizzle_letters_skipped by blast
next
  from isVectorType_dimension [OF vec] obtain dim where d: "dim \<in> {2, 3, 4}"
      and n: "t \<noteq> []" and v: "digitValue (last t) = Some dim"
    by blast
  have "set (getSwizzleProperties t)
          = {s. \<exists>is. is \<noteq> [] \<and> distinct is \<and> set is \<subseteq> {..<dim} \<and> s \<in> accessorOf is}"
    unfolding getSwizzleProperties_set [OF n v] using in_swizzleProps [OF d] by blast
  with d v show "\<exists>dim\<in>{2, 3, 4}.
             digitValue (last t) = Some dim
             \<and> set (getSwizzleProperties t)
                 = {s. \<exists>is. is \<noteq> [] \<and> distinct is \<and> set is \<subseteq> {..<dim} \<and> s \<in> accessorOf is}"
    by blast
qed

text \<open>
  The accesses \<open>.xyz\<close>, \<open>.rgb\<close> and \<open>.xy\<close> on \<open>v\<close>, declared \<open>float3 v;\<close> on the line before,
  and the completion list of \<open>float3\<close>.
\<close>

theorem sweep_accepts_swizzle_letters_witness:
  "isVectorType ''float3''
   \<and> resolveOperand emptyIndex example_vectorContext 1 0 ''v.xyz = 0;'' 2 (js_trim (take 2 ''v.xyz = 0;''))
       = Resolved None (Some ''v'') (Some ''float3'')
   \<and> checkIdentifier emptyIndex example_vectorContext 1 0 ''v.xyz = 0;'' ''v.xyz = 0;'' 2 ''xyz'' = Skip
   \<and> checkIdentifier emptyIndex example_vectorContext 1 0 ''v.rgb = 0;'' ''v.rgb = 0;'' 2 ''rgb'' = Skip
   \<and> checkIdentifier emptyIndex example_vectorContext 1 0 ''v.xy = 0;'' ''v.xy = 0;'' 2 ''xy'' = Skip
   \<and> set (getSwizzleProperties ''float3'')
       = {s. \<exists>is. is \<noteq> [] \<and> distinct is \<and> set is \<subseteq> {..<3} \<and> s \<in> accessorOf is}"
proof -
  have v: "isVectorType ''float3''"
    by (simp add: isVectorType_def rx_vectorType_def rx_test_anchored oneOf_def)
  have o: "resolveOperand emptyIndex example_vectorContext 1 0 line 2 (js_trim ''v.'')
             = Resolved None (Some ''v'') (Some ''float3'')" for line
    by (simp add: example_vectorContext_def sweep_defs)
  have d: "digitValue (last ''float3'') = Some 3"
    by (simp add: digitValue_234)
  show ?thesis
    using v o d
      sweep_accepts_swizzle_letters [of "''float3''" "''xyz''" 2 "''v.xyz = 0;''" "''v''" "[]"
        emptyIndex example_vectorContext 1 0 "''v.xyz = 0;''" None "Some ''v''"]
      sweep_accepts_swizzle_letters [of "''float3''" "''rgb''" 2 "''v.rgb = 0;''" "''v''" "[]"
        emptyIndex example_vectorContext 1 0 "''v.rgb = 0;''" None "Some ''v''"]
      sweep_accepts_swizzle_letters [of "''float3''" "''xy''" 2 "''v.xy = 0;''" "''v''" "[]"
        emptyIndex example_vectorContext 1 0 "''v.xy = 0;''" None "Some ''v''"]
    by auto
qed

text \<open>
  What the completion list of \<open>float3\<close> holds: \<open>xyz\<close>, \<open>rgb\<close> and \<open>xy\<close>, and neither \<open>xyzw\<close> nor
  \<open>xx\<close> nor \<open>q\<close>.
\<close>

lemma completion_list_float3:
  "''xyz'' \<in> set (getSwizzleProperties ''float3'') \<and> ''rgb'' \<in> set (getSwizzleProperties ''float3'')
   \<and> ''xy'' \<in> set (getSwizzleProperties ''float3'') \<and> ''xyzw'' \<notin> set (getSwizzleProperties ''float3'')
   \<and> ''xx'' \<notin> set (getSwizzleProperties ''float3'') \<and> ''q'' \<notin> set (getSwizzleProperties ''float3'')"
proof -
  have "set (getSwizzleProperties ''float3'') = set (swizzleProps 3)"
    by (rule getSwizzleProperties_set) (simp_all add: digitValue_234)
  then show ?thesis
    by (simp add: swizzleProps_def swizzleSingles_def swizzlePairs_def swizzleTriples_def
          swizzleQuads_def components_def colorComponents_def upt_rec [of _ "numeral n" for n]
          upt_rec [of _ "Suc n" for n])
qed

text \<open>
  On the same \<open>float3\<close> variable the accesses \<open>.xyzw\<close> (a component beyond the dimension) and
  \<open>.xx\<close> (a repeated component) are accepted as well, and \<open>.q\<close>, which is no swizzle
  at all, is skipped too: none of the three gets a diagnostic.
\<close>

theorem sweep_accepts_xyzw_on_float3:
  "checkIdentifier emptyIndex example_vectorContext 1 0 ''v.xyzw = 0;'' ''v.xyzw = 0;'' 2 ''xyzw'' = Skip
   \<and> checkIdentifier emptyIndex example_vectorContext 1 0 ''v.xx = 0;'' ''v.xx = 0;'' 2 ''xx'' = Skip
   \<and> checkIdentifier emptyIndex example_vectorContext 1 0 ''v.q = 0;'' ''v.q = 0;'' 2 ''q'' = Skip"
  by (simp add: example_vectorContext_def sweep_defs)

subsection \<open>Member access on an operand of unknown type\<close>

lemma resolveOperand_Done:
  assumes "resolveOperand idx cx i validationBraceDepth line pos beforeAccess = Done out"
  shows "\<exists>srgName memberName.
           srgKnown idx cx srgName \<and> \<not> srgMemberExists idx cx srgName memberName
           \<and> out = reportMissingSrgMember i line pos srgName memberName"
  using assms unfolding resolveOperand_def Let_def
  by (auto split: option.splits prod.splits if_splits)

lemma resolveOperand_not_Proceed:
  "resolveOperand idx cx i validationBraceDepth line pos beforeAccess \<noteq> Done Proceed"
proof
  assume "resolveOperand idx cx i validationBraceDepth line pos beforeAccess = Done Proceed"
  from resolveOperand_Done [OF this] show False
    by (auto simp add: reportMissingSrgMember_def split: option.splits)
qed

text \<open>
  C7. The identifier directly follows a \<open>.\<close>, or a \<open>::\<close> after a name \<open>srgName\<close>, and the
  left-hand side resolves to no type (\<open>resolveOperand\<close> yields no \<open>varType\<close>). Then the
  identifier is skipped, with three exceptions. After \<open>srgName::\<close> the check of lines
  4060-4096 decides first: the identifier is skipped when it is found as a member of
  \<open>srgName\<close>, and reported with \<open>no member named\<close> when it is not found and \<open>srgName\<close> is a
  known SRG. When the text before the identifier holds an access \<open>Srg::member.\<close> (the one
  the pattern of line 4099 finds, which need not be the operand of this identifier) on a
  known SRG without that member, \<open>no member named\<close> is reported for that member. When it
  holds such an access on an existing member, an identifier that is not one to four of
  the letters \<open>xyzwrgba\<close> is reported as \<open>invalid swizzle property\<close>.
\<close>

theorem unresolved_operand_outcome:
  assumes access: "take pos lineWithoutStrings = pre @ sepr @ ws" "list_all isSpace ws"
    and operand: "sepr = ''.''
       \<or> (sepr = ''::'' \<and> pre = p0 @ srgName \<and> identifierShaped srgName
           \<and> (p0 = [] \<or> \<not> isWordChar (last p0)))"
    and unresolved: "\<forall>srgMemberMatch varMatch varType.
         resolveOperand idx cx i validationBraceDepth line pos (js_trim (take pos lineWithoutStrings))
           = Resolved srgMemberMatch varMatch varType \<longrightarrow> \<not> truthy varType"
  shows "checkIdentifier idx cx i validationBraceDepth line lineWithoutStrings pos identifier =
     (if identifier \<in> builtinIdentifiers \<or> identifier \<in> cx_declarations cx then Skip
      else if sepr = ''::'' \<and> srgMemberFound idx cx srgName identifier then Skip
      else if sepr = ''::'' \<and> srgKnown idx cx srgName
      then Report (errorAt i pos (pos + length identifier)
             (''no member named '' @ quoted identifier @ '' in SRG '' @ quoted srgName))
      else case resolveOperand idx cx i validationBraceDepth line pos
                  (js_trim (take pos lineWithoutStrings)) of
             Done out \<Rightarrow> out
           | Resolved srgMemberMatch varMatch varType \<Rightarrow>
               if (\<exists>srg memberName. srgMemberMatch = Some (srg, memberName)
                     \<and> srgMemberExists idx cx srg memberName)
                  \<and> \<not> (identifier \<noteq> [] \<and> length identifier \<le> 4
                         \<and> set identifier \<subseteq> set ''xyzwrgba'')
               then Report (errorAt i pos (pos + length identifier)
                              (''invalid swizzle property '' @ quoted identifier))
               else Skip)
   \<and> (\<forall>out. resolveOperand idx cx i validationBraceDepth line pos
                (js_trim (take pos lineWithoutStrings)) = Done out \<longrightarrow>
          (\<exists>srg memberName.
             srgKnown idx cx srg \<and> \<not> srgMemberExists idx cx srg memberName
             \<and> out = reportMissingSrgMember i line pos srg memberName))"
proof (intro conjI impI allI)
  have inc: "js_includes (take pos lineWithoutStrings) ''.'' \<or> js_includes (take pos lineWithoutStrings) ''::''"
    using operand unfolding access(1) by (auto intro: js_includes_append)
  have u: "checkUndeclared idx cx i line pos identifier (take pos lineWithoutStrings)
             (drop (pos + length identifier) lineWithoutStrings) = Skip"
    using operand unfolding access(1)
    by (auto intro: checkUndeclared_after_dot checkUndeclared_after_colons access(2))
  have q: "checkSrgQualified idx cx i pos identifier (js_trim (take pos lineWithoutStrings)) =
     (if sepr = ''::'' \<and> srgMemberFound idx cx srgName identifier then Skip
      else if sepr = ''::'' \<and> srgKnown idx cx srgName
      then Report (errorAt i pos (pos + length identifier)
             (''no member named '' @ quoted identifier @ '' in SRG '' @ quoted srgName))
      else Proceed)"
  proof (cases "sepr = ''.''")
    case True
    then obtain X where "js_trim (take pos lineWithoutStrings) = X @ ''.''"
      using js_trim_access [of ws "''.''" pre] access by (auto simp add: not_space_dot)
    with True show ?thesis
      by (simp add: dot_access_not_qualified)
  next
    case False
    with operand have o: "sepr = ''::''" "pre = p0 @ srgName" "identifierShaped srgName"
        "p0 = [] \<or> \<not> isWordChar (last p0)"
      by simp_all
    from js_trim_qualified [OF o(3) access(2) o(4)] obtain p1
      where "js_trim (p0 @ srgName @ ''::'' @ ws) = p1 @ srgName @ ''::''"
        and "p1 = [] \<or> \<not> isWordChar (last p1)"
      by blast
    then show ?thesis
      unfolding access(1) o(1,2) using qualified_access [OF o(3)] by simp
  qed
  show "checkIdentifier idx cx i validationBraceDepth line lineWithoutStrings pos identifier =
     (if identifier \<in> builtinIdentifiers \<or> identifier \<in> cx_declarations cx then Skip
      else if sepr = ''::'' \<and> srgMemberFound idx cx srgName identifier then Skip
      else if sepr = ''::'' \<and> srgKnown idx cx srgName
      then Report (errorAt i pos (pos + length identifier)
             (''no member named '' @ quoted identifier @ '' in SRG '' @ quoted srgName))
      else case resolveOperand idx cx i validationBraceDepth line pos
                  (js_trim (take pos lineWithoutStrings)) of
             Done out \<Rightarrow> out
           | Resolved srgMemberMatch varMatch varType \<Rightarrow>
               if (\<exists>srg memberName. srgMemberMatch = Some (srg, memberName)
                     \<and> srgMemberExists idx cx srg memberName)
                  \<and> \<not> (identifier \<noteq> [] \<and> length identifier \<le> 4
                         \<and> set identifier \<subseteq> set ''xyzwrgba'')
               then Report (errorAt i pos (pos + length identifier)
                              (''invalid swizzle property '' @ quoted identifier))
               else Skip)"
    unfolding checkIdentifier_def checkMemberAccess_def Let_def q
    using inc unresolved u
      resolveOperand_not_Proceed [of idx cx i validationBraceDepth line pos
        "js_trim (take pos lineWithoutStrings)"]
    by (auto simp add: swizzle_test_iff
          split: option.splits prod.splits resolution.splits outcome.splits)
next
  fix out
  assume "resolveOperand idx cx i validationBraceDepth line pos
                (js_trim (take pos lineWithoutStrings)) = Done out"
  then show "\<exists>srg memberName.
             srgKnown idx cx srg \<and> \<not> srgMemberExists idx cx srg memberName
             \<and> out = reportMissingSrgMember i line pos srg memberName"
    by (rule resolveOperand_Done)
qed

text \<open>
  \<open>foo.bar = 1;\<close> with \<open>foo\<close> undeclared, and \<open>x = Foo::qux;\<close> with \<open>Foo\<close> unknown: no type
  on the left, no diagnostic for \<open>bar\<close> and none for \<open>qux\<close>.
\<close>

theorem unresolved_operand_outcome_witness:
  "resolveOperand emptyIndex emptyContext 0 0 ''foo.bar = 1;'' 4 (js_trim (take 4 ''foo.bar = 1;''))
     = Resolved None (Some ''foo'') None
   \<and> checkIdentifier emptyIndex emptyContext 0 0 ''foo.bar = 1;'' ''foo.bar = 1;'' 4 ''bar'' = Skip
   \<and> resolveOperand emptyIndex emptyContext 0 0 ''x = Foo::qux;'' 9 (js_trim (take 9 ''x = Foo::qux;''))
     = Resolved None None None
   \<and> checkIdentifier emptyIndex emptyContext 0 0 ''x = Foo::qux;'' ''x = Foo::qux;'' 9 ''qux'' = Skip"
proof -
  have o: "resolveOperand emptyIndex emptyContext 0 0 ''foo.bar = 1;'' 4 (js_trim ''foo.'')
             = Resolved None (Some ''foo'') None"
      "resolveOperand emptyIndex emptyContext 0 0 ''x = Foo::qux;'' 9 (js_trim ''x = Foo::'')
             = Resolved None None None"
    by (simp_all add: sweep_defs)
  have b: "''bar'' \<notin> builtinIdentifiers" "''qux'' \<notin> builtinIdentifiers"
    by (simp_all add: builtinIdentifiers_def)
  have n: "identifierShaped ''Foo''" "\<not> isWordChar (last ''x = '')"
      "\<not> srgMemberFound emptyIndex emptyContext ''Foo'' ''qux''"
      "\<not> srgKnown emptyIndex emptyContext ''Foo''"
    by (simp_all add: identifierShaped_def srgMemberFound_def srgKnown_def atomTypes_def
          emptyIndex_def emptyContext_def mhas_def charclass_defs)
  show ?thesis
    using o b n
      unresolved_operand_outcome [of 4 "''foo.bar = 1;''" "''foo''" "''.''" "[]" "[]" "[]"
        emptyIndex emptyContext 0 0 "''foo.bar = 1;''" "''bar''"]
      unresolved_operand_outcome [of 9 "''x = Foo::qux;''" "''x = Foo''" "''::''" "[]" "''x = ''" "''Foo''"
        emptyIndex emptyContext 0 0 "''x = Foo::qux;''" "''qux''"]
    by (simp add: truthy_def emptyContext_def js_trim_def isSpace_def)
qed

text \<open>
  \<open>ViewSrg::m_tex\<close> is a member indexed from a header, so it exists and has no recorded type:
  the operand resolves to no type, and the access \<open>.foo\<close> on it is reported.
\<close>

theorem unresolved_srg_member_operand_reports:
  "resolveOperand example_srgIndex emptyContext 1 0 ''x = ViewSrg::m_tex.foo;'' 19
       (js_trim (take 19 ''x = ViewSrg::m_tex.foo;''))
     = Resolved (Some (''ViewSrg'', ''m_tex'')) None None
   \<and> checkIdentifier example_srgIndex emptyContext 1 0 ''x = ViewSrg::m_tex.foo;''
       ''x = ViewSrg::m_tex.foo;'' 19 ''foo''
     = Report \<lparr>dg_line = 1, dg_start = 19, dg_end = 22,
                dg_message = ''invalid swizzle property '' @ [CHR 0x27] @ ''foo'' @ [CHR 0x27],
                dg_severity = Error\<rparr>"
  by (simp add: example_srgIndex_def sweep_defs Let_def)

text \<open>
  The access \<open>Srg::member.\<close> that decides need not be the operand of the identifier: in
  \<open>x = ViewSrg::m_tex.r + Foo::qux;\<close> the pattern of line 4099 finds \<open>ViewSrg::m_tex.\<close> before
  \<open>qux\<close>, and \<open>qux\<close> is reported although it is accessed on \<open>Foo\<close>.
\<close>

lemma srg_access_earlier_on_the_line:
  "checkIdentifier example_srgIndex emptyContext 1 0 ''x = ViewSrg::m_tex.r + Foo::qux;''
       ''x = ViewSrg::m_tex.r + Foo::qux;'' 28 ''qux''
     = Report \<lparr>dg_line = 1, dg_start = 28, dg_end = 31,
                dg_message = ''invalid swizzle property '' @ [CHR 0x27] @ ''qux'' @ [CHR 0x27],
                dg_severity = Error\<rparr>"
  by (simp add: example_srgIndex_def sweep_defs Let_def)

subsection \<open>The fallback diagnostic of the option and SRG pass\<close>














subsection \<open>Incomplete member access in the syntax pass\<close>

lemmas syntax_defs =
  syntaxLine_def withoutComments_def incompleteAccess_def unexpectedSemicolon_def unexpectedDot_def
  isCommentOrDirective_def rx_incompleteAccess_def rx_declarationStart_def
  rx_typedDeclaration_def looksLikeDeclaration_def rx_accessThen_def quoted_def errorAt_def
  rx_search.simps rx_all.simps rxm.simps(6,7) charclass_defs js_defs rx_defs
















text \<open>
  For \<open>foo.\<close> followed by \<open>float x;\<close> and for \<open>foo.\<close> followed by \<open>bar();\<close> alike, the main
  loop reports \<open>syntax error: incomplete member access\<close> on the name \<open>foo\<close>, columns 0 to 3.
\<close>

lemma main_loop_reports_on_the_name:
  "incompleteStatements 0 False [''foo.'', ''float x;'']
     = [\<lparr>dg_line = 0, dg_start = 0, dg_end = 3,
         dg_message = ''syntax error: incomplete member access'', dg_severity = Error\<rparr>]
   \<and> incompleteStatements 0 False [''foo.'', ''bar();'']
     = [\<lparr>dg_line = 0, dg_start = 0, dg_end = 3,
         dg_message = ''syntax error: incomplete member access'', dg_severity = Error\<rparr>]"
  by (simp add: incompleteStatement_def syntaxErrorAt_def blockCommentAfter_def
        removeLineComment_def syntax_defs)

text \<open>
  A pass that does not complete: the last line \<open>a:/**/:\<close> reads \<open>a::\<close> without its comment,
  and the line itself has no \<open>::\<close>.
\<close>

lemma syntax_pass_throws:
  "syntaxPass 0 [''foo.'', ''float x;'', ''a:/**/:''] = None"
  by (simp add: syntax_defs)

subsection \<open>Documents of another language\<close>

text \<open>
  C10. For a document whose language id is not \<open>azsl\<close>, \<open>validateDocument\<close> leaves the
  index and the diagnostic collection as they are, whatever the passes it does not reach
  would report, the two document handlers do the same, and \<open>provideCompletionItems\<close>
  returns the empty list.
\<close>

theorem non_azsl_document_is_ignored:
  assumes "doc_languageId document \<noteq> ''azsl''"
  shows "validateDocument sweepDiagnostics document st = st
       \<and> docChangeWatcher sweepDiagnostics document st = st
       \<and> docOpenWatcher sweepDiagnostics document st = st
       \<and> provideCompletionItems completions document position idx = []"
  using assms
  by (simp add: validateDocument_def docChangeWatcher_def docOpenWatcher_def
        provideCompletionItems_def)

text \<open>
  The document \<open>foo.\<close>, \<open>float x;\<close> with the language id \<open>hlsl\<close>, a sweep that would report
  and a completion that would offer an item.
\<close>

theorem non_azsl_document_is_ignored_witness:
  "doc_languageId (example_docFoo ''hlsl'') \<noteq> ''azsl''
   \<and> validateDocument (\<lambda>idx document. Some [errorAt 0 0 3 ''use of undeclared identifier'']) (example_docFoo ''hlsl'')
        \<lparr>ext_index = emptyIndex, diagnosticCollection = []\<rparr>
      = \<lparr>ext_index = emptyIndex, diagnosticCollection = []\<rparr>
   \<and> provideCompletionItems (\<lambda>document position idx. [''xyz''])
        (example_docFoo ''hlsl'') \<lparr>cur_line = 0, cur_character = 4\<rparr> emptyIndex = []"
  using non_azsl_document_is_ignored
          [of "example_docFoo ''hlsl''"
              "\<lambda>idx document. Some [errorAt 0 0 3 ''use of undeclared identifier'']"
              "\<lparr>ext_index = emptyIndex, diagnosticCollection = []\<rparr>"
              "\<lambda>document position idx. [''xyz'']" "\<lparr>cur_line = 0, cur_character = 4\<rparr>" emptyIndex]
  by (simp add: example_docFoo_def)

text \<open>
  The same document with the language id \<open>azsl\<close>: the diagnostics are set for the
  document, the baseline member sets are added to the index, and the completion items are
  returned.
\<close>

lemma azsl_document_is_validated:
  "diagnosticCollection
     (validateDocument (\<lambda>idx document. Some []) (example_docFoo ''azsl'')
        \<lparr>ext_index = emptyIndex, diagnosticCollection = []\<rparr>)
     = [(''file:///work/foo.azsl'',
         [\<lparr>dg_line = 0, dg_start = 3, dg_end = 4,
           dg_message = ''incomplete member access'', dg_severity = Error\<rparr>])]
   \<and> map_of (atomTypeMembers (ext_index
        (validateDocument (\<lambda>idx document. Some []) (example_docFoo ''azsl'')
           \<lparr>ext_index = emptyIndex, diagnosticCollection = []\<rparr>))) ''Surface'' \<noteq> None
   \<and> provideCompletionItems (\<lambda>document position idx. [''xyz''])
        (example_docFoo ''azsl'') \<lparr>cur_line = 0, cur_character = 4\<rparr> emptyIndex = [''xyz'']"
proof -
  have l: "splitLines (doc_text (example_docFoo ''azsl'')) = [''foo.'', ''float x;'']"
    by (simp add: example_docFoo_def splitLines_def)
  have s: "syntaxPass 0 [''foo.'', ''float x;'']
     = Some [\<lparr>dg_line = 0, dg_start = 3, dg_end = 4,
               dg_message = ''incomplete member access'', dg_severity = Error\<rparr>]"
    by (simp add: syntax_defs)
  have f: "checkShaderVariantFallback idx (baseName ''/work/foo.azsl'') [''foo.'', ''float x;''] = []"
    if "optionIndex idx = []" for idx
    using that
    by (simp add: checkShaderVariantFallback_def scanLine_def documentOptionName_def
          srgDeclarationOf_def rx_documentOption_def rx_srgDeclaration_def stripComments_def
          baseName_def rx_search.simps rxm.simps(6,7) charclass_defs js_defs rx_defs)
  have o: "optionIndex (indexDocumentStructs (example_docFoo ''azsl'') emptyIndex) = []"
    by (simp add: indexDocumentStructs_def example_docFoo_def emptyIndex_def emptyScan_def Let_def)
  have a: "map_of (atomTypeMembers (indexDocumentStructs (example_docFoo ''azsl'') emptyIndex)) ''Surface''
             \<noteq> None"
    by (simp add: indexDocumentStructs_def example_docFoo_def emptyIndex_def emptyScan_def Let_def
          setIfAbsent_def mhas_def)
  have d: "doc_languageId (example_docFoo ''azsl'') = ''azsl''"
      "doc_fileName (example_docFoo ''azsl'') = ''/work/foo.azsl''"
      "doc_uri (example_docFoo ''azsl'') = ''file:///work/foo.azsl''"
    by (simp_all add: example_docFoo_def)
  show ?thesis
    unfolding validateDocument_def provideCompletionItems_def Let_def
    using a by (simp add: l s f [OF o] d del: syntaxPass.simps)
qed

end
